theory Spec2Isabelle
  imports Complex_Main "HOL-Library.AList"
begin

section \<open>Data model of the detection engine (src/polymarket_bot.py)\<close>

text \<open>
  Conventions of the embedding.
  \<^item> The type variable \<open>'n\<close> is the type of Python's numbers, ints and floats alike.
    Python's operators on them are not defined here: they are the fields of the record
    \<open>arith\<close>, a parameter of the model, so that nothing below depends on how floats
    round, on \<open>nan\<close> or on \<open>inf\<close>. \<open>py_lt ar a b\<close> is \<open>a < b\<close> (and \<open>b > a\<close>),
    \<open>py_le ar a b\<close> is \<open>a <= b\<close> (and \<open>b >= a\<close>), \<open>py_int ar i\<close> is the int \<open>i\<close>
    as a number, \<open>py_float_lit ar q\<close> the float that the literal with the decimal value
    \<open>q\<close> denotes, \<open>py_sum\<close> is \<open>sum\<close> on a list.
  \<^item> A \<open>datetime\<close> is a position on a time line in microseconds, together with the
    flag that says whether it carries a UTC offset. Subtracting a datetime with an offset
    and one without raises \<open>TypeError\<close>. \<open>datetime.fromisoformat\<close> is a library
    function and is a parameter \<open>fromiso\<close> of the model; \<open>None\<close> is its \<open>ValueError\<close>.
  \<^item> The two readings of the wall clock taken during one call of \<open>analyze_trade\<close> are
    the record \<open>clock\<close>; \<open>datetime.now()\<close> carries no offset.
  \<^item> The fields of a trade and of the market metadata are taken as the numbers and
    strings that \<open>float(...)\<close> and \<open>.get\<close> yield when the key is present.
  \<^item> A dict is an association list in insertion order; \<open>AList.update\<close> overwrites in
    place or appends the new key at the end, as a Python dict does.
  \<^item> An exception is the left injection of a sum; the state reached when it is raised
    is returned with it, since the mutations done before remain.
\<close>

record 'n arith =
  py_int :: "int \<Rightarrow> 'n"
  py_float_lit :: "rat \<Rightarrow> 'n"
  py_mul :: "'n \<Rightarrow> 'n \<Rightarrow> 'n"
  py_div :: "'n \<Rightarrow> 'n \<Rightarrow> 'n"
  py_sub :: "'n \<Rightarrow> 'n \<Rightarrow> 'n"
  py_abs :: "'n \<Rightarrow> 'n"
  py_sum :: "'n list \<Rightarrow> 'n"
  py_lt :: "'n \<Rightarrow> 'n \<Rightarrow> bool"
  py_le :: "'n \<Rightarrow> 'n \<Rightarrow> bool"

record pydatetime =
  tz_aware :: bool
  micros :: int

datatype py_error = ValueError | KeyError | IndexError | TypeError

record 'n trade =
  t_maker_address :: "string option"
  t_size :: "'n option"
  t_price :: "'n option"
  t_timestamp :: "string option"
  t_outcome :: "string option"

record 'n market_data =
  condition_id :: "string option"
  question :: "string option"
  volume :: "'n option"

record 'n wallet_entry =
  h_timestamp :: string
  h_market :: string
  h_market_id :: "string option"
  h_size :: 'n
  h_value :: 'n
  h_price :: 'n
  h_outcome :: string

record 'n price_entry =
  p_timestamp :: string
  p_price :: 'n

record 'n outcome_entry =
  o_market_id :: "string option"
  o_outcome :: string
  o_price :: 'n

text \<open>The alert dicts, one constructor for each value of the field \<open>type\<close>; the last
  argument of every constructor is the field \<open>key\<close>, the first the field \<open>wallet\<close>.\<close>

datatype 'n alert =
    FRESH_WALLET_LARGE_BET string int 'n string string
  | UNUSUAL_SIZE string 'n 'n string string
  | REPEAT_NICHE_PLAYER string nat 'n string string
  | HIGH_WIN_RATE_TRADER string nat nat string 'n 'n string
  | PRE_MOVE_POSITIONING string 'n 'n 'n 'n string string
  | COORDINATED_ENTRY string nat string string 'n string

fun alert_type :: "'n alert \<Rightarrow> string" where
  "alert_type (FRESH_WALLET_LARGE_BET w a v m k) = ''FRESH_WALLET_LARGE_BET''"
| "alert_type (UNUSUAL_SIZE w sz av m k) = ''UNUSUAL_SIZE''"
| "alert_type (REPEAT_NICHE_PLAYER w n v m k) = ''REPEAT_NICHE_PLAYER''"
| "alert_type (HIGH_WIN_RATE_TRADER w c n m p v k) = ''HIGH_WIN_RATE_TRADER''"
| "alert_type (PRE_MOVE_POSITIONING w v p0 p1 ch m k) = ''PRE_MOVE_POSITIONING''"
| "alert_type (COORDINATED_ENTRY w n oc m v k) = ''COORDINATED_ENTRY''"

fun key_of :: "'n alert \<Rightarrow> string" where
  "key_of (FRESH_WALLET_LARGE_BET w a v m k) = k"
| "key_of (UNUSUAL_SIZE w sz av m k) = k"
| "key_of (REPEAT_NICHE_PLAYER w n v m k) = k"
| "key_of (HIGH_WIN_RATE_TRADER w c n m p v k) = k"
| "key_of (PRE_MOVE_POSITIONING w v p0 p1 ch m k) = k"
| "key_of (COORDINATED_ENTRY w n oc m v k) = k"

text \<open>\<open>now_iso\<close> is \<open>datetime.now().isoformat()\<close> of line 228, \<open>now_age\<close> the reading of
  \<open>datetime.now()\<close> at line 216, in microseconds.\<close>

record clock =
  now_iso :: string
  now_age :: int

text \<open>The fields of \<open>self\<close> that the engine and the command handler read or write.\<close>

record 'n bot =
  wallet_history :: "(string \<times> 'n wallet_entry list) list"
  market_volumes :: "(string option \<times> 'n list) list"
  market_prices :: "(string option \<times> 'n price_entry list) list"
  wallet_outcomes :: "(string \<times> 'n outcome_entry list) list"
  sent_alerts :: "string set"
  is_paused :: bool
  scan_interval :: int
  thresholds :: "(string \<times> 'n) list"

text \<open>Lines 33-45.\<close>

definition init_thresholds :: "'n arith \<Rightarrow> (string \<times> 'n) list" where
  "init_thresholds ar =
     [(''fresh_wallet_days'', py_int ar 7),
      (''fresh_wallet_min_value'', py_int ar 1000),
      (''unusual_size_multiplier'', py_float_lit ar (5 / 2)),
      (''niche_volume_max'', py_int ar 10000),
      (''niche_trades_min'', py_int ar 3),
      (''win_rate_conviction_min'', py_int ar 7),
      (''win_rate_min_value'', py_int ar 300),
      (''pre_move_min_value'', py_int ar 500),
      (''pre_move_change_pct'', py_float_lit ar (3 / 20)),
      (''coordinated_min_value'', py_int ar 200),
      (''coordinated_min_wallets'', py_int ar 3)]"

definition init_bot :: "'n arith \<Rightarrow> 'n bot" where
  "init_bot ar =
     \<lparr>wallet_history = [], market_volumes = [], market_prices = [], wallet_outcomes = [],
      sent_alerts = {}, is_paused = False, scan_interval = 60,
      thresholds = init_thresholds ar\<rparr>"

section \<open>Dict and list helpers\<close>

text \<open>\<open>d.get(k, [])\<close>, and the read \<open>d[k]\<close> of a \<open>defaultdict(list)\<close>.\<close>

definition dict_get :: "('k \<times> 'v list) list \<Rightarrow> 'k \<Rightarrow> 'v list" where
  "dict_get d k = (case map_of d k of None \<Rightarrow> [] | Some v \<Rightarrow> v)"

text \<open>\<open>d[k].append(x)\<close> on a \<open>defaultdict(list)\<close>.\<close>

definition dict_append :: "('k \<times> 'v list) list \<Rightarrow> 'k \<Rightarrow> 'v \<Rightarrow> ('k \<times> 'v list) list" where
  "dict_append d k x = AList.update k (dict_get d k @ [x]) d"

text \<open>\<open>d[k].append(x)\<close> followed by \<open>if len(d[k]) > cap: d[k].pop(0)\<close>.\<close>

definition append_capped ::
  "nat \<Rightarrow> ('k \<times> 'v list) list \<Rightarrow> 'k \<Rightarrow> 'v \<Rightarrow> ('k \<times> 'v list) list" where
  "append_capped cap d k x =
     (let d' = dict_append d k x
      in if length (dict_get d' k) > cap then AList.update k (tl (dict_get d' k)) d' else d')"

text \<open>The slice \<open>xs[-n:]\<close> for \<open>n > 0\<close>.\<close>

definition last_n :: "nat \<Rightarrow> 'a list \<Rightarrow> 'a list" where
  "last_n n xs = drop (length xs - n) xs"

text \<open>Sequencing of computations that may raise.\<close>

definition bind :: "py_error + 'a \<Rightarrow> ('a \<Rightarrow> py_error + 'b) \<Rightarrow> py_error + 'b" where
  "bind r f = (case r of Inl e \<Rightarrow> Inl e | Inr x \<Rightarrow> f x)"

text \<open>\<open>self.thresholds[name]\<close>.\<close>

definition th_get :: "(string \<times> 'n) list \<Rightarrow> string \<Rightarrow> py_error + 'n" where
  "th_get th name = (case map_of th name of None \<Rightarrow> Inl KeyError | Some v \<Rightarrow> Inr v)"

text \<open>The truth value of \<open>market_data.get('condition_id')\<close> in \<open>if market_id:\<close>.\<close>

definition truthy :: "string option \<Rightarrow> bool" where
  "truthy market_id = (case market_id of None \<Rightarrow> False | Some c \<Rightarrow> c \<noteq> [])"

text \<open>The difference \<open>a - b\<close> of two datetimes, a timedelta in microseconds.\<close>

definition dt_sub :: "pydatetime \<Rightarrow> pydatetime \<Rightarrow> py_error + int" where
  "dt_sub a b = (if tz_aware a = tz_aware b then Inr (micros a - micros b) else Inl TypeError)"

section \<open>get_wallet_age (lines 212-218)\<close>

definition microseconds_per_day :: int where
  "microseconds_per_day = 86400000000"

text \<open>\<open>.days\<close> of a timedelta is the floor of its length in days.\<close>

definition get_wallet_age ::
  "(string \<Rightarrow> pydatetime option) \<Rightarrow> clock \<Rightarrow> 'n bot \<Rightarrow> string \<Rightarrow> py_error + int option" where
  "get_wallet_age fromiso clk s address =
     (case map_of (wallet_history s) address of
        None \<Rightarrow> Inr None
      | Some trades \<Rightarrow>
          (case trades of
             [] \<Rightarrow> Inl IndexError
           | e # _ \<Rightarrow>
               (case fromiso (h_timestamp e) of
                  None \<Rightarrow> Inl ValueError
                | Some first_seen \<Rightarrow>
                    bind (dt_sub \<lparr>tz_aware = False, micros = now_age clk\<rparr> first_seen)
                      (\<lambda>age. Inr (Some (age div microseconds_per_day))))))"

section \<open>analyze_trade (lines 220-378)\<close>

subsection \<open>The locals of lines 224-231\<close>

definition wallet_of :: "'n trade \<Rightarrow> string" where
  "wallet_of tr = (case t_maker_address tr of None \<Rightarrow> ''unknown'' | Some w \<Rightarrow> w)"

definition size_of :: "'n arith \<Rightarrow> 'n trade \<Rightarrow> 'n" where
  "size_of ar tr = (case t_size tr of None \<Rightarrow> py_float_lit ar 0 | Some x \<Rightarrow> x)"

definition price_of :: "'n arith \<Rightarrow> 'n trade \<Rightarrow> 'n" where
  "price_of ar tr = (case t_price tr of None \<Rightarrow> py_float_lit ar 0 | Some x \<Rightarrow> x)"

definition value_of :: "'n arith \<Rightarrow> 'n trade \<Rightarrow> 'n" where
  "value_of ar tr = py_mul ar (size_of ar tr) (price_of ar tr)"

definition timestamp_of :: "clock \<Rightarrow> 'n trade \<Rightarrow> string" where
  "timestamp_of clk tr = (case t_timestamp tr of None \<Rightarrow> now_iso clk | Some ts \<Rightarrow> ts)"

definition outcome_of :: "'n trade \<Rightarrow> string" where
  "outcome_of tr = (case t_outcome tr of None \<Rightarrow> ''unknown'' | Some oc \<Rightarrow> oc)"

definition question_of :: "'n market_data \<Rightarrow> string" where
  "question_of md = (case question md of None \<Rightarrow> ''unknown'' | Some q \<Rightarrow> q)"

definition volume_of :: "'n arith \<Rightarrow> 'n market_data \<Rightarrow> 'n" where
  "volume_of ar md = (case volume md of None \<Rightarrow> py_float_lit ar 0 | Some v \<Rightarrow> v)"

text \<open>Line 231: the f-string \<open>f"{wallet}_{market_data.get('condition_id')}_{timestamp}"\<close>;
  an absent condition id is formatted as \<open>None\<close>.\<close>

definition alert_key :: "string \<Rightarrow> string option \<Rightarrow> string \<Rightarrow> string" where
  "alert_key wallet cid ts =
     wallet @ ''_'' @ (case cid of None \<Rightarrow> ''None'' | Some c \<Rightarrow> c) @ ''_'' @ ts"

subsection \<open>The six rules\<close>

text \<open>Lines 255-265.\<close>

definition fresh_wallet_rule ::
  "'n arith \<Rightarrow> (string \<times> 'n) list \<Rightarrow> int option \<Rightarrow> string \<Rightarrow> 'n \<Rightarrow> string \<Rightarrow> string
     \<Rightarrow> py_error + 'n alert list" where
  "fresh_wallet_rule ar th wallet_age wallet val market key =
     (case wallet_age of
        None \<Rightarrow> Inr []
      | Some age \<Rightarrow>
          bind (th_get th ''fresh_wallet_days'') (\<lambda>days.
            if py_lt ar (py_int ar age) days then
              bind (th_get th ''fresh_wallet_min_value'') (\<lambda>min_value.
                Inr (if py_lt ar min_value val
                     then [FRESH_WALLET_LARGE_BET wallet age val market key] else []))
            else Inr []))"

text \<open>Lines 268-279, inside \<open>if market_id:\<close>.\<close>

definition unusual_size_rule ::
  "'n arith \<Rightarrow> (string \<times> 'n) list \<Rightarrow> 'n list \<Rightarrow> string \<Rightarrow> 'n \<Rightarrow> string \<Rightarrow> string
     \<Rightarrow> py_error + 'n alert list" where
  "unusual_size_rule ar th recent_trades wallet sz market key =
     (if length recent_trades > 10 then
        (let avg_size = py_div ar (py_sum ar recent_trades)
                          (py_int ar (int (length recent_trades)))
         in bind (th_get th ''unusual_size_multiplier'') (\<lambda>mult.
              Inr (if py_lt ar (py_mul ar avg_size mult) sz
                   then [UNUSUAL_SIZE wallet sz avg_size market key] else [])))
      else Inr [])"

text \<open>Lines 289-298.\<close>

definition niche_rule ::
  "'n arith \<Rightarrow> (string \<times> 'n) list \<Rightarrow> 'n wallet_entry list \<Rightarrow> 'n \<Rightarrow> string \<Rightarrow> string
     \<Rightarrow> string \<Rightarrow> py_error + 'n alert list" where
  "niche_rule ar th same_market_trades vol wallet market key =
     bind (th_get th ''niche_trades_min'') (\<lambda>trades_min.
       if py_lt ar trades_min (py_int ar (int (length same_market_trades))) then
         bind (th_get th ''niche_volume_max'') (\<lambda>volume_max.
           Inr (if py_lt ar vol volume_max
                then [REPEAT_NICHE_PLAYER wallet (length same_market_trades) vol market key]
                else []))
       else Inr [])"

text \<open>Lines 306-323.\<close>

definition conviction_rule ::
  "'n arith \<Rightarrow> (string \<times> 'n) list \<Rightarrow> 'n outcome_entry list \<Rightarrow> string \<Rightarrow> string \<Rightarrow> 'n
     \<Rightarrow> 'n \<Rightarrow> string \<Rightarrow> py_error + 'n alert list" where
  "conviction_rule ar th outcomes wallet market pr val key =
     (if length outcomes \<ge> 10 then
        (let high_conviction_trades =
               filter (\<lambda>t. py_lt ar (py_float_lit ar (4 / 5)) (o_price t)
                          \<or> py_lt ar (o_price t) (py_float_lit ar (1 / 5)))
                 (last_n 20 outcomes)
         in bind (th_get th ''win_rate_conviction_min'') (\<lambda>conviction_min.
              if py_le ar conviction_min (py_int ar (int (length high_conviction_trades))) then
                bind (th_get th ''win_rate_min_value'') (\<lambda>min_value.
                  Inr (if py_lt ar min_value val
                       then [HIGH_WIN_RATE_TRADER wallet (length high_conviction_trades)
                               (length outcomes) market pr val key]
                       else []))
              else Inr []))
      else Inr [])"

text \<open>Lines 329-332: the list comprehension; it raises at the first entry whose timestamp
  does not parse or cannot be subtracted from \<open>now\<close>.\<close>

fun last_30_min ::
  "(string \<Rightarrow> pydatetime option) \<Rightarrow> pydatetime \<Rightarrow> 'n price_entry list
     \<Rightarrow> py_error + 'n price_entry list" where
  "last_30_min fromiso now [] = Inr []"
| "last_30_min fromiso now (p # ps) =
     (case fromiso (p_timestamp p) of
        None \<Rightarrow> Inl ValueError
      | Some t \<Rightarrow>
          bind (dt_sub now t) (\<lambda>elapsed.
            bind (last_30_min fromiso now ps) (\<lambda>rest.
              Inr (if elapsed < 1800000000 then p # rest else rest))))"

text \<open>Lines 325-348.\<close>

definition pre_move_rule ::
  "'n arith \<Rightarrow> (string \<Rightarrow> pydatetime option) \<Rightarrow> (string \<times> 'n) list \<Rightarrow> string option
     \<Rightarrow> 'n price_entry list \<Rightarrow> 'n \<Rightarrow> string \<Rightarrow> 'n \<Rightarrow> string \<Rightarrow> string \<Rightarrow> string
     \<Rightarrow> py_error + 'n alert list" where
  "pre_move_rule ar fromiso th market_id recent_prices val ts pr wallet market key =
     (if truthy market_id then
        bind (th_get th ''pre_move_min_value'') (\<lambda>min_value.
          if py_lt ar min_value val then
            (if length recent_prices > 10 then
               (case fromiso ts of
                  None \<Rightarrow> Inl ValueError
                | Some now \<Rightarrow>
                    bind (last_30_min fromiso now recent_prices) (\<lambda>l30.
                      if length l30 \<ge> 5 then
                        (let old_price = p_price (hd l30);
                             price_change = py_abs ar (py_sub ar pr old_price)
                         in bind (th_get th ''pre_move_change_pct'') (\<lambda>change_pct.
                              Inr (if py_lt ar change_pct price_change
                                   then [PRE_MOVE_POSITIONING wallet val old_price pr
                                           (py_mul ar price_change (py_int ar 100)) market key]
                                   else [])))
                      else Inr []))
             else Inr [])
          else Inr [])
      else Inr [])"

text \<open>Lines 357-361: the inner loop over \<open>trades[-5:]\<close> of one other wallet \<open>w\<close>.\<close>

fun scan_trades ::
  "(string \<Rightarrow> pydatetime option) \<Rightarrow> pydatetime \<Rightarrow> string option \<Rightarrow> string \<Rightarrow> string
     \<Rightarrow> 'n wallet_entry list \<Rightarrow> py_error + string list" where
  "scan_trades fromiso now market_id oc w [] = Inr []"
| "scan_trades fromiso now market_id oc w (t # ts) =
     (if h_market_id t = market_id \<and> h_outcome t = oc then
        (case fromiso (h_timestamp t) of
           None \<Rightarrow> Inl ValueError
         | Some trade_time \<Rightarrow>
             bind (dt_sub now trade_time) (\<lambda>elapsed.
               bind (scan_trades fromiso now market_id oc w ts) (\<lambda>rest.
                 Inr (if \<bar>elapsed\<bar> < 300000000 then w # rest else rest))))
      else scan_trades fromiso now market_id oc w ts)"

text \<open>Lines 353-361: the outer loop over \<open>self.wallet_history.items()\<close>.\<close>

fun scan_wallets ::
  "(string \<Rightarrow> pydatetime option) \<Rightarrow> pydatetime \<Rightarrow> string option \<Rightarrow> string \<Rightarrow> string
     \<Rightarrow> (string \<times> 'n wallet_entry list) list \<Rightarrow> py_error + string list" where
  "scan_wallets fromiso now market_id oc wallet [] = Inr []"
| "scan_wallets fromiso now market_id oc wallet ((w, trades) # items) =
     (if w = wallet then scan_wallets fromiso now market_id oc wallet items
      else
        bind (scan_trades fromiso now market_id oc w (last_n 5 trades)) (\<lambda>found.
          bind (scan_wallets fromiso now market_id oc wallet items) (\<lambda>rest.
            Inr (found @ rest))))"

text \<open>Lines 350-373.\<close>

definition coordinated_rule ::
  "'n arith \<Rightarrow> (string \<Rightarrow> pydatetime option) \<Rightarrow> (string \<times> 'n) list \<Rightarrow> string option
     \<Rightarrow> (string \<times> 'n wallet_entry list) list
     \<Rightarrow> 'n \<Rightarrow> string \<Rightarrow> string \<Rightarrow> string \<Rightarrow> string \<Rightarrow> string \<Rightarrow> py_error + 'n alert list" where
  "coordinated_rule ar fromiso th market_id history val ts oc wallet market key =
     (if truthy market_id then
        bind (th_get th ''coordinated_min_value'') (\<lambda>min_value.
          if py_lt ar min_value val then
            (case fromiso ts of
               None \<Rightarrow> Inl ValueError
             | Some now \<Rightarrow>
                 bind (scan_wallets fromiso now market_id oc wallet history) (\<lambda>similar_recent.
                   (let unique_wallets = set similar_recent
                    in bind (th_get th ''coordinated_min_wallets'') (\<lambda>min_wallets.
                         Inr (if py_le ar min_wallets (py_int ar (int (card unique_wallets + 1)))
                              then [COORDINATED_ENTRY wallet (card unique_wallets + 1) oc
                                      market val key]
                              else [])))))
          else Inr [])
      else Inr [])"

subsection \<open>The store updates\<close>

text \<open>The dicts appended at lines 235-243, 247-250 and 300-304.\<close>

definition wallet_entry_of ::
  "'n arith \<Rightarrow> clock \<Rightarrow> 'n trade \<Rightarrow> 'n market_data \<Rightarrow> 'n wallet_entry" where
  "wallet_entry_of ar clk tr md =
     \<lparr>h_timestamp = timestamp_of clk tr, h_market = question_of md,
      h_market_id = condition_id md, h_size = size_of ar tr, h_value = value_of ar tr,
      h_price = price_of ar tr, h_outcome = outcome_of tr\<rparr>"

definition price_entry_of :: "'n arith \<Rightarrow> clock \<Rightarrow> 'n trade \<Rightarrow> 'n price_entry" where
  "price_entry_of ar clk tr = \<lparr>p_timestamp = timestamp_of clk tr, p_price = price_of ar tr\<rparr>"

definition outcome_entry_of :: "'n arith \<Rightarrow> 'n trade \<Rightarrow> 'n market_data \<Rightarrow> 'n outcome_entry" where
  "outcome_entry_of ar tr md =
     \<lparr>o_market_id = condition_id md, o_outcome = outcome_of tr, o_price = price_of ar tr\<rparr>"

text \<open>Lines 235-243.\<close>

definition record_wallet_trade ::
  "'n arith \<Rightarrow> clock \<Rightarrow> 'n trade \<Rightarrow> 'n market_data \<Rightarrow> 'n bot \<Rightarrow> 'n bot" where
  "record_wallet_trade ar clk tr md s =
     s\<lparr>wallet_history :=
         dict_append (wallet_history s) (wallet_of tr) (wallet_entry_of ar clk tr md)\<rparr>"

text \<open>Lines 245-252.\<close>

definition record_price ::
  "'n arith \<Rightarrow> clock \<Rightarrow> 'n trade \<Rightarrow> 'n market_data \<Rightarrow> 'n bot \<Rightarrow> 'n bot" where
  "record_price ar clk tr md s =
     (if truthy (condition_id md) then
        s\<lparr>market_prices :=
            append_capped 200 (market_prices s) (condition_id md) (price_entry_of ar clk tr)\<rparr>
      else s)"

text \<open>Lines 281-283, inside \<open>if market_id:\<close>.\<close>

definition record_size :: "'n arith \<Rightarrow> 'n trade \<Rightarrow> 'n market_data \<Rightarrow> 'n bot \<Rightarrow> 'n bot" where
  "record_size ar tr md s =
     (if truthy (condition_id md) then
        s\<lparr>market_volumes :=
            append_capped 100 (market_volumes s) (condition_id md) (size_of ar tr)\<rparr>
      else s)"

text \<open>Lines 300-304.\<close>

definition record_outcome :: "'n arith \<Rightarrow> 'n trade \<Rightarrow> 'n market_data \<Rightarrow> 'n bot \<Rightarrow> 'n bot" where
  "record_outcome ar tr md s =
     s\<lparr>wallet_outcomes :=
         dict_append (wallet_outcomes s) (wallet_of tr) (outcome_entry_of ar tr md)\<rparr>"

text \<open>Lines 375-376.\<close>

definition mark_sent :: "'n alert list \<Rightarrow> 'n bot \<Rightarrow> 'n bot" where
  "mark_sent alerts s =
     s\<lparr>sent_alerts := foldl (\<lambda>seen a. insert (key_of a) seen) (sent_alerts s) alerts\<rparr>"

subsection \<open>The function\<close>

definition analyze_trade ::
  "'n arith \<Rightarrow> (string \<Rightarrow> pydatetime option) \<Rightarrow> clock \<Rightarrow> 'n trade \<Rightarrow> 'n market_data \<Rightarrow> 'n bot
     \<Rightarrow> (py_error + 'n alert list) \<times> 'n bot" where
  "analyze_trade ar fromiso clk tr md s =
     (let wallet = wallet_of tr;
          sz = size_of ar tr;
          pr = price_of ar tr;
          val = value_of ar tr;
          ts = timestamp_of clk tr;
          oc = outcome_of tr;
          market = question_of md;
          key = alert_key wallet (condition_id md) ts
      in
      if key \<in> sent_alerts s then (Inr [], s)
      else
        (let s1 = record_wallet_trade ar clk tr md s;
             market_id = condition_id md;
             s2 = record_price ar clk tr md s1
         in
         case get_wallet_age fromiso clk s2 wallet of
           Inl e \<Rightarrow> (Inl e, s2)
         | Inr wallet_age \<Rightarrow>
         (case fresh_wallet_rule ar (thresholds s2) wallet_age wallet val market key of
           Inl e \<Rightarrow> (Inl e, s2)
         | Inr a1 \<Rightarrow>
         (case (if truthy market_id
                then unusual_size_rule ar (thresholds s2)
                       (dict_get (market_volumes s2) market_id) wallet sz market key
                else Inr []) of
           Inl e \<Rightarrow> (Inl e, s2)
         | Inr a2 \<Rightarrow>
         (let s3 = record_size ar tr md s2;
              wallet_trades = dict_get (wallet_history s3) wallet;
              same_market_trades =
                filter (\<lambda>t. Some (h_market t) = question md) wallet_trades;
              vol = volume_of ar md
          in
          case niche_rule ar (thresholds s3) same_market_trades vol wallet market key of
            Inl e \<Rightarrow> (Inl e, s3)
          | Inr a3 \<Rightarrow>
          (let s4 = record_outcome ar tr md s3 in
           case conviction_rule ar (thresholds s4) (dict_get (wallet_outcomes s4) wallet)
                  wallet market pr val key of
             Inl e \<Rightarrow> (Inl e, s4)
           | Inr a4 \<Rightarrow>
           (case pre_move_rule ar fromiso (thresholds s4) market_id
                   (dict_get (market_prices s4) market_id) val ts pr wallet market key of
             Inl e \<Rightarrow> (Inl e, s4)
           | Inr a5 \<Rightarrow>
           (case coordinated_rule ar fromiso (thresholds s4) market_id (wallet_history s4)
                   val ts oc wallet market key of
             Inl e \<Rightarrow> (Inl e, s4)
           | Inr a6 \<Rightarrow>
             (let alerts = a1 @ a2 @ a3 @ a4 @ a5 @ a6
              in (Inr alerts, mark_sent alerts s4))))))))))"

section \<open>process_command (lines 77-172)\<close>

text \<open>
  The message dict holds the field \<open>text\<close>, or not. What \<open>send_telegram\<close> is given is
  the value \<open>reply\<close>, one constructor for each message text of the source with the values
  interpolated into it. \<open>float\<close> on a string is a library function and is the parameter
  \<open>pyfloat\<close>: \<open>None\<close> is its \<open>ValueError\<close>, and a number that it returns may be any
  float, also \<open>nan\<close> or \<open>inf\<close>. Text is taken in the range of the characters 0 to 255.
\<close>

record message =
  m_text :: "string option"

datatype 'n reply =
    Help
  | Paused
  | Resumed
  | Status bool int nat nat nat
  | Interval_set int
  | Interval_out_of_range
  | Interval_usage int
  | Thresholds_list "(string \<times> 'n) list"
  | Set_ok string 'n
  | Unknown_parameter string
  | Invalid_value
  | Set_usage
  | Stats nat nat nat nat

text \<open>The characters for which \<open>str.isspace()\<close> holds.\<close>

definition is_space :: "char \<Rightarrow> bool" where
  "is_space c = (c \<in> set [CHR 0x20, CHR 0x09, CHR 0x0A, CHR 0x0B, CHR 0x0C, CHR 0x0D,
                           CHR 0x1C, CHR 0x1D, CHR 0x1E, CHR 0x1F, CHR 0x85, CHR 0xA0])"

text \<open>\<open>str.strip()\<close>.\<close>

definition strip :: "string \<Rightarrow> string" where
  "strip s = rev (dropWhile is_space (rev (dropWhile is_space s)))"

text \<open>\<open>str.split()\<close>: the maximal runs of characters that are not whitespace.\<close>

fun split_from :: "string \<Rightarrow> string \<Rightarrow> string list" where
  "split_from cur [] = (if cur = [] then [] else [cur])"
| "split_from cur (c # cs) =
     (if is_space c then (if cur = [] then split_from [] cs else cur # split_from [] cs)
      else split_from (cur @ [c]) cs)"

definition split :: "string \<Rightarrow> string list" where
  "split s = split_from [] s"

definition startswith :: "string \<Rightarrow> string \<Rightarrow> bool" where
  "startswith s prefix = (take (length prefix) s = prefix)"

text \<open>\<open>str.isdigit()\<close>: the decimal digits and the superscripts 1, 2 and 3.\<close>

definition isdigit :: "string \<Rightarrow> bool" where
  "isdigit s =
     (s \<noteq> [] \<and> (\<forall>c \<in> set s. c \<in> set ''0123456789'' \<or> c \<in> set [CHR 0xB2, CHR 0xB3, CHR 0xB9]))"

text \<open>\<open>int\<close> on a string for which \<open>isdigit\<close> holds: the value of its decimal digits;
  a superscript is a \<open>ValueError\<close>.\<close>

definition int_of_digits :: "string \<Rightarrow> py_error + int" where
  "int_of_digits s =
     (if \<forall>c \<in> set s. c \<in> set ''0123456789''
      then Inr (foldl (\<lambda>n c. 10 * n + (of_char c - 48)) 0 s)
      else Inl ValueError)"

text \<open>Line 79: \<open>message.get('text', '').strip()\<close>.\<close>

definition command_text :: "message \<Rightarrow> string" where
  "command_text msg = strip (case m_text msg of None \<Rightarrow> [] | Some t \<Rightarrow> t)"

text \<open>Lines 127-136, the body of the branch for \<open>/interval\<close>.\<close>

definition interval_command :: "string \<Rightarrow> 'n bot \<Rightarrow> (py_error + 'n reply option) \<times> 'n bot" where
  "interval_command text s =
     (case split text of
        [cmd, arg] \<Rightarrow>
          if isdigit arg then
            (case int_of_digits arg of
               Inl e \<Rightarrow> (Inl e, s)
             | Inr new_interval \<Rightarrow>
                 if 10 \<le> new_interval \<and> new_interval \<le> 600
                 then (Inr (Some (Interval_set new_interval)),
                       s\<lparr>scan_interval := new_interval\<rparr>)
                 else (Inr (Some Interval_out_of_range), s))
          else (Inr (Some (Interval_usage (scan_interval s))), s)
      | _ \<Rightarrow> (Inr (Some (Interval_usage (scan_interval s))), s))"

text \<open>Lines 146-159, the body of the branch for \<open>/set\<close>.\<close>

definition set_command ::
  "(string \<Rightarrow> 'n option) \<Rightarrow> string \<Rightarrow> 'n bot \<Rightarrow> (py_error + 'n reply option) \<times> 'n bot" where
  "set_command pyfloat text s =
     (case split text of
        [cmd, param, arg] \<Rightarrow>
          (case pyfloat arg of
             None \<Rightarrow> (Inr (Some Invalid_value), s)
           | Some v \<Rightarrow>
               if map_of (thresholds s) param \<noteq> None
               then (Inr (Some (Set_ok param v)),
                     s\<lparr>thresholds := AList.update param v (thresholds s)\<rparr>)
               else (Inr (Some (Unknown_parameter param)), s))
      | _ \<Rightarrow> (Inr (Some Set_usage), s))"

definition process_command ::
  "(string \<Rightarrow> 'n option) \<Rightarrow> message \<Rightarrow> 'n bot \<Rightarrow> (py_error + 'n reply option) \<times> 'n bot" where
  "process_command pyfloat msg s =
     (let text = command_text msg in
      if text = ''/start'' \<or> text = ''/help'' then (Inr (Some Help), s)
      else if text = ''/pause'' then (Inr (Some Paused), s\<lparr>is_paused := True\<rparr>)
      else if text = ''/resume'' then (Inr (Some Resumed), s\<lparr>is_paused := False\<rparr>)
      else if text = ''/status'' then
        (Inr (Some (Status (\<not> is_paused s) (scan_interval s) (length (wallet_history s))
                 (length (market_volumes s)) (card (sent_alerts s)))), s)
      else if startswith text ''/interval'' then interval_command text s
      else if text = ''/thresholds'' then (Inr (Some (Thresholds_list (thresholds s))), s)
      else if startswith text ''/set'' then set_command pyfloat text s
      else if text = ''/stats'' then
        (Inr (Some (Stats (length (wallet_history s))
                 (sum_list (map (\<lambda>(w, trades). length trades) (wallet_history s)))
                 (length (market_volumes s)) (card (sent_alerts s)))), s)
      else (Inr None, s))"

section \<open>Sequences of calls\<close>

text \<open>After \<open>__init__\<close> the state changes only through \<open>analyze_trade\<close> (called by the scan
  path, with whatever the clock reads then) and \<open>process_command\<close> (called by the
  listener). A call that raises leaves the state it had reached.\<close>

datatype 'n event = Trade_event clock "'n trade" "'n market_data" | Command_event message

fun step ::
  "'n arith \<Rightarrow> (string \<Rightarrow> 'n option) \<Rightarrow> (string \<Rightarrow> pydatetime option) \<Rightarrow> 'n bot \<Rightarrow> 'n event
     \<Rightarrow> 'n bot" where
  "step ar pyfloat fromiso s (Trade_event clk tr md) = snd (analyze_trade ar fromiso clk tr md s)"
| "step ar pyfloat fromiso s (Command_event msg) = snd (process_command pyfloat msg s)"

definition run ::
  "'n arith \<Rightarrow> (string \<Rightarrow> 'n option) \<Rightarrow> (string \<Rightarrow> pydatetime option) \<Rightarrow> 'n event list
     \<Rightarrow> 'n bot \<Rightarrow> 'n bot" where
  "run ar pyfloat fromiso evs s = foldl (step ar pyfloat fromiso) s evs"

section \<open>Predicates used in the statements\<close>

text \<open>All four store updates of one call, in the order of the source.\<close>

definition stores_updated ::
  "'n arith \<Rightarrow> clock \<Rightarrow> 'n trade \<Rightarrow> 'n market_data \<Rightarrow> 'n bot \<Rightarrow> 'n bot" where
  "stores_updated ar clk tr md s =
     record_outcome ar tr md (record_size ar tr md
       (record_price ar clk tr md (record_wallet_trade ar clk tr md s)))"

text \<open>The dedup key of a call.\<close>

definition key_of_call :: "clock \<Rightarrow> 'n trade \<Rightarrow> 'n market_data \<Rightarrow> string" where
  "key_of_call clk tr md = alert_key (wallet_of tr) (condition_id md) (timestamp_of clk tr)"

definition has_alert :: "string \<Rightarrow> 'n alert list \<Rightarrow> bool" where
  "has_alert ty alerts = (\<exists>a \<in> set alerts. alert_type a = ty)"

text \<open>The keys of the thresholds dict of lines 33-45.\<close>

definition threshold_names :: "string list" where
  "threshold_names =
     [''fresh_wallet_days'', ''fresh_wallet_min_value'', ''unusual_size_multiplier'',
      ''niche_volume_max'', ''niche_trades_min'', ''win_rate_conviction_min'',
      ''win_rate_min_value'', ''pre_move_min_value'', ''pre_move_change_pct'',
      ''coordinated_min_value'', ''coordinated_min_wallets'']"

text \<open>Every threshold that the rules read is in the dict.\<close>

definition thresholds_complete :: "(string \<times> 'n) list \<Rightarrow> bool" where
  "thresholds_complete th = (\<forall>name \<in> set threshold_names. map_of th name \<noteq> None)"

text \<open>A timestamp that \<open>fromisoformat\<close> accepts and reads without a UTC offset.\<close>

definition naive_timestamp :: "(string \<Rightarrow> pydatetime option) \<Rightarrow> string \<Rightarrow> bool" where
  "naive_timestamp fromiso ts = (case fromiso ts of None \<Rightarrow> False | Some t \<Rightarrow> \<not> tz_aware t)"

text \<open>Every timestamp that the stores hold is one.\<close>

definition timestamps_naive :: "(string \<Rightarrow> pydatetime option) \<Rightarrow> 'n bot \<Rightarrow> bool" where
  "timestamps_naive fromiso s =
     ((\<forall>(w, trades) \<in> set (wallet_history s). \<forall>t \<in> set trades.
         naive_timestamp fromiso (h_timestamp t))
      \<and> (\<forall>(k, ps) \<in> set (market_prices s). \<forall>p \<in> set ps.
         naive_timestamp fromiso (p_timestamp p)))"

text \<open>The test of the comprehension at lines 329-332 on one entry of the price window.\<close>

definition within_30_min ::
  "(string \<Rightarrow> pydatetime option) \<Rightarrow> pydatetime \<Rightarrow> 'n price_entry \<Rightarrow> bool" where
  "within_30_min fromiso now p =
     (case fromiso (p_timestamp p) of
        None \<Rightarrow> False
      | Some t \<Rightarrow> (case dt_sub now t of Inl e \<Rightarrow> False | Inr elapsed \<Rightarrow> elapsed < 1800000000))"

text \<open>The bound on the two windows of every market.\<close>

definition windows_bounded :: "'n bot \<Rightarrow> bool" where
  "windows_bounded s =
     (\<forall>k. length (dict_get (market_volumes s) k) \<le> 100
        \<and> length (dict_get (market_prices s) k) \<le> 200)"

section \<open>Concrete inputs\<close>

text \<open>
  The examples compute with the numbers below: a rational stands for the int or float of
  that value, and there is \<open>nan\<close>, which compares false with everything. The values of the
  examples are integers, halves and 2.5, on which Python's float arithmetic is exact; the
  threshold 0.15 is only compared with 0.5.
\<close>

datatype number = Num rat | NaN

fun num_mul :: "number \<Rightarrow> number \<Rightarrow> number" where
  "num_mul (Num a) (Num b) = Num (a * b)"
| "num_mul a b = NaN"

fun num_div :: "number \<Rightarrow> number \<Rightarrow> number" where
  "num_div (Num a) (Num b) = Num (a / b)"
| "num_div a b = NaN"

fun num_sub :: "number \<Rightarrow> number \<Rightarrow> number" where
  "num_sub (Num a) (Num b) = Num (a - b)"
| "num_sub a b = NaN"

fun num_abs :: "number \<Rightarrow> number" where
  "num_abs (Num a) = Num \<bar>a\<bar>"
| "num_abs NaN = NaN"

fun num_add :: "number \<Rightarrow> number \<Rightarrow> number" where
  "num_add (Num a) (Num b) = Num (a + b)"
| "num_add a b = NaN"

fun num_lt :: "number \<Rightarrow> number \<Rightarrow> bool" where
  "num_lt (Num a) (Num b) = (a < b)"
| "num_lt a b = False"

fun num_le :: "number \<Rightarrow> number \<Rightarrow> bool" where
  "num_le (Num a) (Num b) = (a \<le> b)"
| "num_le a b = False"

definition demo_arith :: "number arith" where
  "demo_arith =
     \<lparr>py_int = (\<lambda>i. Num (of_int i)), py_float_lit = Num, py_mul = num_mul, py_div = num_div,
      py_sub = num_sub, py_abs = num_abs, py_sum = foldl num_add (Num 0), py_lt = num_lt,
      py_le = num_le\<rparr>"

definition demo_bot :: "number bot" where
  "demo_bot = init_bot demo_arith"

text \<open>A stand-in for \<open>fromisoformat\<close> on the timestamps of the examples: microseconds
  since 2024-01-01T00:00:00; the last one carries a UTC offset.\<close>

definition demo_fromiso :: "string \<Rightarrow> pydatetime option" where
  "demo_fromiso =
     map_of [(''2024-01-01T00:00:00'', \<lparr>tz_aware = False, micros = 0\<rparr>),
             (''2024-01-01T00:01:00'', \<lparr>tz_aware = False, micros = 60000000\<rparr>),
             (''2024-01-01T00:02:00'', \<lparr>tz_aware = False, micros = 120000000\<rparr>),
             (''2024-01-01T00:03:00'', \<lparr>tz_aware = False, micros = 180000000\<rparr>),
             (''2024-01-01T00:06:00'', \<lparr>tz_aware = False, micros = 360000000\<rparr>),
             (''2024-01-01T00:00:00+00:00'', \<lparr>tz_aware = True, micros = 0\<rparr>)]"

text \<open>The clock reads 2024-01-01T00:10:00.\<close>

definition demo_clock :: clock where
  "demo_clock = \<lparr>now_iso = ''2024-01-01T00:10:00'', now_age = 600000000\<rparr>"

text \<open>The clock reads 2024-01-11T00:00:00, ten days later.\<close>

definition late_clock :: clock where
  "late_clock = \<lparr>now_iso = ''2024-01-11T00:00:00'', now_age = 864000000000\<rparr>"

definition mk_trade :: "string \<Rightarrow> 'n \<Rightarrow> 'n \<Rightarrow> string \<Rightarrow> string \<Rightarrow> 'n trade" where
  "mk_trade w sz pr ts oc =
     \<lparr>t_maker_address = Some w, t_size = Some sz, t_price = Some pr, t_timestamp = Some ts,
      t_outcome = Some oc\<rparr>"

definition mk_market :: "string option \<Rightarrow> string \<Rightarrow> 'n \<Rightarrow> 'n market_data" where
  "mk_market cid q vol = \<lparr>condition_id = cid, question = Some q, volume = Some vol\<rparr>"

text \<open>A first trade of wallet 0xA1 worth 2000, one worth 10, one whose timestamp carries a
  UTC offset, and their market.\<close>

definition big_trade :: "number trade" where
  "big_trade = mk_trade ''0xA1'' (Num 2000) (Num 1) ''2024-01-01T00:00:00'' ''Yes''"

definition small_trade :: "number trade" where
  "small_trade = mk_trade ''0xA1'' (Num 20) (Num (1 / 2)) ''2024-01-01T00:00:00'' ''Yes''"

definition aware_trade :: "number trade" where
  "aware_trade = mk_trade ''0xA1'' (Num 2000) (Num 1) ''2024-01-01T00:00:00+00:00'' ''Yes''"

definition market_m1 :: "number market_data" where
  "market_m1 = mk_market (Some ''m1'') ''Q'' (Num 50000)"

text \<open>The state after \<open>small_trade\<close> on \<open>market_m1\<close> from the initial state.\<close>

definition after_small_trade :: "number bot" where
  "after_small_trade =
     \<lparr>wallet_history =
         [(''0xA1'',
           [\<lparr>h_timestamp = ''2024-01-01T00:00:00'', h_market = ''Q'',
             h_market_id = Some ''m1'', h_size = Num 20, h_value = Num 10,
             h_price = Num (1 / 2), h_outcome = ''Yes''\<rparr>])],
       market_volumes = [(Some ''m1'', [Num 20])],
       market_prices =
         [(Some ''m1'', [\<lparr>p_timestamp = ''2024-01-01T00:00:00'', p_price = Num (1 / 2)\<rparr>])],
       wallet_outcomes =
         [(''0xA1'',
           [\<lparr>o_market_id = Some ''m1'', o_outcome = ''Yes'', o_price = Num (1 / 2)\<rparr>])],
       sent_alerts = {}, is_paused = False,
       scan_interval = 60, thresholds = init_thresholds demo_arith\<rparr>"

text \<open>A stand-in for \<open>float\<close> on the arguments of the example commands; \<open>float\<close> accepts
  the text \<open>nan\<close>.\<close>

definition demo_pyfloat :: "string \<Rightarrow> number option" where
  "demo_pyfloat = map_of [(''1'', Num 1), (''2.5'', Num (5 / 2)), (''5000'', Num 5000), (''nan'', NaN)]"

text \<open>The state after the command \<open>/set coordinated_min_wallets 1\<close>.\<close>

definition set_min_wallets_1 :: message where
  "set_min_wallets_1 = \<lparr>m_text = Some ''/set coordinated_min_wallets 1''\<rparr>"

definition low_bar_bot :: "number bot" where
  "low_bar_bot =
     run demo_arith demo_pyfloat demo_fromiso [Command_event set_min_wallets_1] demo_bot"

text \<open>A market whose size window holds ten sizes, all 1.\<close>

definition ten_sizes_bot :: "number bot" where
  "ten_sizes_bot =
     demo_bot\<lparr>market_volumes :=
       [(Some ''m1'', [Num 1, Num 1, Num 1, Num 1, Num 1, Num 1, Num 1, Num 1, Num 1, Num 1])]\<rparr>"

text \<open>Market metadata without a condition id.\<close>

definition market_no_id :: "number market_data" where
  "market_no_id = mk_market None ''Q'' (Num 50000)"

text \<open>A market whose price window holds ten entries at price 1/2.\<close>

definition half_price_entry :: "number price_entry" where
  "half_price_entry = \<lparr>p_timestamp = ''2024-01-01T00:00:00'', p_price = Num (1 / 2)\<rparr>"

definition warm_prices_bot :: "number bot" where
  "warm_prices_bot =
     demo_bot\<lparr>market_prices :=
       [(Some ''m1'',
         [half_price_entry, half_price_entry, half_price_entry, half_price_entry,
          half_price_entry, half_price_entry, half_price_entry, half_price_entry,
          half_price_entry, half_price_entry])]\<rparr>"

text \<open>A command that names no threshold, one whose value \<open>float\<close> rejects, and one whose
  value is the text \<open>nan\<close>.\<close>

definition set_bogus :: message where
  "set_bogus = \<lparr>m_text = Some ''/set bogus 1''\<rparr>"

definition set_non_numeric :: message where
  "set_non_numeric = \<lparr>m_text = Some ''/set niche_trades_min many''\<rparr>"

definition set_nan :: message where
  "set_nan = \<lparr>m_text = Some ''/set fresh_wallet_days nan''\<rparr>"

text \<open>Four wallets on \<open>market_m1\<close>: A, B and C buy Yes within three minutes, D buys No; and
  the states after the trades of D, of D and A, and of D, A and B. In \<open>trade_C_late\<close> the
  trade of C comes 300 seconds after that of A.\<close>

definition trade_A :: "number trade" where
  "trade_A = mk_trade ''0xA1'' (Num 1000) (Num (1 / 2)) ''2024-01-01T00:01:00'' ''Yes''"

definition trade_B :: "number trade" where
  "trade_B = mk_trade ''0xB2'' (Num 1000) (Num (1 / 2)) ''2024-01-01T00:02:00'' ''Yes''"

definition trade_C :: "number trade" where
  "trade_C = mk_trade ''0xC3'' (Num 1000) (Num (1 / 2)) ''2024-01-01T00:03:00'' ''Yes''"

definition trade_C_late :: "number trade" where
  "trade_C_late = mk_trade ''0xC3'' (Num 1000) (Num (1 / 2)) ''2024-01-01T00:06:00'' ''Yes''"

definition trade_D :: "number trade" where
  "trade_D = mk_trade ''0xD4'' (Num 1000) (Num (1 / 2)) ''2024-01-01T00:00:00'' ''No''"

definition after_D :: "number bot" where
  "after_D = snd (analyze_trade demo_arith demo_fromiso demo_clock trade_D market_m1 demo_bot)"

definition after_A :: "number bot" where
  "after_A = snd (analyze_trade demo_arith demo_fromiso demo_clock trade_A market_m1 after_D)"

definition after_B :: "number bot" where
  "after_B = snd (analyze_trade demo_arith demo_fromiso demo_clock trade_B market_m1 after_A)"

section \<open>Basic facts\<close>

lemma bind_Inr [simp]: "bind (Inr x) f = f x"
  by (simp add: bind_def)

lemma bind_Inl [simp]: "bind (Inl e) f = Inl e"
  by (simp add: bind_def)

lemma bind_eq_Inr: "bind r f = Inr y \<longleftrightarrow> (\<exists>x. r = Inr x \<and> f x = Inr y)"
  by (cases r) simp_all

lemma th_get_eq_Inr: "th_get th name = Inr v \<longleftrightarrow> map_of th name = Some v"
  by (simp add: th_get_def split: option.splits)

lemma dict_get_update:
  "dict_get (AList.update k v d) k' = (if k' = k then v else dict_get d k')"
  by (simp add: dict_get_def update_conv')

lemma dict_get_append:
  "dict_get (dict_append d k x) k' = (if k' = k then dict_get d k @ [x] else dict_get d k')"
  by (simp add: dict_append_def dict_get_update)

lemma dict_get_append_capped:
  "dict_get (append_capped cap d k x) k' =
     (if k' = k
      then (if length (dict_get d k) + 1 > cap then tl (dict_get d k @ [x])
            else dict_get d k @ [x])
      else dict_get d k')"
  by (simp add: append_capped_def Let_def dict_get_update dict_get_append)

lemma foldl_insert_keys:
  "foldl (\<lambda>seen a. insert (key_of a) seen) S alerts = S \<union> key_of ` set alerts"
  by (induction alerts arbitrary: S) auto

lemma sent_alerts_mark_sent:
  "sent_alerts (mark_sent alerts s) = sent_alerts s \<union> key_of ` set alerts"
  by (simp add: mark_sent_def foldl_insert_keys)

lemma mark_sent_fields [simp]:
  "wallet_history (mark_sent alerts s) = wallet_history s"
  "market_volumes (mark_sent alerts s) = market_volumes s"
  "market_prices (mark_sent alerts s) = market_prices s"
  "wallet_outcomes (mark_sent alerts s) = wallet_outcomes s"
  "thresholds (mark_sent alerts s) = thresholds s"
  by (simp_all add: mark_sent_def)

lemma record_wallet_trade_fields [simp]:
  "wallet_history (record_wallet_trade ar clk tr md s) =
     dict_append (wallet_history s) (wallet_of tr) (wallet_entry_of ar clk tr md)"
  "market_volumes (record_wallet_trade ar clk tr md s) = market_volumes s"
  "market_prices (record_wallet_trade ar clk tr md s) = market_prices s"
  "wallet_outcomes (record_wallet_trade ar clk tr md s) = wallet_outcomes s"
  "sent_alerts (record_wallet_trade ar clk tr md s) = sent_alerts s"
  "thresholds (record_wallet_trade ar clk tr md s) = thresholds s"
  by (simp_all add: record_wallet_trade_def)

lemma record_price_fields [simp]:
  "wallet_history (record_price ar clk tr md s) = wallet_history s"
  "market_volumes (record_price ar clk tr md s) = market_volumes s"
  "market_prices (record_price ar clk tr md s) =
     (if truthy (condition_id md)
      then append_capped 200 (market_prices s) (condition_id md) (price_entry_of ar clk tr)
      else market_prices s)"
  "wallet_outcomes (record_price ar clk tr md s) = wallet_outcomes s"
  "sent_alerts (record_price ar clk tr md s) = sent_alerts s"
  "thresholds (record_price ar clk tr md s) = thresholds s"
  by (simp_all add: record_price_def)

lemma record_size_fields [simp]:
  "wallet_history (record_size ar tr md s) = wallet_history s"
  "market_volumes (record_size ar tr md s) =
     (if truthy (condition_id md)
      then append_capped 100 (market_volumes s) (condition_id md) (size_of ar tr)
      else market_volumes s)"
  "market_prices (record_size ar tr md s) = market_prices s"
  "wallet_outcomes (record_size ar tr md s) = wallet_outcomes s"
  "sent_alerts (record_size ar tr md s) = sent_alerts s"
  "thresholds (record_size ar tr md s) = thresholds s"
  by (simp_all add: record_size_def)

lemma record_outcome_fields [simp]:
  "wallet_history (record_outcome ar tr md s) = wallet_history s"
  "market_volumes (record_outcome ar tr md s) = market_volumes s"
  "market_prices (record_outcome ar tr md s) = market_prices s"
  "wallet_outcomes (record_outcome ar tr md s) =
     dict_append (wallet_outcomes s) (wallet_of tr) (outcome_entry_of ar tr md)"
  "sent_alerts (record_outcome ar tr md s) = sent_alerts s"
  "thresholds (record_outcome ar tr md s) = thresholds s"
  by (simp_all add: record_outcome_def)

lemma stores_updated_fields:
  "wallet_history (stores_updated ar clk tr md s) =
     dict_append (wallet_history s) (wallet_of tr) (wallet_entry_of ar clk tr md)"
  "market_volumes (stores_updated ar clk tr md s) =
     (if truthy (condition_id md)
      then append_capped 100 (market_volumes s) (condition_id md) (size_of ar tr)
      else market_volumes s)"
  "market_prices (stores_updated ar clk tr md s) =
     (if truthy (condition_id md)
      then append_capped 200 (market_prices s) (condition_id md) (price_entry_of ar clk tr)
      else market_prices s)"
  "wallet_outcomes (stores_updated ar clk tr md s) =
     dict_append (wallet_outcomes s) (wallet_of tr) (outcome_entry_of ar tr md)"
  "sent_alerts (stores_updated ar clk tr md s) = sent_alerts s"
  "thresholds (stores_updated ar clk tr md s) = thresholds s"
  by (simp_all add: stores_updated_def)

lemma get_wallet_age_cong:
  "wallet_history s = wallet_history s' \<Longrightarrow>
     get_wallet_age fromiso clk s w = get_wallet_age fromiso clk s' w"
  by (simp add: get_wallet_age_def)

section \<open>What each rule returns\<close>

lemma has_alert_Nil [simp]: "\<not> has_alert ty []"
  by (simp add: has_alert_def)

lemma has_alert_append [simp]:
  "has_alert ty (xs @ ys) \<longleftrightarrow> has_alert ty xs \<or> has_alert ty ys"
  by (auto simp: has_alert_def)

lemma has_alert_single [simp]: "has_alert ty [a] \<longleftrightarrow> alert_type a = ty"
  by (simp add: has_alert_def)

lemma fresh_wallet_rule_shape:
  "fresh_wallet_rule ar th age w v m k = Inr as \<Longrightarrow>
     as = [] \<or> (\<exists>a. age = Some a \<and> as = [FRESH_WALLET_LARGE_BET w a v m k])"
  by (auto simp: fresh_wallet_rule_def bind_eq_Inr split: option.splits if_splits)

lemma unusual_size_rule_shape:
  "unusual_size_rule ar th rt w sz m k = Inr as \<Longrightarrow>
     as = [] \<or> (\<exists>avg. as = [UNUSUAL_SIZE w sz avg m k])"
  by (auto simp: unusual_size_rule_def Let_def bind_eq_Inr split: if_splits)

lemma niche_rule_shape:
  "niche_rule ar th smt vol w m k = Inr as \<Longrightarrow>
     as = [] \<or> as = [REPEAT_NICHE_PLAYER w (length smt) vol m k]"
  by (auto simp: niche_rule_def bind_eq_Inr split: if_splits)

lemma conviction_rule_shape:
  "conviction_rule ar th os w m pr v k = Inr as \<Longrightarrow>
     as = [] \<or> (\<exists>c. as = [HIGH_WIN_RATE_TRADER w c (length os) m pr v k])"
  by (auto simp: conviction_rule_def Let_def bind_eq_Inr split: if_splits)

lemma pre_move_rule_shape:
  "pre_move_rule ar fromiso th mid rp v ts pr w m k = Inr as \<Longrightarrow>
     as = [] \<or> (\<exists>p0 ch. as = [PRE_MOVE_POSITIONING w v p0 pr ch m k])"
  by (auto simp: pre_move_rule_def Let_def bind_eq_Inr split: if_splits option.splits)

lemma coordinated_rule_shape:
  "coordinated_rule ar fromiso th mid h v ts oc w m k = Inr as \<Longrightarrow>
     as = [] \<or> (\<exists>n. as = [COORDINATED_ENTRY w n oc m v k])"
  by (auto simp: coordinated_rule_def Let_def bind_eq_Inr split: if_splits option.splits)

lemma unusual_size_rule_fires:
  "unusual_size_rule ar th rt w sz m k = Inr as \<Longrightarrow>
     as \<noteq> [] \<longleftrightarrow>
       length rt > 10 \<and>
       (\<exists>mult. map_of th ''unusual_size_multiplier'' = Some mult
              \<and> py_lt ar (py_mul ar (py_div ar (py_sum ar rt) (py_int ar (int (length rt))))
                     mult) sz)"
  by (auto simp: unusual_size_rule_def Let_def bind_eq_Inr th_get_eq_Inr split: if_splits)

section \<open>The shape of a call\<close>

lemma analyze_trade_seen:
  "key_of_call clk tr md \<in> sent_alerts s
   \<Longrightarrow> analyze_trade ar fromiso clk tr md s = (Inr [], s)"
  by (simp add: analyze_trade_def Let_def key_of_call_def)

text \<open>The decomposition of a call that is not a duplicate and returns: \<open>u\<close> is the state
  with the four stores updated, and only the unusual-size rule reads a store of the state
  before the call.\<close>

lemma analyze_trade_returns:
  assumes "analyze_trade ar fromiso clk tr md s = (Inr alerts, s')"
    and "key_of_call clk tr md \<notin> sent_alerts s"
  shows "\<exists>age a1 a2 a3 a4 a5 a6.
      get_wallet_age fromiso clk (stores_updated ar clk tr md s) (wallet_of tr) = Inr age
    \<and> fresh_wallet_rule ar (thresholds s) age (wallet_of tr) (value_of ar tr) (question_of md)
         (key_of_call clk tr md) = Inr a1
    \<and> (if truthy (condition_id md)
        then unusual_size_rule ar (thresholds s) (dict_get (market_volumes s) (condition_id md))
               (wallet_of tr) (size_of ar tr) (question_of md) (key_of_call clk tr md)
        else Inr []) = Inr a2
    \<and> niche_rule ar (thresholds s)
         (filter (\<lambda>t. Some (h_market t) = question md)
            (dict_get (wallet_history (stores_updated ar clk tr md s)) (wallet_of tr)))
         (volume_of ar md) (wallet_of tr) (question_of md) (key_of_call clk tr md) = Inr a3
    \<and> conviction_rule ar (thresholds s)
         (dict_get (wallet_outcomes (stores_updated ar clk tr md s)) (wallet_of tr))
         (wallet_of tr) (question_of md) (price_of ar tr) (value_of ar tr)
         (key_of_call clk tr md) = Inr a4
    \<and> pre_move_rule ar fromiso (thresholds s) (condition_id md)
         (dict_get (market_prices (stores_updated ar clk tr md s)) (condition_id md))
         (value_of ar tr) (timestamp_of clk tr) (price_of ar tr) (wallet_of tr) (question_of md)
         (key_of_call clk tr md) = Inr a5
    \<and> coordinated_rule ar fromiso (thresholds s) (condition_id md)
         (wallet_history (stores_updated ar clk tr md s))
         (value_of ar tr) (timestamp_of clk tr) (outcome_of tr) (wallet_of tr) (question_of md)
         (key_of_call clk tr md) = Inr a6
    \<and> alerts = a1 @ a2 @ a3 @ a4 @ a5 @ a6
    \<and> s' = mark_sent alerts (stores_updated ar clk tr md s)"
proof -
  have age_eq: "get_wallet_age fromiso clk
                  (record_price ar clk tr md (record_wallet_trade ar clk tr md s)) (wallet_of tr)
                = get_wallet_age fromiso clk (stores_updated ar clk tr md s) (wallet_of tr)"
    by (rule get_wallet_age_cong) (simp add: stores_updated_fields)
  show ?thesis
    using assms unfolding analyze_trade_def Let_def key_of_call_def [symmetric] age_eq
    by (simp add: stores_updated_fields split: sum.splits if_splits)
       (simp_all add: stores_updated_def)
qed

lemma analyze_trade_keys:
  assumes "analyze_trade ar fromiso clk tr md s = (Inr alerts, s')" and "a \<in> set alerts"
  shows "key_of a = key_of_call clk tr md"
proof (cases "key_of_call clk tr md \<in> sent_alerts s")
  case True
  with assms show ?thesis by (simp add: analyze_trade_seen)
next
  case False
  from analyze_trade_returns [OF assms(1) False] obtain age a1 a2 a3 a4 a5 a6 where
    r: "fresh_wallet_rule ar (thresholds s) age (wallet_of tr) (value_of ar tr) (question_of md)
         (key_of_call clk tr md) = Inr a1"
    "(if truthy (condition_id md)
        then unusual_size_rule ar (thresholds s) (dict_get (market_volumes s) (condition_id md))
               (wallet_of tr) (size_of ar tr) (question_of md) (key_of_call clk tr md)
        else Inr []) = Inr a2"
    "niche_rule ar (thresholds s)
         (filter (\<lambda>t. Some (h_market t) = question md)
            (dict_get (wallet_history (stores_updated ar clk tr md s)) (wallet_of tr)))
         (volume_of ar md) (wallet_of tr) (question_of md) (key_of_call clk tr md) = Inr a3"
    "conviction_rule ar (thresholds s)
         (dict_get (wallet_outcomes (stores_updated ar clk tr md s)) (wallet_of tr))
         (wallet_of tr) (question_of md) (price_of ar tr) (value_of ar tr)
         (key_of_call clk tr md) = Inr a4"
    "pre_move_rule ar fromiso (thresholds s) (condition_id md)
         (dict_get (market_prices (stores_updated ar clk tr md s)) (condition_id md))
         (value_of ar tr) (timestamp_of clk tr) (price_of ar tr) (wallet_of tr) (question_of md)
         (key_of_call clk tr md) = Inr a5"
    "coordinated_rule ar fromiso (thresholds s) (condition_id md)
         (wallet_history (stores_updated ar clk tr md s))
         (value_of ar tr) (timestamp_of clk tr) (outcome_of tr) (wallet_of tr) (question_of md)
         (key_of_call clk tr md) = Inr a6"
    and al: "alerts = a1 @ a2 @ a3 @ a4 @ a5 @ a6"
    by blast
  have "\<forall>a \<in> set a1. key_of a = key_of_call clk tr md"
    using fresh_wallet_rule_shape [OF r(1)] by auto
  moreover have "\<forall>a \<in> set a2. key_of a = key_of_call clk tr md"
    using r(2) unusual_size_rule_shape by (fastforce split: if_splits)
  moreover have "\<forall>a \<in> set a3. key_of a = key_of_call clk tr md"
    using niche_rule_shape [OF r(3)] by auto
  moreover have "\<forall>a \<in> set a4. key_of a = key_of_call clk tr md"
    using conviction_rule_shape [OF r(4)] by auto
  moreover have "\<forall>a \<in> set a5. key_of a = key_of_call clk tr md"
    using pre_move_rule_shape [OF r(5)] by auto
  moreover have "\<forall>a \<in> set a6. key_of a = key_of_call clk tr md"
    using coordinated_rule_shape [OF r(6)] by auto
  ultimately show ?thesis using assms(2) al by auto
qed

text \<open>The ledger after any call, also one that raises.\<close>

lemma analyze_trade_ledger:
  "sent_alerts (snd (analyze_trade ar fromiso clk tr md s)) =
     (case fst (analyze_trade ar fromiso clk tr md s) of
        Inl e \<Rightarrow> sent_alerts s
      | Inr alerts \<Rightarrow> sent_alerts s \<union> key_of ` set alerts)"
  unfolding analyze_trade_def Let_def
  by (simp add: sent_alerts_mark_sent split: sum.splits)

lemma fresh_wallet_rule_has:
  "fresh_wallet_rule ar th age w v m k = Inr as \<Longrightarrow>
     has_alert ty as \<longleftrightarrow> ty = ''FRESH_WALLET_LARGE_BET'' \<and> as \<noteq> []"
  by (drule fresh_wallet_rule_shape) auto

lemma unusual_size_rule_has:
  "unusual_size_rule ar th rt w sz m k = Inr as \<Longrightarrow>
     has_alert ty as \<longleftrightarrow> ty = ''UNUSUAL_SIZE'' \<and> as \<noteq> []"
  by (drule unusual_size_rule_shape) auto

lemma niche_rule_has:
  "niche_rule ar th smt vol w m k = Inr as \<Longrightarrow>
     has_alert ty as \<longleftrightarrow> ty = ''REPEAT_NICHE_PLAYER'' \<and> as \<noteq> []"
  by (drule niche_rule_shape) auto

lemma conviction_rule_has:
  "conviction_rule ar th os w m pr v k = Inr as \<Longrightarrow>
     has_alert ty as \<longleftrightarrow> ty = ''HIGH_WIN_RATE_TRADER'' \<and> as \<noteq> []"
  by (drule conviction_rule_shape) auto

lemma pre_move_rule_has:
  "pre_move_rule ar fromiso th mid rp v ts pr w m k = Inr as \<Longrightarrow>
     has_alert ty as \<longleftrightarrow> ty = ''PRE_MOVE_POSITIONING'' \<and> as \<noteq> []"
  by (drule pre_move_rule_shape) auto

lemma coordinated_rule_has:
  "coordinated_rule ar fromiso th mid h v ts oc w m k = Inr as \<Longrightarrow>
     has_alert ty as \<longleftrightarrow> ty = ''COORDINATED_ENTRY'' \<and> as \<noteq> []"
  by (drule coordinated_rule_shape) auto

lemma guarded_unusual_size_has:
  "(if c then unusual_size_rule ar th rt w sz m k else Inr []) = Inr as \<Longrightarrow>
     has_alert ty as \<longleftrightarrow> ty = ''UNUSUAL_SIZE'' \<and> as \<noteq> []"
  using unusual_size_rule_has [of ar th rt w sz m k as ty] by (cases c) auto

section \<open>Evaluation of the examples\<close>

lemma demo_arith_ops:
  "py_int demo_arith i = Num (of_int i)"
  "py_float_lit demo_arith q = Num q"
  "py_mul demo_arith = num_mul"
  "py_div demo_arith = num_div"
  "py_sub demo_arith = num_sub"
  "py_abs demo_arith = num_abs"
  "py_sum demo_arith = foldl num_add (Num 0)"
  "py_lt demo_arith = num_lt"
  "py_le demo_arith = num_le"
  by (simp_all add: demo_arith_def)

lemmas eval_defs =
  analyze_trade_def Let_def demo_fromiso_def demo_clock_def late_clock_def mk_trade_def
  mk_market_def demo_bot_def init_bot_def init_thresholds_def demo_arith_ops
  wallet_of_def size_of_def price_of_def
  value_of_def timestamp_of_def outcome_of_def question_of_def volume_of_def alert_key_def
  record_wallet_trade_def record_price_def record_size_def record_outcome_def mark_sent_def
  wallet_entry_of_def price_entry_of_def outcome_entry_of_def
  get_wallet_age_def fresh_wallet_rule_def unusual_size_rule_def niche_rule_def
  conviction_rule_def pre_move_rule_def coordinated_rule_def dict_get_def dict_append_def
  append_capped_def truthy_def th_get_def bind_def dt_sub_def microseconds_per_day_def
  last_n_def big_trade_def small_trade_def market_m1_def key_of_call_def

lemma big_trade_first_call:
  "analyze_trade demo_arith demo_fromiso demo_clock big_trade market_m1 demo_bot =
     (Inr [FRESH_WALLET_LARGE_BET ''0xA1'' 0 (Num 2000) ''Q'' ''0xA1_m1_2024-01-01T00:00:00''],
      \<lparr>wallet_history =
         [(''0xA1'',
           [\<lparr>h_timestamp = ''2024-01-01T00:00:00'', h_market = ''Q'',
             h_market_id = Some ''m1'', h_size = Num 2000, h_value = Num 2000,
             h_price = Num 1, h_outcome = ''Yes''\<rparr>])],
       market_volumes = [(Some ''m1'', [Num 2000])],
       market_prices =
         [(Some ''m1'', [\<lparr>p_timestamp = ''2024-01-01T00:00:00'', p_price = Num 1\<rparr>])],
       wallet_outcomes =
         [(''0xA1'', [\<lparr>o_market_id = Some ''m1'', o_outcome = ''Yes'', o_price = Num 1\<rparr>])],
       sent_alerts = {''0xA1_m1_2024-01-01T00:00:00''}, is_paused = False,
       scan_interval = 60, thresholds = init_thresholds demo_arith\<rparr>)"
  by (simp add: eval_defs)

lemma small_trade_first_call:
  "analyze_trade demo_arith demo_fromiso demo_clock small_trade market_m1 demo_bot =
     (Inr [], after_small_trade)"
  by (simp add: eval_defs after_small_trade_def)

lemma small_trade_second_call:
  "analyze_trade demo_arith demo_fromiso demo_clock small_trade market_m1 after_small_trade =
     (Inr [],
      \<lparr>wallet_history =
         [(''0xA1'',
           [\<lparr>h_timestamp = ''2024-01-01T00:00:00'', h_market = ''Q'',
             h_market_id = Some ''m1'', h_size = Num 20, h_value = Num 10,
             h_price = Num (1 / 2), h_outcome = ''Yes''\<rparr>,
            \<lparr>h_timestamp = ''2024-01-01T00:00:00'', h_market = ''Q'',
             h_market_id = Some ''m1'', h_size = Num 20, h_value = Num 10,
             h_price = Num (1 / 2), h_outcome = ''Yes''\<rparr>])],
       market_volumes = [(Some ''m1'', [Num 20, Num 20])],
       market_prices =
         [(Some ''m1'', [\<lparr>p_timestamp = ''2024-01-01T00:00:00'', p_price = Num (1 / 2)\<rparr>,
                         \<lparr>p_timestamp = ''2024-01-01T00:00:00'', p_price = Num (1 / 2)\<rparr>])],
       wallet_outcomes =
         [(''0xA1'', [\<lparr>o_market_id = Some ''m1'', o_outcome = ''Yes'', o_price = Num (1 / 2)\<rparr>,
                      \<lparr>o_market_id = Some ''m1'', o_outcome = ''Yes'', o_price = Num (1 / 2)\<rparr>])],
       sent_alerts = {}, is_paused = False,
       scan_interval = 60, thresholds = init_thresholds demo_arith\<rparr>)"
  by (simp add: eval_defs after_small_trade_def)

text \<open>A trade whose timestamp carries a UTC offset: the subtraction at line 216 raises,
  after the wallet history and the price window have been appended to.\<close>

lemma aware_trade_raises:
  "fst (analyze_trade demo_arith demo_fromiso demo_clock aware_trade market_m1 demo_bot) =
     Inl TypeError"
  by (simp add: eval_defs aware_trade_def)

lemma split_set_min_wallets_1:
  "split ''/set coordinated_min_wallets 1'' = [''/set'', ''coordinated_min_wallets'', ''1'']"
  by (simp add: split_def is_space_def)

lemma low_bar_bot_eq:
  "low_bar_bot =
     demo_bot\<lparr>thresholds :=
       AList.update ''coordinated_min_wallets'' (Num 1) (init_thresholds demo_arith)\<rparr>"
  by (simp add: low_bar_bot_def run_def set_min_wallets_1_def process_command_def
      set_command_def Let_def command_text_def strip_def is_space_def startswith_def
      split_set_min_wallets_1 demo_pyfloat_def demo_bot_def init_bot_def init_thresholds_def)

lemma big_trade_low_bar:
  "fst (analyze_trade demo_arith demo_fromiso demo_clock big_trade market_m1 low_bar_bot) =
     Inr [FRESH_WALLET_LARGE_BET ''0xA1'' 0 (Num 2000) ''Q'' ''0xA1_m1_2024-01-01T00:00:00'',
          COORDINATED_ENTRY ''0xA1'' 1 ''Yes'' ''Q'' (Num 2000) ''0xA1_m1_2024-01-01T00:00:00'']"
  by (simp add: low_bar_bot_eq eval_defs)

lemma big_trade_ten_sizes:
  "fst (analyze_trade demo_arith demo_fromiso demo_clock big_trade market_m1 ten_sizes_bot) =
     Inr [FRESH_WALLET_LARGE_BET ''0xA1'' 0 (Num 2000) ''Q'' ''0xA1_m1_2024-01-01T00:00:00'']"
  by (simp add: ten_sizes_bot_def eval_defs)

section \<open>The stores after any call\<close>

lemma analyze_trade_wallet_history:
  "wallet_history (snd (analyze_trade ar fromiso clk tr md s)) =
     (if key_of_call clk tr md \<in> sent_alerts s then wallet_history s
      else dict_append (wallet_history s) (wallet_of tr) (wallet_entry_of ar clk tr md))"
  unfolding analyze_trade_def Let_def key_of_call_def
  by (simp split: sum.splits)

lemma analyze_trade_market_prices:
  "market_prices (snd (analyze_trade ar fromiso clk tr md s)) =
     (if key_of_call clk tr md \<notin> sent_alerts s \<and> truthy (condition_id md)
      then append_capped 200 (market_prices s) (condition_id md) (price_entry_of ar clk tr)
      else market_prices s)"
  unfolding analyze_trade_def Let_def key_of_call_def
  by (simp split: sum.splits)

lemma analyze_trade_market_volumes:
  "market_volumes (snd (analyze_trade ar fromiso clk tr md s)) = market_volumes s
   \<or> (key_of_call clk tr md \<notin> sent_alerts s \<and> truthy (condition_id md)
      \<and> market_volumes (snd (analyze_trade ar fromiso clk tr md s)) =
          append_capped 100 (market_volumes s) (condition_id md) (size_of ar tr))"
  unfolding analyze_trade_def Let_def key_of_call_def
  by (simp split: sum.splits)

lemma analyze_trade_thresholds:
  "thresholds (snd (analyze_trade ar fromiso clk tr md s)) = thresholds s"
  unfolding analyze_trade_def Let_def
  by (simp split: sum.splits)


section \<open>The dedup key\<close>

text \<open>
  C8, as stated: the dedup key is the concatenation of wallet address, market id and
  timestamp with nothing between them. It is not: for wallet \<open>0xA1\<close>, market \<open>m1\<close> and
  timestamp \<open>2024-01-01T00:00:00\<close> the alert carries the key
  \<open>0xA1_m1_2024-01-01T00:00:00\<close>.
\<close>

theorem dedup_key_plain_concatenation_counterexample:
  "fst (analyze_trade demo_arith demo_fromiso demo_clock big_trade market_m1 demo_bot) =
     Inr [FRESH_WALLET_LARGE_BET ''0xA1'' 0 (Num 2000) ''Q'' ''0xA1_m1_2024-01-01T00:00:00'']
   \<and> t_maker_address big_trade = Some ''0xA1''
   \<and> condition_id market_m1 = Some ''m1''
   \<and> t_timestamp big_trade = Some ''2024-01-01T00:00:00''
   \<and> key_of (FRESH_WALLET_LARGE_BET ''0xA1'' 0 (Num 2000) ''Q'' ''0xA1_m1_2024-01-01T00:00:00'')
       \<noteq> ''0xA1'' @ ''m1'' @ ''2024-01-01T00:00:00''"
  by (simp add: big_trade_first_call) (simp add: big_trade_def market_m1_def mk_trade_def mk_market_def)

text \<open>
  C8, amended: every alert that a call returns carries as its key the wallet address, an
  underscore, the market id (the text \<open>None\<close> when the metadata has no condition id), an
  underscore, and the timestamp.
\<close>

theorem dedup_key_format:
  assumes "analyze_trade ar fromiso clk tr md s = (Inr alerts, s')" and "a \<in> set alerts"
  shows "key_of a =
           wallet_of tr @ ''_'' @ (case condition_id md of None \<Rightarrow> ''None'' | Some c \<Rightarrow> c)
             @ ''_'' @ timestamp_of clk tr"
  using analyze_trade_keys [OF assms] by (simp add: key_of_call_def alert_key_def)

theorem dedup_key_format_witness:
  "FRESH_WALLET_LARGE_BET ''0xA1'' 0 (Num 2000) ''Q'' ''0xA1_m1_2024-01-01T00:00:00''
     \<in> set [FRESH_WALLET_LARGE_BET ''0xA1'' 0 (Num 2000) ''Q'' ''0xA1_m1_2024-01-01T00:00:00'']
   \<and> key_of (FRESH_WALLET_LARGE_BET ''0xA1'' 0 (Num 2000) ''Q'' ''0xA1_m1_2024-01-01T00:00:00'') =
       wallet_of big_trade @ ''_'' @ (case condition_id market_m1 of None \<Rightarrow> ''None'' | Some c \<Rightarrow> c)
         @ ''_'' @ timestamp_of demo_clock big_trade"
  using dedup_key_format [OF big_trade_first_call,
      of "FRESH_WALLET_LARGE_BET ''0xA1'' 0 (Num 2000) ''Q'' ''0xA1_m1_2024-01-01T00:00:00''"]
  by simp


section \<open>Duplicate delivery\<close>

text \<open>
  C1, as stated: a second call with the identical pair is a no-op. It is not when the
  first call returned no alert: the key is then not in the ledger, and the second call
  appends to all four stores again.
\<close>

theorem duplicate_delivery_counterexample:
  "fst (analyze_trade demo_arith demo_fromiso demo_clock small_trade market_m1 demo_bot) = Inr []
   \<and> snd (analyze_trade demo_arith demo_fromiso demo_clock small_trade market_m1 demo_bot) = after_small_trade
   \<and> length (dict_get (wallet_history after_small_trade) ''0xA1'') = 1
   \<and> length (dict_get (market_volumes after_small_trade) (Some ''m1'')) = 1
   \<and> length (dict_get (market_prices after_small_trade) (Some ''m1'')) = 1
   \<and> length (dict_get (wallet_outcomes after_small_trade) ''0xA1'') = 1
   \<and> length (dict_get (wallet_history
        (snd (analyze_trade demo_arith demo_fromiso demo_clock small_trade market_m1 after_small_trade)))
        ''0xA1'') = 2
   \<and> length (dict_get (market_volumes
        (snd (analyze_trade demo_arith demo_fromiso demo_clock small_trade market_m1 after_small_trade)))
        (Some ''m1'')) = 2
   \<and> length (dict_get (market_prices
        (snd (analyze_trade demo_arith demo_fromiso demo_clock small_trade market_m1 after_small_trade)))
        (Some ''m1'')) = 2
   \<and> length (dict_get (wallet_outcomes
        (snd (analyze_trade demo_arith demo_fromiso demo_clock small_trade market_m1 after_small_trade)))
        ''0xA1'') = 2"
  by (simp add: small_trade_first_call small_trade_second_call)
     (simp add: after_small_trade_def dict_get_def)

text \<open>
  C1, amended. Take a call that returns, and a second call with the same trade and market
  metadata (and the same timestamp, whatever the clock reads then). When the first call
  returned at least one alert, the second returns the empty list and leaves the whole
  state as it is, so the lengths of all four stores too. When the key was not in the
  ledger before the first call and the first call returned no alert, the key is not in
  the ledger after it either, and the second call is processed like a new trade: it
  appends the trade to the wallet's history again, and when it returns it has updated all
  four stores and marked the ledger as any call that is not a duplicate does.
\<close>

theorem duplicate_delivery:
  assumes "analyze_trade ar fromiso clk tr md s = (Inr alerts, s')"
    and "timestamp_of clk' tr = timestamp_of clk tr"
  shows "(alerts \<noteq> [] \<longrightarrow> analyze_trade ar fromiso' clk' tr md s' = (Inr [], s'))
       \<and> (alerts = [] \<and> key_of_call clk tr md \<notin> sent_alerts s \<longrightarrow>
            key_of_call clk' tr md \<notin> sent_alerts s'
          \<and> wallet_history (snd (analyze_trade ar fromiso' clk' tr md s')) =
              dict_append (wallet_history s') (wallet_of tr) (wallet_entry_of ar clk' tr md)
          \<and> (\<forall>alerts2 s2. analyze_trade ar fromiso' clk' tr md s' = (Inr alerts2, s2) \<longrightarrow>
                s2 = mark_sent alerts2 (stores_updated ar clk' tr md s')))"
proof -
  have same_key: "key_of_call clk' tr md = key_of_call clk tr md"
    by (simp add: key_of_call_def assms(2))
  have ledger: "sent_alerts s' = sent_alerts s \<union> key_of ` set alerts"
    using analyze_trade_ledger [of ar fromiso clk tr md s] assms(1) by simp
  have first: "analyze_trade ar fromiso' clk' tr md s' = (Inr [], s')" if ne: "alerts \<noteq> []"
  proof -
    from ne obtain a where a: "a \<in> set alerts" by (cases alerts) auto
    have "key_of a = key_of_call clk tr md"
      by (rule analyze_trade_keys [OF assms(1) a])
    then have "key_of_call clk tr md \<in> sent_alerts s'"
      using imageI [OF a, of key_of] ledger by simp
    then show ?thesis
      by (simp add: analyze_trade_seen same_key)
  qed
  have second: "key_of_call clk' tr md \<notin> sent_alerts s'
          \<and> wallet_history (snd (analyze_trade ar fromiso' clk' tr md s')) =
              dict_append (wallet_history s') (wallet_of tr) (wallet_entry_of ar clk' tr md)
          \<and> (\<forall>alerts2 s2. analyze_trade ar fromiso' clk' tr md s' = (Inr alerts2, s2) \<longrightarrow>
                s2 = mark_sent alerts2 (stores_updated ar clk' tr md s'))"
    if e: "alerts = []" and unseen: "key_of_call clk tr md \<notin> sent_alerts s"
  proof -
    have unseen': "key_of_call clk' tr md \<notin> sent_alerts s'"
      using ledger e unseen same_key by simp
    have hist: "wallet_history (snd (analyze_trade ar fromiso' clk' tr md s')) =
              dict_append (wallet_history s') (wallet_of tr) (wallet_entry_of ar clk' tr md)"
      using unseen' by (simp add: analyze_trade_wallet_history)
    have post: "s2 = mark_sent alerts2 (stores_updated ar clk' tr md s')"
      if call2: "analyze_trade ar fromiso' clk' tr md s' = (Inr alerts2, s2)" for alerts2 s2
      using analyze_trade_returns [OF call2 unseen'] by blast
    show ?thesis
      using unseen' hist post by blast
  qed
  show ?thesis
    using first second by blast
qed

theorem duplicate_delivery_witness:
  "timestamp_of late_clock big_trade = timestamp_of demo_clock big_trade
   \<and> analyze_trade demo_arith demo_fromiso late_clock big_trade market_m1
       (snd (analyze_trade demo_arith demo_fromiso demo_clock big_trade market_m1 demo_bot)) =
     (Inr [], snd (analyze_trade demo_arith demo_fromiso demo_clock big_trade market_m1 demo_bot))
   \<and> timestamp_of late_clock small_trade = timestamp_of demo_clock small_trade
   \<and> key_of_call demo_clock small_trade market_m1 \<notin> sent_alerts demo_bot
   \<and> key_of_call late_clock small_trade market_m1 \<notin> sent_alerts after_small_trade
   \<and> wallet_history
       (snd (analyze_trade demo_arith demo_fromiso late_clock small_trade market_m1
               after_small_trade)) =
     dict_append (wallet_history after_small_trade) (wallet_of small_trade)
       (wallet_entry_of demo_arith late_clock small_trade market_m1)"
proof -
  have ts: "timestamp_of late_clock big_trade = timestamp_of demo_clock big_trade"
    by (simp add: timestamp_of_def big_trade_def mk_trade_def)
  have ts': "timestamp_of late_clock small_trade = timestamp_of demo_clock small_trade"
    by (simp add: timestamp_of_def small_trade_def mk_trade_def)
  have unseen: "key_of_call demo_clock small_trade market_m1 \<notin> sent_alerts demo_bot"
    by (simp add: demo_bot_def init_bot_def)
  show ?thesis
    using duplicate_delivery [OF big_trade_first_call ts, of demo_fromiso]
      duplicate_delivery [OF small_trade_first_call ts', of demo_fromiso] ts ts' unseen
    by (simp add: big_trade_first_call)
qed

section \<open>The ledger\<close>

text \<open>
  C3: for a call whose dedup key is not in the ledger, the key is in the ledger afterwards
  if and only if the call returns at least one alert; every alert returned carries that
  key; a call that returns no alert, or raises, leaves the ledger as it is. One call can
  return alerts of two rule types with the same key: after the command
  \<open>/set coordinated_min_wallets 1\<close>, the first trade of a wallet returns a fresh-wallet
  and a coordinated-entry alert.
\<close>

theorem ledger_marked_iff_alert_returned:
  assumes "key_of_call clk tr md \<notin> sent_alerts s"
  shows "(case fst (analyze_trade ar fromiso clk tr md s) of
            Inl e \<Rightarrow> sent_alerts (snd (analyze_trade ar fromiso clk tr md s)) = sent_alerts s
          | Inr alerts \<Rightarrow>
              (\<forall>a \<in> set alerts. key_of a = key_of_call clk tr md)
              \<and> (key_of_call clk tr md \<in> sent_alerts (snd (analyze_trade ar fromiso clk tr md s))
                   \<longleftrightarrow> alerts \<noteq> [])
              \<and> sent_alerts (snd (analyze_trade ar fromiso clk tr md s)) =
                  (if alerts = [] then sent_alerts s
                   else insert (key_of_call clk tr md) (sent_alerts s)))
         \<and> fst (analyze_trade demo_arith demo_fromiso demo_clock big_trade market_m1 low_bar_bot) =
             Inr [FRESH_WALLET_LARGE_BET ''0xA1'' 0 (Num 2000) ''Q'' ''0xA1_m1_2024-01-01T00:00:00'',
                  COORDINATED_ENTRY ''0xA1'' 1 ''Yes'' ''Q'' (Num 2000) ''0xA1_m1_2024-01-01T00:00:00'']"
proof -
  obtain r s' where call: "analyze_trade ar fromiso clk tr md s = (r, s')"
    by (cases "analyze_trade ar fromiso clk tr md s") auto
  have ledger: "sent_alerts s' =
      (case r of Inl e \<Rightarrow> sent_alerts s | Inr alerts \<Rightarrow> sent_alerts s \<union> key_of ` set alerts)"
    using analyze_trade_ledger [of ar fromiso clk tr md s] call by simp
  have "case r of
          Inl e \<Rightarrow> sent_alerts s' = sent_alerts s
        | Inr alerts \<Rightarrow>
            (\<forall>a \<in> set alerts. key_of a = key_of_call clk tr md)
            \<and> (key_of_call clk tr md \<in> sent_alerts s' \<longleftrightarrow> alerts \<noteq> [])
            \<and> sent_alerts s' =
                (if alerts = [] then sent_alerts s
                 else insert (key_of_call clk tr md) (sent_alerts s))"
  proof (cases r)
    case (Inl e)
    with ledger show ?thesis by simp
  next
    case (Inr alerts)
    have keys: "\<forall>a \<in> set alerts. key_of a = key_of_call clk tr md"
      using analyze_trade_keys call Inr by blast
    have img: "key_of ` set alerts = (if alerts = [] then {} else {key_of_call clk tr md})"
      using keys by (cases alerts) auto
    show ?thesis
      using Inr ledger keys img assms by auto
  qed
  then show ?thesis
    unfolding call fst_conv snd_conv by (simp add: big_trade_low_bar)
qed

theorem ledger_marked_iff_alert_returned_witness:
  "key_of_call demo_clock big_trade market_m1 \<notin> sent_alerts demo_bot
   \<and> key_of_call demo_clock big_trade market_m1 = ''0xA1_m1_2024-01-01T00:00:00''
   \<and> sent_alerts (snd (analyze_trade demo_arith demo_fromiso demo_clock big_trade market_m1 demo_bot)) =
       insert ''0xA1_m1_2024-01-01T00:00:00'' (sent_alerts demo_bot)"
proof -
  have unseen: "key_of_call demo_clock big_trade market_m1 \<notin> sent_alerts demo_bot"
    by (simp add: demo_bot_def init_bot_def)
  have key: "key_of_call demo_clock big_trade market_m1 = ''0xA1_m1_2024-01-01T00:00:00''"
    by (simp add: eval_defs)
  show ?thesis
    using ledger_marked_iff_alert_returned [OF unseen, of demo_arith demo_fromiso] unseen key
    by (simp add: big_trade_first_call)
qed


section \<open>Unusual size\<close>

text \<open>
  C5: when the market's size window holds exactly ten sizes before the call, the call
  returns no unusual-size alert, whatever the size of the trade. In general the alert is
  returned exactly when the trade is not a duplicate, the market id is present, the window
  as it was before the call holds more than ten sizes and Python's comparison
  \<open>size > avg_size * multiplier\<close> holds, where \<open>avg_size\<close> is \<open>sum(w) / len(w)\<close> of
  that window \<open>w\<close> as Python computes it; the size of the trade is in the window only
  after the call, so it is not part of the mean.
\<close>

theorem unusual_size_needs_warm_window:
  assumes "analyze_trade ar fromiso clk tr md s = (Inr alerts, s')"
  shows "(length (dict_get (market_volumes s) (condition_id md)) = 10
            \<longrightarrow> \<not> has_alert ''UNUSUAL_SIZE'' alerts)
       \<and> (has_alert ''UNUSUAL_SIZE'' alerts \<longleftrightarrow>
            key_of_call clk tr md \<notin> sent_alerts s
          \<and> truthy (condition_id md)
          \<and> length (dict_get (market_volumes s) (condition_id md)) > 10
          \<and> (\<exists>mult. map_of (thresholds s) ''unusual_size_multiplier'' = Some mult
                 \<and> py_lt ar
                     (py_mul ar
                        (py_div ar (py_sum ar (dict_get (market_volumes s) (condition_id md)))
                           (py_int ar (int (length (dict_get (market_volumes s) (condition_id md))))))
                        mult)
                     (size_of ar tr)))
       \<and> (key_of_call clk tr md \<notin> sent_alerts s \<and> truthy (condition_id md) \<longrightarrow>
            dict_get (market_volumes s') (condition_id md) =
              (if length (dict_get (market_volumes s) (condition_id md)) + 1 > 100
               then tl (dict_get (market_volumes s) (condition_id md) @ [size_of ar tr])
               else dict_get (market_volumes s) (condition_id md) @ [size_of ar tr]))"
proof (cases "key_of_call clk tr md \<in> sent_alerts s")
  case True
  with assms have "alerts = []" by (simp add: analyze_trade_seen)
  with True show ?thesis by simp
next
  case False
  from analyze_trade_returns [OF assms False] obtain age a1 a2 a3 a4 a5 a6 where
    r1: "fresh_wallet_rule ar (thresholds s) age (wallet_of tr) (value_of ar tr) (question_of md)
         (key_of_call clk tr md) = Inr a1"
    and r2: "(if truthy (condition_id md)
        then unusual_size_rule ar (thresholds s) (dict_get (market_volumes s) (condition_id md))
               (wallet_of tr) (size_of ar tr) (question_of md) (key_of_call clk tr md)
        else Inr []) = Inr a2"
    and r3: "niche_rule ar (thresholds s)
         (filter (\<lambda>t. Some (h_market t) = question md)
            (dict_get (wallet_history (stores_updated ar clk tr md s)) (wallet_of tr)))
         (volume_of ar md) (wallet_of tr) (question_of md) (key_of_call clk tr md) = Inr a3"
    and r4: "conviction_rule ar (thresholds s)
         (dict_get (wallet_outcomes (stores_updated ar clk tr md s)) (wallet_of tr))
         (wallet_of tr) (question_of md) (price_of ar tr) (value_of ar tr)
         (key_of_call clk tr md) = Inr a4"
    and r5: "pre_move_rule ar fromiso (thresholds s) (condition_id md)
         (dict_get (market_prices (stores_updated ar clk tr md s)) (condition_id md))
         (value_of ar tr) (timestamp_of clk tr) (price_of ar tr) (wallet_of tr) (question_of md)
         (key_of_call clk tr md) = Inr a5"
    and r6: "coordinated_rule ar fromiso (thresholds s) (condition_id md)
         (wallet_history (stores_updated ar clk tr md s))
         (value_of ar tr) (timestamp_of clk tr) (outcome_of tr) (wallet_of tr) (question_of md)
         (key_of_call clk tr md) = Inr a6"
    and al: "alerts = a1 @ a2 @ a3 @ a4 @ a5 @ a6"
    and post: "s' = mark_sent alerts (stores_updated ar clk tr md s)"
    by blast
  have has: "has_alert ''UNUSUAL_SIZE'' alerts \<longleftrightarrow> a2 \<noteq> []"
    by (simp add: al fresh_wallet_rule_has [OF r1] guarded_unusual_size_has [OF r2]
        niche_rule_has [OF r3] conviction_rule_has [OF r4] pre_move_rule_has [OF r5]
        coordinated_rule_has [OF r6])
  have fires: "a2 \<noteq> [] \<longleftrightarrow>
      truthy (condition_id md)
    \<and> length (dict_get (market_volumes s) (condition_id md)) > 10
    \<and> (\<exists>mult. map_of (thresholds s) ''unusual_size_multiplier'' = Some mult
           \<and> py_lt ar
               (py_mul ar
                  (py_div ar (py_sum ar (dict_get (market_volumes s) (condition_id md)))
                     (py_int ar (int (length (dict_get (market_volumes s) (condition_id md))))))
                  mult)
               (size_of ar tr))"
  proof (cases "truthy (condition_id md)")
    case True
    with r2 unusual_size_rule_fires show ?thesis by simp
  next
    case False
    with r2 show ?thesis by auto
  qed
  have window: "truthy (condition_id md) \<Longrightarrow>
      dict_get (market_volumes s') (condition_id md) =
        (if length (dict_get (market_volumes s) (condition_id md)) + 1 > 100
         then tl (dict_get (market_volumes s) (condition_id md) @ [size_of ar tr])
         else dict_get (market_volumes s) (condition_id md) @ [size_of ar tr])"
    by (simp add: post stores_updated_fields dict_get_append_capped)
  show ?thesis
    using False has fires window by auto
qed

theorem unusual_size_needs_warm_window_witness:
  "length (dict_get (market_volumes ten_sizes_bot) (condition_id market_m1)) = 10
   \<and> size_of demo_arith big_trade = Num 2000
   \<and> \<not> has_alert ''UNUSUAL_SIZE''
         [FRESH_WALLET_LARGE_BET ''0xA1'' 0 (Num 2000) ''Q'' ''0xA1_m1_2024-01-01T00:00:00'']"
proof -
  obtain s' where call:
    "analyze_trade demo_arith demo_fromiso demo_clock big_trade market_m1 ten_sizes_bot =
       (Inr [FRESH_WALLET_LARGE_BET ''0xA1'' 0 (Num 2000) ''Q'' ''0xA1_m1_2024-01-01T00:00:00''], s')"
    using big_trade_ten_sizes
    by (cases "analyze_trade demo_arith demo_fromiso demo_clock big_trade market_m1 ten_sizes_bot") auto
  have len: "length (dict_get (market_volumes ten_sizes_bot) (condition_id market_m1)) = 10"
    by (simp add: ten_sizes_bot_def market_m1_def mk_market_def dict_get_def)
  show ?thesis
    using unusual_size_needs_warm_window [OF call] len
    by (simp add: size_of_def big_trade_def mk_trade_def)
qed


section \<open>Trades without a condition id\<close>

text \<open>
  C10: when the market metadata has no condition id, or an empty one, a call leaves the
  size and price windows as they are and returns none of the unusual-size, pre-move and
  coordinated-entry alerts. A call that is not a duplicate still appends the trade to the
  wallet's history, and when it returns it has appended to the wallet's outcomes and the
  alerts are those of the fresh-wallet, repeat-niche-player and conviction rules,
  evaluated on the updated stores.
\<close>

theorem no_condition_id_skips_market_rules:
  assumes "\<not> truthy (condition_id md)"
  shows "market_volumes (snd (analyze_trade ar fromiso clk tr md s)) = market_volumes s
       \<and> market_prices (snd (analyze_trade ar fromiso clk tr md s)) = market_prices s
       \<and> (\<forall>alerts. fst (analyze_trade ar fromiso clk tr md s) = Inr alerts \<longrightarrow>
              \<not> has_alert ''UNUSUAL_SIZE'' alerts
            \<and> \<not> has_alert ''PRE_MOVE_POSITIONING'' alerts
            \<and> \<not> has_alert ''COORDINATED_ENTRY'' alerts)
       \<and> (key_of_call clk tr md \<notin> sent_alerts s \<longrightarrow>
            dict_get (wallet_history (snd (analyze_trade ar fromiso clk tr md s))) (wallet_of tr) =
              dict_get (wallet_history s) (wallet_of tr) @ [wallet_entry_of ar clk tr md]
          \<and> (\<forall>alerts. fst (analyze_trade ar fromiso clk tr md s) = Inr alerts \<longrightarrow>
                dict_get (wallet_outcomes (snd (analyze_trade ar fromiso clk tr md s))) (wallet_of tr) =
                  dict_get (wallet_outcomes s) (wallet_of tr) @ [outcome_entry_of ar tr md]
              \<and> (\<exists>age a1 a3 a4.
                    get_wallet_age fromiso clk (stores_updated ar clk tr md s) (wallet_of tr) = Inr age
                  \<and> fresh_wallet_rule ar (thresholds s) age (wallet_of tr) (value_of ar tr)
                      (question_of md) (key_of_call clk tr md) = Inr a1
                  \<and> niche_rule ar (thresholds s)
                      (filter (\<lambda>t. Some (h_market t) = question md)
                         (dict_get (wallet_history s) (wallet_of tr) @ [wallet_entry_of ar clk tr md]))
                      (volume_of ar md) (wallet_of tr) (question_of md) (key_of_call clk tr md) = Inr a3
                  \<and> conviction_rule ar (thresholds s)
                      (dict_get (wallet_outcomes s) (wallet_of tr) @ [outcome_entry_of ar tr md])
                      (wallet_of tr) (question_of md) (price_of ar tr) (value_of ar tr)
                      (key_of_call clk tr md) = Inr a4
                  \<and> alerts = a1 @ a3 @ a4)))"
proof -
  obtain r s' where call: "analyze_trade ar fromiso clk tr md s = (r, s')"
    by (cases "analyze_trade ar fromiso clk tr md s") auto
  have vol: "market_volumes s' = market_volumes s"
    using analyze_trade_market_volumes [of ar fromiso clk tr md s] assms call by simp
  have prices: "market_prices s' = market_prices s"
    using analyze_trade_market_prices [of ar fromiso clk tr md s] assms call by simp
  have hist: "key_of_call clk tr md \<notin> sent_alerts s \<Longrightarrow>
      dict_get (wallet_history s') (wallet_of tr) =
        dict_get (wallet_history s) (wallet_of tr) @ [wallet_entry_of ar clk tr md]"
    using analyze_trade_wallet_history [of ar fromiso clk tr md s] call
    by (simp add: dict_get_append)
  have returned: "\<not> has_alert ''UNUSUAL_SIZE'' alerts
            \<and> \<not> has_alert ''PRE_MOVE_POSITIONING'' alerts
            \<and> \<not> has_alert ''COORDINATED_ENTRY'' alerts
            \<and> (key_of_call clk tr md \<notin> sent_alerts s \<longrightarrow>
                dict_get (wallet_outcomes s') (wallet_of tr) =
                  dict_get (wallet_outcomes s) (wallet_of tr) @ [outcome_entry_of ar tr md]
              \<and> (\<exists>age a1 a3 a4.
                    get_wallet_age fromiso clk (stores_updated ar clk tr md s) (wallet_of tr) = Inr age
                  \<and> fresh_wallet_rule ar (thresholds s) age (wallet_of tr) (value_of ar tr)
                      (question_of md) (key_of_call clk tr md) = Inr a1
                  \<and> niche_rule ar (thresholds s)
                      (filter (\<lambda>t. Some (h_market t) = question md)
                         (dict_get (wallet_history s) (wallet_of tr) @ [wallet_entry_of ar clk tr md]))
                      (volume_of ar md) (wallet_of tr) (question_of md) (key_of_call clk tr md) = Inr a3
                  \<and> conviction_rule ar (thresholds s)
                      (dict_get (wallet_outcomes s) (wallet_of tr) @ [outcome_entry_of ar tr md])
                      (wallet_of tr) (question_of md) (price_of ar tr) (value_of ar tr)
                      (key_of_call clk tr md) = Inr a4
                  \<and> alerts = a1 @ a3 @ a4))"
    if r: "r = Inr alerts" for alerts
  proof (cases "key_of_call clk tr md \<in> sent_alerts s")
    case True
    with call r have "alerts = []" by (simp add: analyze_trade_seen)
    with True show ?thesis by simp
  next
    case False
    from call r have call': "analyze_trade ar fromiso clk tr md s = (Inr alerts, s')" by simp
    from analyze_trade_returns [OF call' False] obtain age a1 a2 a3 a4 a5 a6 where
      r0: "get_wallet_age fromiso clk (stores_updated ar clk tr md s) (wallet_of tr) = Inr age"
      and r1: "fresh_wallet_rule ar (thresholds s) age (wallet_of tr) (value_of ar tr) (question_of md)
           (key_of_call clk tr md) = Inr a1"
      and r2: "(if truthy (condition_id md)
          then unusual_size_rule ar (thresholds s) (dict_get (market_volumes s) (condition_id md))
                 (wallet_of tr) (size_of ar tr) (question_of md) (key_of_call clk tr md)
          else Inr []) = Inr a2"
      and r3: "niche_rule ar (thresholds s)
           (filter (\<lambda>t. Some (h_market t) = question md)
              (dict_get (wallet_history (stores_updated ar clk tr md s)) (wallet_of tr)))
           (volume_of ar md) (wallet_of tr) (question_of md) (key_of_call clk tr md) = Inr a3"
      and r4: "conviction_rule ar (thresholds s)
           (dict_get (wallet_outcomes (stores_updated ar clk tr md s)) (wallet_of tr))
           (wallet_of tr) (question_of md) (price_of ar tr) (value_of ar tr)
           (key_of_call clk tr md) = Inr a4"
      and r5: "pre_move_rule ar fromiso (thresholds s) (condition_id md)
           (dict_get (market_prices (stores_updated ar clk tr md s)) (condition_id md))
           (value_of ar tr) (timestamp_of clk tr) (price_of ar tr) (wallet_of tr) (question_of md)
           (key_of_call clk tr md) = Inr a5"
      and r6: "coordinated_rule ar fromiso (thresholds s) (condition_id md)
           (wallet_history (stores_updated ar clk tr md s))
           (value_of ar tr) (timestamp_of clk tr) (outcome_of tr) (wallet_of tr) (question_of md)
           (key_of_call clk tr md) = Inr a6"
      and al: "alerts = a1 @ a2 @ a3 @ a4 @ a5 @ a6"
      and post: "s' = mark_sent alerts (stores_updated ar clk tr md s)"
      by blast
    have a2: "a2 = []" using r2 assms by simp
    have a5: "a5 = []" using r5 assms by (simp add: pre_move_rule_def)
    have a6: "a6 = []" using r6 assms by (simp add: coordinated_rule_def)
    have al': "alerts = a1 @ a3 @ a4" by (simp add: al a2 a5 a6)
    have none: "\<not> has_alert ''UNUSUAL_SIZE'' alerts
            \<and> \<not> has_alert ''PRE_MOVE_POSITIONING'' alerts
            \<and> \<not> has_alert ''COORDINATED_ENTRY'' alerts"
      by (simp add: al' fresh_wallet_rule_has [OF r1] niche_rule_has [OF r3]
          conviction_rule_has [OF r4])
    have outs: "dict_get (wallet_outcomes s') (wallet_of tr) =
                  dict_get (wallet_outcomes s) (wallet_of tr) @ [outcome_entry_of ar tr md]"
      by (simp add: post stores_updated_fields dict_get_append)
    from r3 have r3': "niche_rule ar (thresholds s)
           (filter (\<lambda>t. Some (h_market t) = question md)
              (dict_get (wallet_history s) (wallet_of tr) @ [wallet_entry_of ar clk tr md]))
           (volume_of ar md) (wallet_of tr) (question_of md) (key_of_call clk tr md) = Inr a3"
      by (simp add: stores_updated_fields dict_get_append)
    from r4 have r4': "conviction_rule ar (thresholds s)
           (dict_get (wallet_outcomes s) (wallet_of tr) @ [outcome_entry_of ar tr md])
           (wallet_of tr) (question_of md) (price_of ar tr) (value_of ar tr)
           (key_of_call clk tr md) = Inr a4"
      by (simp add: stores_updated_fields dict_get_append)
    show ?thesis
      using none outs r0 r1 r3' r4' al' by blast
  qed
  show ?thesis
    unfolding call fst_conv snd_conv
    using vol prices hist returned by blast
qed

lemma has_alert_Cons:
  "has_alert ty (a # as) \<longleftrightarrow> alert_type a = ty \<or> has_alert ty as"
  by (auto simp: has_alert_def)

lemma big_trade_no_id_call:
  "fst (analyze_trade demo_arith demo_fromiso demo_clock big_trade market_no_id demo_bot) =
     Inr [FRESH_WALLET_LARGE_BET ''0xA1'' 0 (Num 2000) ''Q'' ''0xA1_None_2024-01-01T00:00:00'']"
  by (simp add: market_no_id_def eval_defs)

theorem no_condition_id_skips_market_rules_witness:
  "\<not> truthy (condition_id market_no_id)
   \<and> market_volumes (snd (analyze_trade demo_arith demo_fromiso demo_clock big_trade market_no_id demo_bot))
       = market_volumes demo_bot
   \<and> market_prices (snd (analyze_trade demo_arith demo_fromiso demo_clock big_trade market_no_id demo_bot))
       = market_prices demo_bot
   \<and> \<not> has_alert ''COORDINATED_ENTRY''
         [FRESH_WALLET_LARGE_BET ''0xA1'' 0 (Num 2000) ''Q'' ''0xA1_None_2024-01-01T00:00:00'']
   \<and> dict_get (wallet_history
        (snd (analyze_trade demo_arith demo_fromiso demo_clock big_trade market_no_id demo_bot)))
        (wallet_of big_trade) =
       dict_get (wallet_history demo_bot) (wallet_of big_trade)
         @ [wallet_entry_of demo_arith demo_clock big_trade market_no_id]"
proof -
  have h: "\<not> truthy (condition_id market_no_id)"
    by (simp add: market_no_id_def mk_market_def truthy_def)
  have unseen: "key_of_call demo_clock big_trade market_no_id \<notin> sent_alerts demo_bot"
    by (simp add: demo_bot_def init_bot_def)
  show ?thesis
    using no_condition_id_skips_market_rules
            [OF h, of demo_arith demo_fromiso demo_clock big_trade demo_bot] h unseen
    by (simp add: big_trade_no_id_call)
qed

section \<open>Pre-move positioning\<close>

lemma last_30_min_eq:
  "last_30_min fromiso now ps = Inr l \<Longrightarrow> l = filter (within_30_min fromiso now) ps"
  by (induction ps arbitrary: l)
     (auto simp: bind_eq_Inr within_30_min_def split: option.splits)

lemma pre_move_rule_fires:
  assumes "pre_move_rule ar fromiso th mid rp v ts pr w m k = Inr as"
  shows "as \<noteq> [] \<longleftrightarrow>
           truthy mid
         \<and> (\<exists>min_value. map_of th ''pre_move_min_value'' = Some min_value
               \<and> py_lt ar min_value v)
         \<and> length rp > 10
         \<and> (\<exists>now. fromiso ts = Some now
              \<and> length (filter (within_30_min fromiso now) rp) \<ge> 5
              \<and> (\<exists>pct. map_of th ''pre_move_change_pct'' = Some pct
                    \<and> py_lt ar pct
                         (py_abs ar
                            (py_sub ar pr
                               (p_price (hd (filter (within_30_min fromiso now) rp)))))))"
  using assms
  by (auto simp: pre_move_rule_def Let_def bind_eq_Inr th_get_eq_Inr
      split: if_splits option.splits dest!: last_30_min_eq)

text \<open>
  C7: for a call that is not a duplicate and returns, the pre-move alert is among the
  alerts if and only if the market id is present, the value exceeds \<open>pre_move_min_value\<close>,
  the market's price window after the call has more than ten entries, the entries of that
  window whose timestamp lies less than 1800 seconds before the trade's have at least five
  elements, and \<open>abs(price - old_price) > pre_move_change_pct\<close> holds as Python computes
  it, \<open>old_price\<close> being the price of the first of them in the order of the window. The
  window after the call ends with the entry of the trade itself.
\<close>

theorem pre_move_alert_iff:
  assumes "analyze_trade ar fromiso clk tr md s = (Inr alerts, s')"
    and "key_of_call clk tr md \<notin> sent_alerts s"
  shows "(has_alert ''PRE_MOVE_POSITIONING'' alerts \<longleftrightarrow>
            truthy (condition_id md)
          \<and> (\<exists>min_value. map_of (thresholds s) ''pre_move_min_value'' = Some min_value
                \<and> py_lt ar min_value (value_of ar tr))
          \<and> length (dict_get (market_prices s') (condition_id md)) > 10
          \<and> (\<exists>now. fromiso (timestamp_of clk tr) = Some now
               \<and> length (filter (within_30_min fromiso now)
                    (dict_get (market_prices s') (condition_id md))) \<ge> 5
               \<and> (\<exists>pct. map_of (thresholds s) ''pre_move_change_pct'' = Some pct
                     \<and> py_lt ar pct
                          (py_abs ar
                             (py_sub ar (price_of ar tr)
                                (p_price (hd (filter (within_30_min fromiso now)
                                   (dict_get (market_prices s') (condition_id md))))))))))
       \<and> (truthy (condition_id md) \<longrightarrow>
            dict_get (market_prices s') (condition_id md) \<noteq> []
          \<and> last (dict_get (market_prices s') (condition_id md)) = price_entry_of ar clk tr)"
proof -
  from analyze_trade_returns [OF assms] obtain age a1 a2 a3 a4 a5 a6 where
    r1: "fresh_wallet_rule ar (thresholds s) age (wallet_of tr) (value_of ar tr) (question_of md)
         (key_of_call clk tr md) = Inr a1"
    and r2: "(if truthy (condition_id md)
        then unusual_size_rule ar (thresholds s) (dict_get (market_volumes s) (condition_id md))
               (wallet_of tr) (size_of ar tr) (question_of md) (key_of_call clk tr md)
        else Inr []) = Inr a2"
    and r3: "niche_rule ar (thresholds s)
         (filter (\<lambda>t. Some (h_market t) = question md)
            (dict_get (wallet_history (stores_updated ar clk tr md s)) (wallet_of tr)))
         (volume_of ar md) (wallet_of tr) (question_of md) (key_of_call clk tr md) = Inr a3"
    and r4: "conviction_rule ar (thresholds s)
         (dict_get (wallet_outcomes (stores_updated ar clk tr md s)) (wallet_of tr))
         (wallet_of tr) (question_of md) (price_of ar tr) (value_of ar tr)
         (key_of_call clk tr md) = Inr a4"
    and r5: "pre_move_rule ar fromiso (thresholds s) (condition_id md)
         (dict_get (market_prices (stores_updated ar clk tr md s)) (condition_id md))
         (value_of ar tr) (timestamp_of clk tr) (price_of ar tr) (wallet_of tr) (question_of md)
         (key_of_call clk tr md) = Inr a5"
    and r6: "coordinated_rule ar fromiso (thresholds s) (condition_id md)
         (wallet_history (stores_updated ar clk tr md s))
         (value_of ar tr) (timestamp_of clk tr) (outcome_of tr) (wallet_of tr) (question_of md)
         (key_of_call clk tr md) = Inr a6"
    and al: "alerts = a1 @ a2 @ a3 @ a4 @ a5 @ a6"
    and post: "s' = mark_sent alerts (stores_updated ar clk tr md s)"
    by blast
  have prices: "market_prices s' = market_prices (stores_updated ar clk tr md s)"
    by (simp add: post)
  have has: "has_alert ''PRE_MOVE_POSITIONING'' alerts \<longleftrightarrow> a5 \<noteq> []"
    by (simp add: al fresh_wallet_rule_has [OF r1] guarded_unusual_size_has [OF r2]
        niche_rule_has [OF r3] conviction_rule_has [OF r4] pre_move_rule_has [OF r5]
        coordinated_rule_has [OF r6])
  have window: "truthy (condition_id md) \<Longrightarrow>
      dict_get (market_prices s') (condition_id md) \<noteq> []
    \<and> last (dict_get (market_prices s') (condition_id md)) = price_entry_of ar clk tr"
    by (cases "dict_get (market_prices s) (condition_id md)")
       (simp_all add: prices stores_updated_fields dict_get_append_capped)
  show ?thesis
    unfolding has prices
    using pre_move_rule_fires [OF r5] window
    by (simp add: prices)
qed

lemma big_trade_warm_prices:
  "fst (analyze_trade demo_arith demo_fromiso demo_clock big_trade market_m1 warm_prices_bot) =
     Inr [FRESH_WALLET_LARGE_BET ''0xA1'' 0 (Num 2000) ''Q'' ''0xA1_m1_2024-01-01T00:00:00'',
          PRE_MOVE_POSITIONING ''0xA1'' (Num 2000) (Num (1 / 2)) (Num 1) (Num 50) ''Q'' ''0xA1_m1_2024-01-01T00:00:00'']"
  by (simp add: warm_prices_bot_def half_price_entry_def eval_defs)

theorem pre_move_alert_iff_witness:
  "key_of_call demo_clock big_trade market_m1 \<notin> sent_alerts warm_prices_bot
   \<and> has_alert ''PRE_MOVE_POSITIONING''
       [FRESH_WALLET_LARGE_BET ''0xA1'' 0 (Num 2000) ''Q'' ''0xA1_m1_2024-01-01T00:00:00'',
        PRE_MOVE_POSITIONING ''0xA1'' (Num 2000) (Num (1 / 2)) (Num 1) (Num 50) ''Q'' ''0xA1_m1_2024-01-01T00:00:00'']
   \<and> length (dict_get (market_prices
        (snd (analyze_trade demo_arith demo_fromiso demo_clock big_trade market_m1 warm_prices_bot)))
        (condition_id market_m1)) > 10
   \<and> last (dict_get (market_prices
        (snd (analyze_trade demo_arith demo_fromiso demo_clock big_trade market_m1 warm_prices_bot)))
        (condition_id market_m1)) = price_entry_of demo_arith demo_clock big_trade"
proof -
  have unseen: "key_of_call demo_clock big_trade market_m1 \<notin> sent_alerts warm_prices_bot"
    by (simp add: warm_prices_bot_def demo_bot_def init_bot_def)
  have call: "analyze_trade demo_arith demo_fromiso demo_clock big_trade market_m1 warm_prices_bot =
     (Inr [FRESH_WALLET_LARGE_BET ''0xA1'' 0 (Num 2000) ''Q'' ''0xA1_m1_2024-01-01T00:00:00'',
           PRE_MOVE_POSITIONING ''0xA1'' (Num 2000) (Num (1 / 2)) (Num 1) (Num 50) ''Q'' ''0xA1_m1_2024-01-01T00:00:00''],
      snd (analyze_trade demo_arith demo_fromiso demo_clock big_trade market_m1 warm_prices_bot))"
    using big_trade_warm_prices
    by (cases "analyze_trade demo_arith demo_fromiso demo_clock big_trade market_m1 warm_prices_bot") simp
  have present: "truthy (condition_id market_m1)"
    by (simp add: market_m1_def mk_market_def truthy_def)
  have has: "has_alert ''PRE_MOVE_POSITIONING''
       [FRESH_WALLET_LARGE_BET ''0xA1'' 0 (Num 2000) ''Q'' ''0xA1_m1_2024-01-01T00:00:00'',
        PRE_MOVE_POSITIONING ''0xA1'' (Num 2000) (Num (1 / 2)) (Num 1) (Num 50) ''Q'' ''0xA1_m1_2024-01-01T00:00:00'']"
    by (simp add: has_alert_def)
  note iff = pre_move_alert_iff [OF call unseen]
  from iff has have "length (dict_get (market_prices
        (snd (analyze_trade demo_arith demo_fromiso demo_clock big_trade market_m1 warm_prices_bot)))
        (condition_id market_m1)) > 10"
    by blast
  moreover from iff present have "last (dict_get (market_prices
        (snd (analyze_trade demo_arith demo_fromiso demo_clock big_trade market_m1 warm_prices_bot)))
        (condition_id market_m1)) = price_entry_of demo_arith demo_clock big_trade"
    by blast
  ultimately show ?thesis
    using unseen has by blast
qed

section \<open>The /set command\<close>

lemma startswith_set_excludes:
  assumes "startswith text ''/set''"
  shows "text \<noteq> ''/start''" "text \<noteq> ''/help''" "text \<noteq> ''/pause''" "text \<noteq> ''/resume''"
    "text \<noteq> ''/status''" "text \<noteq> ''/thresholds''" "\<not> startswith text ''/interval''"
proof -
  have len: "length ''/set'' = 4" by simp
  from assms have t4: "take 4 text = ''/set''" unfolding startswith_def len .
  then show "text \<noteq> ''/start''" "text \<noteq> ''/help''" "text \<noteq> ''/pause''" "text \<noteq> ''/resume''"
    "text \<noteq> ''/status''" "text \<noteq> ''/thresholds''" by auto
  show "\<not> startswith text ''/interval''"
  proof
    have len9: "length ''/interval'' = 9" by simp
    assume "startswith text ''/interval''"
    then have "take 9 text = ''/interval''" unfolding startswith_def len9 .
    then have "take 4 (take 9 text) = ''/int''" by simp
    then have "take 4 text = ''/int''" by simp
    with t4 show False by simp
  qed
qed


lemma process_command_set:
  assumes "startswith (command_text msg) ''/set''"
  shows "process_command pyfloat msg s = set_command pyfloat (command_text msg) s"
  using startswith_set_excludes [OF assms] assms
  by (simp add: process_command_def Let_def)

lemma interval_command_thresholds:
  "thresholds (snd (interval_command text s)) = thresholds s"
  by (simp add: interval_command_def Let_def split: list.splits sum.splits)

lemma process_command_thresholds_changed:
  assumes "thresholds (snd (process_command pyfloat msg s)) \<noteq> thresholds s"
  shows "startswith (command_text msg) ''/set''"
  using assms
  by (simp add: process_command_def Let_def interval_command_thresholds split: if_splits)

text \<open>
  What the handler does with \<open>/set\<close>: a command with a parameter and a value whose
  parameter is not a key of the thresholds, or whose value \<open>float\<close> rejects, leaves the
  thresholds as they are and is answered with the error message for the value or for the
  parameter. Whenever a command changes the thresholds, it is a \<open>/set\<close> command naming a
  key of the thresholds with a value that \<open>float\<close> accepts, it is answered with the
  confirmation, and afterwards that key has the new value and every other key the value
  it had.
\<close>

lemma set_command_behaviour:
  assumes "process_command pyfloat msg s = (reply, s')"
  shows "(\<forall>cmd param arg.
            startswith (command_text msg) ''/set''
          \<and> split (command_text msg) = [cmd, param, arg]
          \<and> (map_of (thresholds s) param = None \<or> pyfloat arg = None)
          \<longrightarrow> thresholds s' = thresholds s
            \<and> reply = Inr (Some (if pyfloat arg = None then Invalid_value
                                  else Unknown_parameter param)))
       \<and> (thresholds s' \<noteq> thresholds s \<longrightarrow>
            (\<exists>cmd param arg v.
                startswith (command_text msg) ''/set''
              \<and> split (command_text msg) = [cmd, param, arg]
              \<and> map_of (thresholds s) param \<noteq> None
              \<and> pyfloat arg = Some v
              \<and> reply = Inr (Some (Set_ok param v))
              \<and> thresholds s' = AList.update param v (thresholds s)
              \<and> (\<forall>name. map_of (thresholds s') name =
                    (if name = param then Some v else map_of (thresholds s) name))))"
proof (intro conjI allI impI)
  fix cmd param arg
  assume h: "startswith (command_text msg) ''/set''
          \<and> split (command_text msg) = [cmd, param, arg]
          \<and> (map_of (thresholds s) param = None \<or> pyfloat arg = None)"
  then show "thresholds s' = thresholds s"
    using assms by (auto simp: process_command_set set_command_def split: option.splits)
  from h show "reply = Inr (Some (if pyfloat arg = None then Invalid_value
                             else Unknown_parameter param))"
    using assms by (auto simp: process_command_set set_command_def split: option.splits)
next
  assume ch: "thresholds s' \<noteq> thresholds s"
  then have sw: "startswith (command_text msg) ''/set''"
    using process_command_thresholds_changed [of pyfloat msg s] assms by simp
  from ch assms show "\<exists>cmd param arg v.
                startswith (command_text msg) ''/set''
              \<and> split (command_text msg) = [cmd, param, arg]
              \<and> map_of (thresholds s) param \<noteq> None
              \<and> pyfloat arg = Some v
              \<and> reply = Inr (Some (Set_ok param v))
              \<and> thresholds s' = AList.update param v (thresholds s)
              \<and> (\<forall>name. map_of (thresholds s') name =
                    (if name = param then Some v else map_of (thresholds s) name))"
    unfolding process_command_set [OF sw] set_command_def
    by (auto simp: sw update_conv' split: list.splits option.splits if_splits)
qed

lemma set_bogus_call:
  "process_command demo_pyfloat set_bogus demo_bot =
     (Inr (Some (Unknown_parameter ''bogus'')), demo_bot)"
proof -
  have "split ''/set bogus 1'' = [''/set'', ''bogus'', ''1'']"
    by (simp add: split_def is_space_def)
  then show ?thesis
    by (simp add: set_bogus_def process_command_def set_command_def Let_def command_text_def
        strip_def is_space_def startswith_def demo_pyfloat_def demo_bot_def init_bot_def
        init_thresholds_def)
qed

lemma set_non_numeric_call:
  "process_command demo_pyfloat set_non_numeric demo_bot = (Inr (Some Invalid_value), demo_bot)"
proof -
  have "split ''/set niche_trades_min many'' = [''/set'', ''niche_trades_min'', ''many'']"
    by (simp add: split_def is_space_def)
  then show ?thesis
    by (simp add: set_non_numeric_def process_command_def set_command_def Let_def
        command_text_def strip_def is_space_def startswith_def demo_pyfloat_def)
qed

lemma set_nan_call:
  "process_command demo_pyfloat set_nan demo_bot =
     (Inr (Some (Set_ok ''fresh_wallet_days'' NaN)),
      demo_bot\<lparr>thresholds :=
        AList.update ''fresh_wallet_days'' NaN (init_thresholds demo_arith)\<rparr>)"
proof -
  have "split ''/set fresh_wallet_days nan'' = [''/set'', ''fresh_wallet_days'', ''nan'']"
    by (simp add: split_def is_space_def)
  then show ?thesis
    by (simp add: set_nan_def process_command_def set_command_def Let_def command_text_def
        strip_def is_space_def startswith_def demo_pyfloat_def demo_bot_def init_bot_def
        init_thresholds_def)
qed

text \<open>
  C9: a \<open>/set\<close> command whose value is not a number is to be rejected and to change no
  threshold, and the handler has the answer \<open>Invalid value. Must be a number.\<close> for it.
  It tells a number by whether \<open>float\<close> raises \<open>ValueError\<close>, and \<open>float\<close> accepts the
  text \<open>nan\<close>: the command \<open>/set fresh_wallet_days nan\<close> is answered with the
  confirmation and stores \<open>nan\<close> as the threshold. Every comparison with \<open>nan\<close> is
  false, so afterwards the fresh-wallet rule returns no alert for the trade for which it
  returned one before.
\<close>

theorem set_command_accepts_nan:
  "fst (process_command demo_pyfloat set_nan demo_bot) =
     Inr (Some (Set_ok ''fresh_wallet_days'' NaN))
   \<and> map_of (thresholds demo_bot) ''fresh_wallet_days'' = Some (Num 7)
   \<and> map_of (thresholds (snd (process_command demo_pyfloat set_nan demo_bot)))
       ''fresh_wallet_days'' = Some NaN
   \<and> fst (analyze_trade demo_arith demo_fromiso demo_clock big_trade market_m1 demo_bot) =
       Inr [FRESH_WALLET_LARGE_BET ''0xA1'' 0 (Num 2000) ''Q'' ''0xA1_m1_2024-01-01T00:00:00'']
   \<and> fst (analyze_trade demo_arith demo_fromiso demo_clock big_trade market_m1
            (snd (process_command demo_pyfloat set_nan demo_bot))) = Inr []"
  by (simp add: set_nan_call big_trade_first_call)
     (simp add: eval_defs)

section \<open>The windows\<close>

lemma last_n_short: "length xs \<le> n \<Longrightarrow> last_n n xs = xs"
  by (simp add: last_n_def)

lemma length_last_n: "length (last_n n xs) \<le> n"
  by (simp add: last_n_def)

lemma drop_1_tl: "drop 1 xs = tl xs"
  by (cases xs) simp_all

lemma capped_eq_last_n:
  assumes "length w \<le> cap"
  shows "(if length w + 1 > cap then tl (w @ [x]) else w @ [x]) = last_n cap (w @ [x])"
proof (cases "length w + 1 > cap")
  case True
  with assms have "length (w @ [x]) - cap = 1" by simp
  then have "last_n cap (w @ [x]) = drop 1 (w @ [x])"
    unfolding last_n_def by (rule arg_cong2 [OF _ refl])
  also have "\<dots> = tl (w @ [x])"
    by (rule drop_1_tl)
  finally show ?thesis using True by simp
next
  case False
  then show ?thesis by (simp add: last_n_def)
qed

lemma last_n_last_n_append:
  "last_n cap (last_n cap ys @ zs) = last_n cap (ys @ zs)"
proof (cases "length ys \<le> cap")
  case True
  then show ?thesis by (simp add: last_n_short)
next
  case False
  then show ?thesis by (simp add: last_n_def add.commute)
qed

lemma dict_get_append_capped_last_n:
  "length (dict_get d k) \<le> cap \<Longrightarrow>
     dict_get (append_capped cap d k x) k = last_n cap (dict_get d k @ [x])"
  using capped_eq_last_n [of "dict_get d k" cap x]
  by (simp add: dict_get_append_capped)

lemma append_capped_sequence:
  "length (dict_get d k) \<le> cap \<Longrightarrow>
     dict_get (foldl (\<lambda>d x. append_capped cap d k x) d xs) k = last_n cap (dict_get d k @ xs)"
proof (induction xs arbitrary: d)
  case Nil
  then show ?case by (simp add: last_n_short)
next
  case (Cons x xs)
  have step: "dict_get (append_capped cap d k x) k = last_n cap (dict_get d k @ [x])"
    by (rule dict_get_append_capped_last_n [OF Cons.prems])
  then have "length (dict_get (append_capped cap d k x) k) \<le> cap"
    by (simp add: length_last_n)
  from Cons.IH [OF this] show ?case
    using last_n_last_n_append [of cap "dict_get d k @ [x]" xs]
    by (simp add: step)
qed

lemma interval_command_stores:
  "wallet_history (snd (interval_command text s)) = wallet_history s"
  "market_volumes (snd (interval_command text s)) = market_volumes s"
  "market_prices (snd (interval_command text s)) = market_prices s"
  "wallet_outcomes (snd (interval_command text s)) = wallet_outcomes s"
  "sent_alerts (snd (interval_command text s)) = sent_alerts s"
  by (simp_all add: interval_command_def Let_def split: list.splits sum.splits)

lemma set_command_stores:
  "wallet_history (snd (set_command pyfloat text s)) = wallet_history s"
  "market_volumes (snd (set_command pyfloat text s)) = market_volumes s"
  "market_prices (snd (set_command pyfloat text s)) = market_prices s"
  "wallet_outcomes (snd (set_command pyfloat text s)) = wallet_outcomes s"
  "sent_alerts (snd (set_command pyfloat text s)) = sent_alerts s"
  by (simp_all add: set_command_def split: list.splits option.splits)

lemma process_command_stores:
  "wallet_history (snd (process_command pyfloat msg s)) = wallet_history s"
  "market_volumes (snd (process_command pyfloat msg s)) = market_volumes s"
  "market_prices (snd (process_command pyfloat msg s)) = market_prices s"
  "wallet_outcomes (snd (process_command pyfloat msg s)) = wallet_outcomes s"
  "sent_alerts (snd (process_command pyfloat msg s)) = sent_alerts s"
  by (simp_all add: process_command_def Let_def interval_command_stores set_command_stores)

lemma windows_bounded_init: "windows_bounded (init_bot ar)"
  by (simp add: windows_bounded_def init_bot_def dict_get_def)

lemma step_volume_window:
  assumes "windows_bounded s"
  shows "dict_get (market_volumes (step ar pyfloat fromiso s ev)) k = dict_get (market_volumes s) k
       \<or> (\<exists>clk tr md. ev = Trade_event clk tr md \<and> k = condition_id md
            \<and> dict_get (market_volumes (step ar pyfloat fromiso s ev)) k =
                last_n 100 (dict_get (market_volumes s) k @ [size_of ar tr]))"
proof (cases ev)
  case (Trade_event clk tr md)
  have len: "length (dict_get (market_volumes s) (condition_id md)) \<le> 100"
    using assms by (simp add: windows_bounded_def)
  from analyze_trade_market_volumes [of ar fromiso clk tr md s]
  show ?thesis
  proof
    assume "market_volumes (snd (analyze_trade ar fromiso clk tr md s)) = market_volumes s"
    then show ?thesis by (simp add: Trade_event)
  next
    assume "key_of_call clk tr md \<notin> sent_alerts s \<and> truthy (condition_id md)
      \<and> market_volumes (snd (analyze_trade ar fromiso clk tr md s)) =
          append_capped 100 (market_volumes s) (condition_id md) (size_of ar tr)"
    then have post: "market_volumes (step ar pyfloat fromiso s ev) =
        append_capped 100 (market_volumes s) (condition_id md) (size_of ar tr)"
      by (simp add: Trade_event)
    show ?thesis
    proof (cases "k = condition_id md")
      case True
      have "dict_get (market_volumes (step ar pyfloat fromiso s ev)) k =
              last_n 100 (dict_get (market_volumes s) k @ [size_of ar tr])"
        unfolding post True by (rule dict_get_append_capped_last_n [OF len])
      with True Trade_event show ?thesis by blast
    next
      case False
      then show ?thesis by (simp add: post dict_get_append_capped)
    qed
  qed
next
  case (Command_event msg)
  then show ?thesis by (simp add: process_command_stores)
qed

lemma step_price_window:
  assumes "windows_bounded s"
  shows "dict_get (market_prices (step ar pyfloat fromiso s ev)) k = dict_get (market_prices s) k
       \<or> (\<exists>clk tr md. ev = Trade_event clk tr md \<and> k = condition_id md
            \<and> dict_get (market_prices (step ar pyfloat fromiso s ev)) k =
                last_n 200 (dict_get (market_prices s) k @ [price_entry_of ar clk tr]))"
proof (cases ev)
  case (Trade_event clk tr md)
  have len: "length (dict_get (market_prices s) (condition_id md)) \<le> 200"
    using assms by (simp add: windows_bounded_def)
  show ?thesis
  proof (cases "key_of_call clk tr md \<notin> sent_alerts s \<and> truthy (condition_id md)")
    case False
    then have "market_prices (snd (analyze_trade ar fromiso clk tr md s)) = market_prices s"
      unfolding analyze_trade_market_prices by (rule if_not_P)
    then show ?thesis by (simp add: Trade_event)
  next
    case yes: True
    then have post: "market_prices (step ar pyfloat fromiso s ev) =
        append_capped 200 (market_prices s) (condition_id md) (price_entry_of ar clk tr)"
      by (simp add: Trade_event analyze_trade_market_prices)
    show ?thesis
    proof (cases "k = condition_id md")
      case True
      have "dict_get (market_prices (step ar pyfloat fromiso s ev)) k =
              last_n 200 (dict_get (market_prices s) k @ [price_entry_of ar clk tr])"
        unfolding post True by (rule dict_get_append_capped_last_n [OF len])
      with True Trade_event show ?thesis by blast
    next
      case False
      then show ?thesis by (simp add: post dict_get_append_capped)
    qed
  qed
next
  case (Command_event msg)
  then show ?thesis by (simp add: process_command_stores)
qed

lemma windows_bounded_step:
  assumes "windows_bounded s"
  shows "windows_bounded (step ar pyfloat fromiso s ev)"
  unfolding windows_bounded_def
proof (intro allI conjI)
  fix k
  from step_volume_window [OF assms, of ar pyfloat fromiso ev k]
  show "length (dict_get (market_volumes (step ar pyfloat fromiso s ev)) k) \<le> 100"
    using assms length_last_n [of 100] by (auto simp: windows_bounded_def)
  from step_price_window [OF assms, of ar pyfloat fromiso ev k]
  show "length (dict_get (market_prices (step ar pyfloat fromiso s ev)) k) \<le> 200"
    using assms length_last_n [of 200] by (auto simp: windows_bounded_def)
qed

lemma windows_bounded_run:
  "windows_bounded s \<Longrightarrow> windows_bounded (run ar pyfloat fromiso evs s)"
  unfolding run_def
  by (induction evs arbitrary: s) (simp_all add: windows_bounded_step)

lemma processed_trade_windows:
  assumes "windows_bounded s"
    and "key_of_call clk tr md \<notin> sent_alerts s"
    and "truthy (condition_id md)"
    and "fst (analyze_trade ar fromiso clk tr md s) = Inr alerts"
  shows "dict_get (market_volumes (snd (analyze_trade ar fromiso clk tr md s))) (condition_id md) =
           last_n 100 (dict_get (market_volumes s) (condition_id md) @ [size_of ar tr])"
    and "dict_get (market_prices (snd (analyze_trade ar fromiso clk tr md s))) (condition_id md) =
           last_n 200 (dict_get (market_prices s) (condition_id md) @ [price_entry_of ar clk tr])"
proof -
  have call: "analyze_trade ar fromiso clk tr md s =
                (Inr alerts, snd (analyze_trade ar fromiso clk tr md s))"
    using assms(4) by (cases "analyze_trade ar fromiso clk tr md s") simp
  from analyze_trade_returns [OF call assms(2)]
  have post: "snd (analyze_trade ar fromiso clk tr md s) =
                mark_sent alerts (stores_updated ar clk tr md s)"
    by blast
  have lenv: "length (dict_get (market_volumes s) (condition_id md)) \<le> 100"
    and lenp: "length (dict_get (market_prices s) (condition_id md)) \<le> 200"
    using assms(1) by (simp_all add: windows_bounded_def)
  show "dict_get (market_volumes (snd (analyze_trade ar fromiso clk tr md s))) (condition_id md) =
           last_n 100 (dict_get (market_volumes s) (condition_id md) @ [size_of ar tr])"
    using dict_get_append_capped_last_n [OF lenv, of "size_of ar tr"] assms(3)
    by (simp add: post stores_updated_fields)
  show "dict_get (market_prices (snd (analyze_trade ar fromiso clk tr md s))) (condition_id md) =
           last_n 200 (dict_get (market_prices s) (condition_id md) @ [price_entry_of ar clk tr])"
    using dict_get_append_capped_last_n [OF lenp, of "price_entry_of ar clk tr"] assms(3)
    by (simp add: post stores_updated_fields)
qed

text \<open>
  C2: in every state reached from the initial one by calls of \<open>analyze_trade\<close> and of
  \<open>process_command\<close>, in any order and also when calls raise, every size window has at
  most 100 entries and every price window at most 200. A further call or command leaves
  each window as it is or turns it into the last 100 (200) entries of the window with the
  trade's size (price entry) appended at the end, so the oldest entry is the one dropped;
  a trade with a market id that is processed and returns does the latter to both windows
  of its market. Appending any sequence of values to a window that starts empty gives the
  last 100 (200) of them in the order of arrival.
\<close>

theorem windows_bounded_fifo:
  assumes "s = run ar pyfloat fromiso evs (init_bot ar)"
  shows "(\<forall>k. length (dict_get (market_volumes s) k) \<le> 100
            \<and> length (dict_get (market_prices s) k) \<le> 200)
       \<and> (\<forall>ev k.
            (dict_get (market_volumes (step ar pyfloat fromiso s ev)) k = dict_get (market_volumes s) k
             \<or> (\<exists>clk tr md. ev = Trade_event clk tr md \<and> k = condition_id md
                  \<and> dict_get (market_volumes (step ar pyfloat fromiso s ev)) k =
                      last_n 100 (dict_get (market_volumes s) k @ [size_of ar tr])))
          \<and> (dict_get (market_prices (step ar pyfloat fromiso s ev)) k = dict_get (market_prices s) k
             \<or> (\<exists>clk tr md. ev = Trade_event clk tr md \<and> k = condition_id md
                  \<and> dict_get (market_prices (step ar pyfloat fromiso s ev)) k =
                      last_n 200 (dict_get (market_prices s) k @ [price_entry_of ar clk tr]))))
       \<and> (\<forall>clk tr md alerts.
            key_of_call clk tr md \<notin> sent_alerts s \<and> truthy (condition_id md)
          \<and> fst (analyze_trade ar fromiso clk tr md s) = Inr alerts
          \<longrightarrow> dict_get (market_volumes (snd (analyze_trade ar fromiso clk tr md s))) (condition_id md) =
                last_n 100 (dict_get (market_volumes s) (condition_id md) @ [size_of ar tr])
            \<and> dict_get (market_prices (snd (analyze_trade ar fromiso clk tr md s))) (condition_id md) =
                last_n 200 (dict_get (market_prices s) (condition_id md) @ [price_entry_of ar clk tr]))
       \<and> (\<forall>sizes k. dict_get (foldl (\<lambda>d x. append_capped 100 d k x) (market_volumes (init_bot ar)) sizes) k
                      = last_n 100 sizes)
       \<and> (\<forall>entries k. dict_get (foldl (\<lambda>d x. append_capped 200 d k x) (market_prices (init_bot ar)) entries) k
                      = last_n 200 entries)"
proof -
  have inv: "windows_bounded s"
    unfolding assms by (rule windows_bounded_run [OF windows_bounded_init])
  have empty: "dict_get (market_volumes (init_bot ar)) k = []"
    "dict_get (market_prices (init_bot ar)) k' = []" for k k'
    by (simp_all add: init_bot_def dict_get_def)
  have seqv: "dict_get (foldl (\<lambda>d x. append_capped 100 d k x) (market_volumes (init_bot ar)) sizes) k
                      = last_n 100 sizes" for sizes k
    using append_capped_sequence [of "market_volumes (init_bot ar)" k 100 sizes]
    by (simp add: empty)
  have seqp: "dict_get (foldl (\<lambda>d x. append_capped 200 d k x) (market_prices (init_bot ar)) entries) k
                      = last_n 200 entries" for entries k
    using append_capped_sequence [of "market_prices (init_bot ar)" k 200 entries]
    by (simp add: empty)
  have bound: "\<forall>k. length (dict_get (market_volumes s) k) \<le> 100
            \<and> length (dict_get (market_prices s) k) \<le> 200"
    using inv by (simp add: windows_bounded_def)
  have steps: "\<forall>ev k.
            (dict_get (market_volumes (step ar pyfloat fromiso s ev)) k = dict_get (market_volumes s) k
             \<or> (\<exists>clk tr md. ev = Trade_event clk tr md \<and> k = condition_id md
                  \<and> dict_get (market_volumes (step ar pyfloat fromiso s ev)) k =
                      last_n 100 (dict_get (market_volumes s) k @ [size_of ar tr])))
          \<and> (dict_get (market_prices (step ar pyfloat fromiso s ev)) k = dict_get (market_prices s) k
             \<or> (\<exists>clk tr md. ev = Trade_event clk tr md \<and> k = condition_id md
                  \<and> dict_get (market_prices (step ar pyfloat fromiso s ev)) k =
                      last_n 200 (dict_get (market_prices s) k @ [price_entry_of ar clk tr])))"
    by (intro allI conjI) (rule step_volume_window [OF inv], rule step_price_window [OF inv])
  have processed: "\<forall>clk tr md alerts.
            key_of_call clk tr md \<notin> sent_alerts s \<and> truthy (condition_id md)
          \<and> fst (analyze_trade ar fromiso clk tr md s) = Inr alerts
          \<longrightarrow> dict_get (market_volumes (snd (analyze_trade ar fromiso clk tr md s))) (condition_id md) =
                last_n 100 (dict_get (market_volumes s) (condition_id md) @ [size_of ar tr])
            \<and> dict_get (market_prices (snd (analyze_trade ar fromiso clk tr md s))) (condition_id md) =
                last_n 200 (dict_get (market_prices s) (condition_id md) @ [price_entry_of ar clk tr])"
  proof (intro allI impI)
    fix clk tr md alerts
    assume h: "key_of_call clk tr md \<notin> sent_alerts s \<and> truthy (condition_id md)
          \<and> fst (analyze_trade ar fromiso clk tr md s) = Inr alerts"
    then have h1: "key_of_call clk tr md \<notin> sent_alerts s" and h2: "truthy (condition_id md)"
      and h3: "fst (analyze_trade ar fromiso clk tr md s) = Inr alerts" by simp_all
    from processed_trade_windows [OF inv h1 h2 h3]
    show "dict_get (market_volumes (snd (analyze_trade ar fromiso clk tr md s))) (condition_id md) =
                last_n 100 (dict_get (market_volumes s) (condition_id md) @ [size_of ar tr])
            \<and> dict_get (market_prices (snd (analyze_trade ar fromiso clk tr md s))) (condition_id md) =
                last_n 200 (dict_get (market_prices s) (condition_id md) @ [price_entry_of ar clk tr])"
      by (rule conjI)
  qed
  from seqv seqp have seqs:
    "(\<forall>sizes k. dict_get (foldl (\<lambda>d x. append_capped 100 d k x) (market_volumes (init_bot ar)) sizes) k
                      = last_n 100 sizes)
       \<and> (\<forall>entries k. dict_get (foldl (\<lambda>d x. append_capped 200 d k x) (market_prices (init_bot ar)) entries) k
                      = last_n 200 entries)"
    by simp
  show ?thesis
    by (rule conjI [OF bound conjI [OF steps conjI [OF processed seqs]]])
qed

theorem windows_bounded_fifo_witness:
  "length (dict_get (market_volumes
      (run demo_arith demo_pyfloat demo_fromiso
         [Command_event set_min_wallets_1, Trade_event demo_clock big_trade market_m1] (init_bot demo_arith)))
      (Some ''m1'')) \<le> 100
   \<and> length (dict_get (market_prices
      (run demo_arith demo_pyfloat demo_fromiso
         [Command_event set_min_wallets_1, Trade_event demo_clock big_trade market_m1] (init_bot demo_arith)))
      (Some ''m1'')) \<le> 200
   \<and> dict_get (foldl (\<lambda>d x. append_capped 100 d (Some ''m1'') x) (market_volumes (init_bot demo_arith))
        [Num 1, Num 2, Num 3]) (Some ''m1'') = last_n 100 [Num 1, Num 2, Num 3]"
  using windows_bounded_fifo
    [OF refl, of demo_arith demo_pyfloat demo_fromiso
       "[Command_event set_min_wallets_1, Trade_event demo_clock big_trade market_m1]"]
  by blast

lemma append_capped_evicts_oldest:
  "dict_get (foldl (\<lambda>d x. append_capped 3 d (Some ''m1'') x) [] [1, 2, 3, 4, 5 :: rat])
     (Some ''m1'') = [3, 4, 5]"
  by (simp add: append_capped_def dict_append_def dict_get_def Let_def)

section \<open>Calls that return\<close>

lemma th_get_complete:
  assumes "thresholds_complete th" and "name \<in> set threshold_names"
  shows "\<exists>v. th_get th name = Inr v"
  using assms by (auto simp: thresholds_complete_def th_get_def split: option.splits)

lemma threshold_names_simps:
  "''fresh_wallet_days'' \<in> set threshold_names"
  "''fresh_wallet_min_value'' \<in> set threshold_names"
  "''unusual_size_multiplier'' \<in> set threshold_names"
  "''niche_volume_max'' \<in> set threshold_names"
  "''niche_trades_min'' \<in> set threshold_names"
  "''win_rate_conviction_min'' \<in> set threshold_names"
  "''win_rate_min_value'' \<in> set threshold_names"
  "''pre_move_min_value'' \<in> set threshold_names"
  "''pre_move_change_pct'' \<in> set threshold_names"
  "''coordinated_min_value'' \<in> set threshold_names"
  "''coordinated_min_wallets'' \<in> set threshold_names"
  by (simp_all add: threshold_names_def)

lemma fresh_wallet_rule_total:
  assumes "thresholds_complete th"
  shows "\<exists>as. fresh_wallet_rule ar th age w v m k = Inr as"
proof -
  from th_get_complete [OF assms threshold_names_simps(1)] obtain d
    where d: "th_get th ''fresh_wallet_days'' = Inr d" by blast
  from th_get_complete [OF assms threshold_names_simps(2)] obtain mv
    where mv: "th_get th ''fresh_wallet_min_value'' = Inr mv" by blast
  show ?thesis
    by (cases age) (simp_all add: fresh_wallet_rule_def d mv)
qed

lemma unusual_size_rule_total:
  assumes "thresholds_complete th"
  shows "\<exists>as. unusual_size_rule ar th rt w sz m k = Inr as"
proof -
  from th_get_complete [OF assms threshold_names_simps(3)] obtain mu
    where mu: "th_get th ''unusual_size_multiplier'' = Inr mu" by blast
  show ?thesis
    by (simp add: unusual_size_rule_def Let_def mu)
qed

lemma niche_rule_total:
  assumes "thresholds_complete th"
  shows "\<exists>as. niche_rule ar th smt vol w m k = Inr as"
proof -
  from th_get_complete [OF assms threshold_names_simps(5)] obtain tm
    where tm: "th_get th ''niche_trades_min'' = Inr tm" by blast
  from th_get_complete [OF assms threshold_names_simps(4)] obtain vm
    where vm: "th_get th ''niche_volume_max'' = Inr vm" by blast
  show ?thesis
    by (simp add: niche_rule_def tm vm)
qed

lemma conviction_rule_total:
  assumes "thresholds_complete th"
  shows "\<exists>as. conviction_rule ar th os w m pr v k = Inr as"
proof -
  from th_get_complete [OF assms threshold_names_simps(6)] obtain cm
    where cm: "th_get th ''win_rate_conviction_min'' = Inr cm" by blast
  from th_get_complete [OF assms threshold_names_simps(7)] obtain mv
    where mv: "th_get th ''win_rate_min_value'' = Inr mv" by blast
  show ?thesis
    by (simp add: conviction_rule_def Let_def cm mv)
qed

lemma naive_timestampD:
  "naive_timestamp fromiso ts \<Longrightarrow> \<exists>t. fromiso ts = Some t \<and> \<not> tz_aware t"
  by (simp add: naive_timestamp_def split: option.splits)

lemma dt_sub_naive:
  "\<not> tz_aware a \<Longrightarrow> \<not> tz_aware b \<Longrightarrow> dt_sub a b = Inr (micros a - micros b)"
  by (simp add: dt_sub_def)

lemma last_30_min_total:
  "\<forall>p \<in> set ps. naive_timestamp fromiso (p_timestamp p) \<Longrightarrow> \<not> tz_aware now \<Longrightarrow>
     \<exists>l. last_30_min fromiso now ps = Inr l"
  by (induction ps) (auto dest!: naive_timestampD simp: dt_sub_naive)

lemma pre_move_rule_total:
  assumes "thresholds_complete th" and "naive_timestamp fromiso ts"
    and "\<forall>p \<in> set rp. naive_timestamp fromiso (p_timestamp p)"
  shows "\<exists>as. pre_move_rule ar fromiso th mid rp v ts pr w m k = Inr as"
proof -
  from th_get_complete [OF assms(1) threshold_names_simps(8)] obtain mv
    where mv: "th_get th ''pre_move_min_value'' = Inr mv" by blast
  from th_get_complete [OF assms(1) threshold_names_simps(9)] obtain pct
    where pct: "th_get th ''pre_move_change_pct'' = Inr pct" by blast
  from naive_timestampD [OF assms(2)] obtain now
    where now: "fromiso ts = Some now" and naive: "\<not> tz_aware now" by blast
  from last_30_min_total [OF assms(3) naive] obtain l
    where l: "last_30_min fromiso now rp = Inr l" by blast
  show ?thesis
    by (simp add: pre_move_rule_def Let_def mv pct now l)
qed

lemma scan_trades_total:
  "\<forall>t \<in> set ts. naive_timestamp fromiso (h_timestamp t) \<Longrightarrow> \<not> tz_aware now \<Longrightarrow>
     \<exists>l. scan_trades fromiso now mid oc w ts = Inr l"
  by (induction ts) (auto dest!: naive_timestampD simp: dt_sub_naive)

lemma set_last_n_subset: "set (last_n n xs) \<subseteq> set xs"
  by (simp add: last_n_def set_drop_subset)

lemma scan_wallets_total:
  "\<forall>(w, trades) \<in> set h. \<forall>t \<in> set trades. naive_timestamp fromiso (h_timestamp t) \<Longrightarrow>
     \<not> tz_aware now \<Longrightarrow> \<exists>l. scan_wallets fromiso now mid oc wallet h = Inr l"
proof (induction h)
  case Nil
  then show ?case by simp
next
  case (Cons p h)
  obtain w trades where p: "p = (w, trades)" by (cases p)
  from Cons.prems(1) have rest: "\<forall>(w, trades) \<in> set h. \<forall>t \<in> set trades. naive_timestamp fromiso (h_timestamp t)"
    by simp
  from Cons.IH [OF rest Cons.prems(2)] obtain l where l: "scan_wallets fromiso now mid oc wallet h = Inr l"
    by blast
  from Cons.prems(1) p have "\<forall>t \<in> set trades. naive_timestamp fromiso (h_timestamp t)" by simp
  then have "\<forall>t \<in> set (last_n 5 trades). naive_timestamp fromiso (h_timestamp t)"
    using set_last_n_subset [of 5 trades] by blast
  from scan_trades_total [OF this Cons.prems(2)] obtain f
    where f: "scan_trades fromiso now mid oc w (last_n 5 trades) = Inr f" by blast
  show ?case by (simp add: p l f)
qed

lemma coordinated_rule_total:
  assumes "thresholds_complete th" and "naive_timestamp fromiso ts"
    and "\<forall>(w, trades) \<in> set h. \<forall>t \<in> set trades. naive_timestamp fromiso (h_timestamp t)"
  shows "\<exists>as. coordinated_rule ar fromiso th mid h v ts oc w m k = Inr as"
proof -
  from th_get_complete [OF assms(1) threshold_names_simps(10)] obtain mv
    where mv: "th_get th ''coordinated_min_value'' = Inr mv" by blast
  from th_get_complete [OF assms(1) threshold_names_simps(11)] obtain mw
    where mw: "th_get th ''coordinated_min_wallets'' = Inr mw" by blast
  from naive_timestampD [OF assms(2)] obtain now
    where now: "fromiso ts = Some now" and naive: "\<not> tz_aware now" by blast
  from scan_wallets_total [OF assms(3) naive] obtain l
    where l: "scan_wallets fromiso now mid oc w h = Inr l" by blast
  show ?thesis
    by (simp add: coordinated_rule_def Let_def mv mw now l)
qed

text \<open>The converse of the decomposition.\<close>

lemma analyze_trade_from_rules:
  assumes "key_of_call clk tr md \<notin> sent_alerts s"
    and "get_wallet_age fromiso clk (stores_updated ar clk tr md s) (wallet_of tr) = Inr age"
    and "fresh_wallet_rule ar (thresholds s) age (wallet_of tr) (value_of ar tr) (question_of md)
           (key_of_call clk tr md) = Inr a1"
    and "(if truthy (condition_id md)
          then unusual_size_rule ar (thresholds s) (dict_get (market_volumes s) (condition_id md))
                 (wallet_of tr) (size_of ar tr) (question_of md) (key_of_call clk tr md)
          else Inr []) = Inr a2"
    and "niche_rule ar (thresholds s)
           (filter (\<lambda>t. Some (h_market t) = question md)
              (dict_get (wallet_history (stores_updated ar clk tr md s)) (wallet_of tr)))
           (volume_of ar md) (wallet_of tr) (question_of md) (key_of_call clk tr md) = Inr a3"
    and "conviction_rule ar (thresholds s)
           (dict_get (wallet_outcomes (stores_updated ar clk tr md s)) (wallet_of tr))
           (wallet_of tr) (question_of md) (price_of ar tr) (value_of ar tr)
           (key_of_call clk tr md) = Inr a4"
    and "pre_move_rule ar fromiso (thresholds s) (condition_id md)
           (dict_get (market_prices (stores_updated ar clk tr md s)) (condition_id md))
           (value_of ar tr) (timestamp_of clk tr) (price_of ar tr) (wallet_of tr) (question_of md)
           (key_of_call clk tr md) = Inr a5"
    and "coordinated_rule ar fromiso (thresholds s) (condition_id md)
           (wallet_history (stores_updated ar clk tr md s))
           (value_of ar tr) (timestamp_of clk tr) (outcome_of tr) (wallet_of tr) (question_of md)
           (key_of_call clk tr md) = Inr a6"
  shows "analyze_trade ar fromiso clk tr md s =
           (Inr (a1 @ a2 @ a3 @ a4 @ a5 @ a6),
            mark_sent (a1 @ a2 @ a3 @ a4 @ a5 @ a6) (stores_updated ar clk tr md s))"
proof -
  have age_eq: "get_wallet_age fromiso clk
                  (record_price ar clk tr md (record_wallet_trade ar clk tr md s)) (wallet_of tr)
                = get_wallet_age fromiso clk (stores_updated ar clk tr md s) (wallet_of tr)"
    by (rule get_wallet_age_cong) (simp add: stores_updated_fields)
  show ?thesis
  proof (cases "truthy (condition_id md)")
    case True
    with assms(4) have r2: "unusual_size_rule ar (thresholds s)
        (dict_get (market_volumes s) (condition_id md))
        (wallet_of tr) (size_of ar tr) (question_of md) (key_of_call clk tr md) = Inr a2"
      by simp
    show ?thesis
      using assms(1-3,5-8) r2 True
      unfolding analyze_trade_def Let_def key_of_call_def [symmetric] age_eq
      by (simp add: stores_updated_fields) (simp add: stores_updated_def)
  next
    case False
    with assms(4) have r2: "a2 = []" by simp
    show ?thesis
      using assms(1-3,5-8) r2 False
      unfolding analyze_trade_def Let_def key_of_call_def [symmetric] age_eq
      by (simp add: stores_updated_fields) (simp add: stores_updated_def)
  qed
qed

lemma set_update_cases:
  "p \<in> set (AList.update k v al) \<Longrightarrow> p = (k, v) \<or> p \<in> set al"
  by (induction al) (auto split: if_splits)

lemma dict_get_in_set:
  assumes "x \<in> set (dict_get d k)"
  shows "\<exists>v. (k, v) \<in> set d \<and> x \<in> set v"
proof (cases "map_of d k")
  case None
  then show ?thesis using assms by (simp add: dict_get_def)
next
  case (Some v)
  then have "(k, v) \<in> set d" by (rule map_of_SomeD)
  with Some assms show ?thesis by (auto simp: dict_get_def)
qed

lemma timestamps_naive_stores_updated:
  assumes "timestamps_naive fromiso s" and "naive_timestamp fromiso (timestamp_of clk tr)"
  shows "timestamps_naive fromiso (stores_updated ar clk tr md s)"
proof -
  have new_h: "naive_timestamp fromiso (h_timestamp (wallet_entry_of ar clk tr md))"
    using assms(2) by (simp add: wallet_entry_of_def)
  have new_p: "naive_timestamp fromiso (p_timestamp (price_entry_of ar clk tr))"
    using assms(2) by (simp add: price_entry_of_def)
  have old_h: "naive_timestamp fromiso (h_timestamp t)" if "(w, trades) \<in> set (wallet_history s)"
    and "t \<in> set trades" for w trades t
    using assms(1) that by (auto simp: timestamps_naive_def)
  have old_p: "naive_timestamp fromiso (p_timestamp p)" if "(k, ps) \<in> set (market_prices s)"
    and "p \<in> set ps" for k ps p
    using assms(1) that by (auto simp: timestamps_naive_def)
  have hist: "naive_timestamp fromiso (h_timestamp t)"
    if in_h: "(w, trades) \<in> set (wallet_history (stores_updated ar clk tr md s))"
      and in_t: "t \<in> set trades" for w trades t
  proof -
    from in_h have "(w, trades) \<in> set (AList.update (wallet_of tr)
        (dict_get (wallet_history s) (wallet_of tr) @ [wallet_entry_of ar clk tr md])
        (wallet_history s))"
      by (simp add: stores_updated_fields dict_append_def)
    then have "(w, trades) =
        (wallet_of tr, dict_get (wallet_history s) (wallet_of tr) @ [wallet_entry_of ar clk tr md])
      \<or> (w, trades) \<in> set (wallet_history s)"
      by (rule set_update_cases)
    then show ?thesis
    proof
      assume "(w, trades) =
        (wallet_of tr, dict_get (wallet_history s) (wallet_of tr) @ [wallet_entry_of ar clk tr md])"
      with in_t have "t \<in> set (dict_get (wallet_history s) (wallet_of tr))
          \<or> t = wallet_entry_of ar clk tr md" by auto
      then show ?thesis
      proof
        assume "t \<in> set (dict_get (wallet_history s) (wallet_of tr))"
        from dict_get_in_set [OF this] obtain v
          where "(wallet_of tr, v) \<in> set (wallet_history s)" and "t \<in> set v" by blast
        then show ?thesis by (rule old_h)
      next
        assume "t = wallet_entry_of ar clk tr md"
        with new_h show ?thesis by simp
      qed
    next
      assume "(w, trades) \<in> set (wallet_history s)"
      then show ?thesis using in_t by (rule old_h)
    qed
  qed
  have win: "naive_timestamp fromiso (p_timestamp p)"
    if "p \<in> set (dict_get (market_prices s) (condition_id md) @ [price_entry_of ar clk tr])" for p
  proof -
    from that have "p \<in> set (dict_get (market_prices s) (condition_id md))
        \<or> p = price_entry_of ar clk tr" by auto
    then show ?thesis
    proof
      assume "p \<in> set (dict_get (market_prices s) (condition_id md))"
      from dict_get_in_set [OF this] obtain v
        where "(condition_id md, v) \<in> set (market_prices s)" and "p \<in> set v" by blast
      then show ?thesis by (rule old_p)
    next
      assume "p = price_entry_of ar clk tr"
      with new_p show ?thesis by simp
    qed
  qed
  have prices: "naive_timestamp fromiso (p_timestamp p)"
    if in_m: "(k, ps) \<in> set (market_prices (stores_updated ar clk tr md s))"
      and in_p: "p \<in> set ps" for k ps p
  proof (cases "truthy (condition_id md)")
    case False
    with in_m have "(k, ps) \<in> set (market_prices s)"
      by (simp add: stores_updated_fields)
    then show ?thesis using in_p by (rule old_p)
  next
    case True
    let ?w = "dict_get (market_prices s) (condition_id md) @ [price_entry_of ar clk tr]"
    let ?d = "dict_append (market_prices s) (condition_id md) (price_entry_of ar clk tr)"
    have in_d: "q \<in> set ?d \<Longrightarrow> q = (condition_id md, ?w) \<or> q \<in> set (market_prices s)" for q
      unfolding dict_append_def by (rule set_update_cases)
    from in_m True have "(k, ps) \<in> set (append_capped 200 (market_prices s) (condition_id md)
        (price_entry_of ar clk tr))"
      by (simp add: stores_updated_fields)
    then have "(k, ps) = (condition_id md, tl ?w) \<or> (k, ps) \<in> set ?d"
      by (auto simp: append_capped_def Let_def dict_get_append
          dest: set_update_cases split: if_splits)
    then have "set ps \<subseteq> set ?w \<or> (k, ps) \<in> set (market_prices s)"
      using in_d [of "(k, ps)"] by (auto dest: list.set_sel(2) [rotated])
    then show ?thesis
      using in_p win old_p by blast
  qed
  show ?thesis
    unfolding timestamps_naive_def using hist prices by blast
qed

lemma analyze_trade_returns_normally:
  assumes "thresholds_complete (thresholds s)" and "timestamps_naive fromiso s"
    and "naive_timestamp fromiso (timestamp_of clk tr)"
    and "key_of_call clk tr md \<notin> sent_alerts s"
  shows "\<exists>age a1 a2 a3 a4 a5 a6.
      get_wallet_age fromiso clk (stores_updated ar clk tr md s) (wallet_of tr) = Inr age
    \<and> fresh_wallet_rule ar (thresholds s) age (wallet_of tr) (value_of ar tr) (question_of md)
         (key_of_call clk tr md) = Inr a1
    \<and> coordinated_rule ar fromiso (thresholds s) (condition_id md)
         (wallet_history (stores_updated ar clk tr md s))
         (value_of ar tr) (timestamp_of clk tr) (outcome_of tr) (wallet_of tr) (question_of md)
         (key_of_call clk tr md) = Inr a6
    \<and> analyze_trade ar fromiso clk tr md s =
        (Inr (a1 @ a2 @ a3 @ a4 @ a5 @ a6),
         mark_sent (a1 @ a2 @ a3 @ a4 @ a5 @ a6) (stores_updated ar clk tr md s))"
proof -
  let ?u = "stores_updated ar clk tr md s"
  have parse_u: "timestamps_naive fromiso ?u"
    by (rule timestamps_naive_stores_updated [OF assms(2,3)])
  have hist_u: "\<forall>(w, trades) \<in> set (wallet_history ?u). \<forall>t \<in> set trades.
                  naive_timestamp fromiso (h_timestamp t)"
    using parse_u by (simp add: timestamps_naive_def)
  have win_u: "\<forall>p \<in> set (dict_get (market_prices ?u) (condition_id md)).
                  naive_timestamp fromiso (p_timestamp p)"
  proof
    fix p assume "p \<in> set (dict_get (market_prices ?u) (condition_id md))"
    from dict_get_in_set [OF this] obtain v
      where "(condition_id md, v) \<in> set (market_prices ?u)" and "p \<in> set v" by blast
    with parse_u show "naive_timestamp fromiso (p_timestamp p)"
      by (auto simp: timestamps_naive_def)
  qed
  have "\<exists>age. get_wallet_age fromiso clk ?u (wallet_of tr) = Inr age"
  proof -
    let ?l = "dict_get (wallet_history s) (wallet_of tr) @ [wallet_entry_of ar clk tr md]"
    have m: "map_of (wallet_history ?u) (wallet_of tr) = Some ?l"
      by (simp add: stores_updated_fields dict_append_def update_conv')
    then have "(wallet_of tr, ?l) \<in> set (wallet_history ?u)" by (rule map_of_SomeD)
    with hist_u have all: "\<forall>t \<in> set ?l. naive_timestamp fromiso (h_timestamp t)" by blast
    obtain e es where l: "?l = e # es" by (cases ?l) auto
    with all have "naive_timestamp fromiso (h_timestamp e)" by (metis list.set_intros(1))
    from naive_timestampD [OF this] obtain t0
      where "fromiso (h_timestamp e) = Some t0" and "\<not> tz_aware t0" by blast
    then show ?thesis
      by (simp add: get_wallet_age_def m l dt_sub_def)
  qed
  then obtain age where r0: "get_wallet_age fromiso clk ?u (wallet_of tr) = Inr age" by blast
  from fresh_wallet_rule_total [OF assms(1)] obtain a1 where
    r1: "fresh_wallet_rule ar (thresholds s) age (wallet_of tr) (value_of ar tr) (question_of md)
           (key_of_call clk tr md) = Inr a1" by blast
  have "\<exists>a2. (if truthy (condition_id md)
          then unusual_size_rule ar (thresholds s) (dict_get (market_volumes s) (condition_id md))
                 (wallet_of tr) (size_of ar tr) (question_of md) (key_of_call clk tr md)
          else Inr []) = Inr a2"
    using unusual_size_rule_total [OF assms(1)] by simp
  then obtain a2 where r2: "(if truthy (condition_id md)
          then unusual_size_rule ar (thresholds s) (dict_get (market_volumes s) (condition_id md))
                 (wallet_of tr) (size_of ar tr) (question_of md) (key_of_call clk tr md)
          else Inr []) = Inr a2" by blast
  from niche_rule_total [OF assms(1)] obtain a3 where
    r3: "niche_rule ar (thresholds s)
           (filter (\<lambda>t. Some (h_market t) = question md)
              (dict_get (wallet_history ?u) (wallet_of tr)))
           (volume_of ar md) (wallet_of tr) (question_of md) (key_of_call clk tr md) = Inr a3"
    by blast
  from conviction_rule_total [OF assms(1)] obtain a4 where
    r4: "conviction_rule ar (thresholds s)
           (dict_get (wallet_outcomes ?u) (wallet_of tr))
           (wallet_of tr) (question_of md) (price_of ar tr) (value_of ar tr)
           (key_of_call clk tr md) = Inr a4" by blast
  from pre_move_rule_total [OF assms(1) assms(3) win_u] obtain a5 where
    r5: "pre_move_rule ar fromiso (thresholds s) (condition_id md)
           (dict_get (market_prices ?u) (condition_id md))
           (value_of ar tr) (timestamp_of clk tr) (price_of ar tr) (wallet_of tr) (question_of md)
           (key_of_call clk tr md) = Inr a5" by blast
  from coordinated_rule_total [OF assms(1) assms(3) hist_u] obtain a6 where
    r6: "coordinated_rule ar fromiso (thresholds s) (condition_id md)
           (wallet_history ?u)
           (value_of ar tr) (timestamp_of clk tr) (outcome_of tr) (wallet_of tr) (question_of md)
           (key_of_call clk tr md) = Inr a6" by blast
  from analyze_trade_from_rules [OF assms(4) r0 r1 r2 r3 r4 r5 r6] r0 r1 r6
  show ?thesis by blast
qed

section \<open>The first trade of a wallet\<close>

lemma fresh_wallet_rule_result:
  assumes "map_of th ''fresh_wallet_days'' = Some days"
    and "map_of th ''fresh_wallet_min_value'' = Some min_value"
  shows "fresh_wallet_rule ar th (Some age) w v m k =
           Inr (if py_lt ar (py_int ar age) days \<and> py_lt ar min_value v
                then [FRESH_WALLET_LARGE_BET w age v m k] else [])"
  using assms by (simp add: fresh_wallet_rule_def th_get_def)

lemma get_wallet_age_first_trade:
  assumes "dict_get (wallet_history s) (wallet_of tr) = []"
    and "fromiso (timestamp_of clk tr) = Some t0" and "\<not> tz_aware t0"
  shows "get_wallet_age fromiso clk (stores_updated ar clk tr md s) (wallet_of tr) =
           Inr (Some ((now_age clk - micros t0) div microseconds_per_day))"
proof -
  have "map_of (wallet_history (stores_updated ar clk tr md s)) (wallet_of tr) =
          Some [wallet_entry_of ar clk tr md]"
    using assms(1) by (simp add: stores_updated_fields dict_append_def update_conv')
  then show ?thesis
    using assms(2,3) by (simp add: get_wallet_age_def wallet_entry_of_def dt_sub_def)
qed

lemma thresholds_complete_init: "thresholds_complete (init_thresholds ar)"
  by (simp add: thresholds_complete_def threshold_names_def init_thresholds_def
      del: not_None_eq)

lemma timestamps_naive_init: "timestamps_naive fromiso ((init_bot ar)\<lparr>thresholds := th\<rparr>)"
  by (simp add: timestamps_naive_def init_bot_def)

text \<open>
  C4, as stated: the first trade of a wallet with value above \<open>fresh_wallet_min_value\<close>
  always produces the fresh-wallet alert, the age being 0. It does not when the trade's
  own timestamp is old: the age is the number of whole days from that timestamp to the
  clock. Here the clock reads ten days after the timestamp and \<open>fresh_wallet_days\<close> is 7.
\<close>

theorem first_trade_fresh_wallet_counterexample:
  "dict_get (wallet_history demo_bot) (wallet_of big_trade) = []
   \<and> map_of (thresholds demo_bot) ''fresh_wallet_days'' = Some (Num 7)
   \<and> map_of (thresholds demo_bot) ''fresh_wallet_min_value'' = Some (Num 1000)
   \<and> value_of demo_arith big_trade = Num 2000
   \<and> py_lt demo_arith (Num 1000) (value_of demo_arith big_trade)
   \<and> py_lt demo_arith (py_int demo_arith 0) (Num 7)
   \<and> demo_fromiso (timestamp_of late_clock big_trade) = Some \<lparr>tz_aware = False, micros = 0\<rparr>
   \<and> now_age late_clock = 10 * microseconds_per_day
   \<and> fst (analyze_trade demo_arith demo_fromiso late_clock big_trade market_m1 demo_bot) = Inr []"
  by (simp add: eval_defs)

text \<open>
  C4, amended: let a wallet have no recorded history, the trade not be a duplicate, its
  timestamp and the stored ones be accepted by \<open>fromisoformat\<close> and carry no UTC offset,
  the thresholds be complete and \<open>value > fresh_wallet_min_value\<close> hold as Python computes
  it. Then the call returns, and the fresh-wallet alert is among its alerts if and only if
  \<open>wallet_age < fresh_wallet_days\<close> holds, where the age is the number of whole days from
  the trade's own timestamp to the clock, because the trade is appended to the history
  before the age is read. When the timestamp lies less than one day before the clock and
  \<open>0 < fresh_wallet_days\<close> holds, the age is 0 and the alert is returned.
\<close>

theorem first_trade_fresh_wallet:
  assumes "thresholds_complete (thresholds s)" and "timestamps_naive fromiso s"
    and "key_of_call clk tr md \<notin> sent_alerts s"
    and "dict_get (wallet_history s) (wallet_of tr) = []"
    and "fromiso (timestamp_of clk tr) = Some t0" and "\<not> tz_aware t0"
    and "map_of (thresholds s) ''fresh_wallet_days'' = Some days"
    and "map_of (thresholds s) ''fresh_wallet_min_value'' = Some min_value"
    and "py_lt ar min_value (value_of ar tr)"
  shows "\<exists>alerts. fst (analyze_trade ar fromiso clk tr md s) = Inr alerts
     \<and> (has_alert ''FRESH_WALLET_LARGE_BET'' alerts \<longleftrightarrow>
          py_lt ar (py_int ar ((now_age clk - micros t0) div microseconds_per_day)) days)
     \<and> (py_lt ar (py_int ar ((now_age clk - micros t0) div microseconds_per_day)) days \<longrightarrow>
          FRESH_WALLET_LARGE_BET (wallet_of tr)
            ((now_age clk - micros t0) div microseconds_per_day)
            (value_of ar tr) (question_of md) (key_of_call clk tr md) \<in> set alerts)
     \<and> (0 \<le> now_age clk - micros t0 \<and> now_age clk - micros t0 < microseconds_per_day
          \<and> py_lt ar (py_int ar 0) days \<longrightarrow>
          FRESH_WALLET_LARGE_BET (wallet_of tr) 0
            (value_of ar tr) (question_of md) (key_of_call clk tr md) \<in> set alerts)"
proof -
  let ?age = "(now_age clk - micros t0) div microseconds_per_day"
  let ?alert = "FRESH_WALLET_LARGE_BET (wallet_of tr) ?age (value_of ar tr) (question_of md)
                  (key_of_call clk tr md)"
  have parses: "naive_timestamp fromiso (timestamp_of clk tr)"
    using assms(5,6) by (simp add: naive_timestamp_def)
  from analyze_trade_returns_normally [OF assms(1,2) parses assms(3)]
  obtain alerts s' where call: "analyze_trade ar fromiso clk tr md s = (Inr alerts, s')"
    by blast
  from analyze_trade_returns [OF call assms(3)] obtain age a1 a2 a3 a4 a5 a6 where
    r0: "get_wallet_age fromiso clk (stores_updated ar clk tr md s) (wallet_of tr) = Inr age"
    and r1: "fresh_wallet_rule ar (thresholds s) age (wallet_of tr) (value_of ar tr) (question_of md)
         (key_of_call clk tr md) = Inr a1"
    and r2: "(if truthy (condition_id md)
        then unusual_size_rule ar (thresholds s) (dict_get (market_volumes s) (condition_id md))
               (wallet_of tr) (size_of ar tr) (question_of md) (key_of_call clk tr md)
        else Inr []) = Inr a2"
    and r3: "niche_rule ar (thresholds s)
         (filter (\<lambda>t. Some (h_market t) = question md)
            (dict_get (wallet_history (stores_updated ar clk tr md s)) (wallet_of tr)))
         (volume_of ar md) (wallet_of tr) (question_of md) (key_of_call clk tr md) = Inr a3"
    and r4: "conviction_rule ar (thresholds s)
         (dict_get (wallet_outcomes (stores_updated ar clk tr md s)) (wallet_of tr))
         (wallet_of tr) (question_of md) (price_of ar tr) (value_of ar tr)
         (key_of_call clk tr md) = Inr a4"
    and r5: "pre_move_rule ar fromiso (thresholds s) (condition_id md)
         (dict_get (market_prices (stores_updated ar clk tr md s)) (condition_id md))
         (value_of ar tr) (timestamp_of clk tr) (price_of ar tr) (wallet_of tr) (question_of md)
         (key_of_call clk tr md) = Inr a5"
    and r6: "coordinated_rule ar fromiso (thresholds s) (condition_id md)
         (wallet_history (stores_updated ar clk tr md s))
         (value_of ar tr) (timestamp_of clk tr) (outcome_of tr) (wallet_of tr) (question_of md)
         (key_of_call clk tr md) = Inr a6"
    and al: "alerts = a1 @ a2 @ a3 @ a4 @ a5 @ a6"
    by blast
  have age: "age = Some ?age"
    using r0 get_wallet_age_first_trade
                [where fromiso = fromiso and md = md and ar = ar, OF assms(4,5,6)]
    by simp
  have a1: "a1 = (if py_lt ar (py_int ar ?age) days then [?alert] else [])"
    using r1 fresh_wallet_rule_result [OF assms(7,8), of ar ?age] assms(9)
    by (simp add: age)
  have has: "has_alert ''FRESH_WALLET_LARGE_BET'' alerts \<longleftrightarrow> a1 \<noteq> []"
    by (simp add: al fresh_wallet_rule_has [OF r1] guarded_unusual_size_has [OF r2]
        niche_rule_has [OF r3] conviction_rule_has [OF r4] pre_move_rule_has [OF r5]
        coordinated_rule_has [OF r6])
  have iff: "has_alert ''FRESH_WALLET_LARGE_BET'' alerts \<longleftrightarrow> py_lt ar (py_int ar ?age) days"
    by (simp add: has a1)
  have mem: "py_lt ar (py_int ar ?age) days \<Longrightarrow> ?alert \<in> set alerts"
    by (simp add: al a1)
  have zero: "?age = 0"
    if "0 \<le> now_age clk - micros t0" and "now_age clk - micros t0 < microseconds_per_day"
    using that by (simp add: microseconds_per_day_def)
  have today: "FRESH_WALLET_LARGE_BET (wallet_of tr) 0 (value_of ar tr) (question_of md)
                 (key_of_call clk tr md) \<in> set alerts"
    if "0 \<le> now_age clk - micros t0" and "now_age clk - micros t0 < microseconds_per_day"
      and "py_lt ar (py_int ar 0) days"
    using mem zero [OF that(1,2)] that(3) by simp
  have "fst (analyze_trade ar fromiso clk tr md s) = Inr alerts"
    by (simp add: call)
  with iff mem today show ?thesis by blast
qed

theorem first_trade_fresh_wallet_witness:
  "thresholds_complete (thresholds demo_bot)
   \<and> timestamps_naive demo_fromiso demo_bot
   \<and> key_of_call demo_clock big_trade market_m1 \<notin> sent_alerts demo_bot
   \<and> dict_get (wallet_history demo_bot) (wallet_of big_trade) = []
   \<and> demo_fromiso (timestamp_of demo_clock big_trade) = Some \<lparr>tz_aware = False, micros = 0\<rparr>
   \<and> map_of (thresholds demo_bot) ''fresh_wallet_days'' = Some (Num 7)
   \<and> map_of (thresholds demo_bot) ''fresh_wallet_min_value'' = Some (Num 1000)
   \<and> py_lt demo_arith (Num 1000) (value_of demo_arith big_trade)
   \<and> py_lt demo_arith (py_int demo_arith 0) (Num 7)
   \<and> (\<exists>alerts. fst (analyze_trade demo_arith demo_fromiso demo_clock big_trade market_m1 demo_bot) =
          Inr alerts
        \<and> FRESH_WALLET_LARGE_BET (wallet_of big_trade) 0 (value_of demo_arith big_trade)
            (question_of market_m1) (key_of_call demo_clock big_trade market_m1) \<in> set alerts)"
proof -
  let ?t0 = "\<lparr>tz_aware = False, micros = 0\<rparr>"
  have h1: "thresholds_complete (thresholds demo_bot)"
    using thresholds_complete_init [of demo_arith] by (simp add: demo_bot_def init_bot_def)
  have h2: "timestamps_naive demo_fromiso demo_bot"
    by (simp add: timestamps_naive_def demo_bot_def init_bot_def)
  have h3: "key_of_call demo_clock big_trade market_m1 \<notin> sent_alerts demo_bot"
    by (simp add: demo_bot_def init_bot_def)
  have h4: "dict_get (wallet_history demo_bot) (wallet_of big_trade) = []"
    by (simp add: demo_bot_def init_bot_def dict_get_def)
  have h5: "demo_fromiso (timestamp_of demo_clock big_trade) = Some ?t0"
    by (simp add: eval_defs)
  have h5': "\<not> tz_aware ?t0" by simp
  have h6: "map_of (thresholds demo_bot) ''fresh_wallet_days'' = Some (Num 7)"
    by (simp add: demo_bot_def init_bot_def init_thresholds_def demo_arith_ops)
  have h7: "map_of (thresholds demo_bot) ''fresh_wallet_min_value'' = Some (Num 1000)"
    by (simp add: demo_bot_def init_bot_def init_thresholds_def demo_arith_ops)
  have h8: "py_lt demo_arith (Num 1000) (value_of demo_arith big_trade)"
    by (simp add: eval_defs)
  have pos: "py_lt demo_arith (py_int demo_arith 0) (Num 7)"
    by (simp add: demo_arith_ops)
  have today: "0 \<le> now_age demo_clock - micros ?t0
                 \<and> now_age demo_clock - micros ?t0 < microseconds_per_day"
    by (simp add: demo_clock_def microseconds_per_day_def)
  from first_trade_fresh_wallet
         [where fromiso = demo_fromiso and md = market_m1, OF h1 h2 h3 h4 h5 h5' h6 h7 h8]
       today pos
  have "\<exists>alerts. fst (analyze_trade demo_arith demo_fromiso demo_clock big_trade market_m1 demo_bot) =
          Inr alerts
        \<and> FRESH_WALLET_LARGE_BET (wallet_of big_trade) 0 (value_of demo_arith big_trade)
            (question_of market_m1) (key_of_call demo_clock big_trade market_m1) \<in> set alerts"
    by blast
  with h1 h2 h3 h4 h5 h6 h7 h8 pos show ?thesis by blast
qed
section \<open>Coordinated entry\<close>

lemma takeWhile_before_underscore:
  "CHR ''_'' \<notin> set w \<Longrightarrow> takeWhile (\<lambda>c. c \<noteq> CHR ''_'') (w @ CHR ''_'' # r) = w"
  by (induction w) auto

lemma alert_key_wallet_inj:
  assumes "CHR ''_'' \<notin> set w" and "CHR ''_'' \<notin> set w'"
    and "alert_key w cid ts = alert_key w' cid' ts'"
  shows "w = w'"
proof -
  have "takeWhile (\<lambda>c. c \<noteq> CHR ''_'') (alert_key w cid ts) = w"
    using takeWhile_before_underscore [OF assms(1)] by (simp add: alert_key_def)
  moreover have "takeWhile (\<lambda>c. c \<noteq> CHR ''_'') (alert_key w' cid' ts') = w'"
    using takeWhile_before_underscore [OF assms(2)] by (simp add: alert_key_def)
  ultimately show ?thesis using assms(3) by simp
qed

lemma coordinated_rule_result:
  assumes "map_of th ''coordinated_min_value'' = Some min_value"
    and "map_of th ''coordinated_min_wallets'' = Some min_wallets"
    and "truthy mid" and "py_lt ar min_value v" and "fromiso ts = Some now"
    and "scan_wallets fromiso now mid oc w h = Inr similar_recent"
  shows "coordinated_rule ar fromiso th mid h v ts oc w m k =
           Inr (if py_le ar min_wallets (py_int ar (int (card (set similar_recent) + 1)))
                then [COORDINATED_ENTRY w (card (set similar_recent) + 1) oc m v k]
                else [])"
  using assms by (simp add: coordinated_rule_def Let_def th_get_def)

lemma filter_coordinated:
  "fresh_wallet_rule ar th age w v m k = Inr a1 \<Longrightarrow>
     filter (\<lambda>x. alert_type x = ''COORDINATED_ENTRY'') a1 = []"
  "(if c then unusual_size_rule ar th rt w sz m k else Inr []) = Inr a2 \<Longrightarrow>
     filter (\<lambda>x. alert_type x = ''COORDINATED_ENTRY'') a2 = []"
  "niche_rule ar th smt vol w m k = Inr a3 \<Longrightarrow>
     filter (\<lambda>x. alert_type x = ''COORDINATED_ENTRY'') a3 = []"
  "conviction_rule ar th os w m pr v k = Inr a4 \<Longrightarrow>
     filter (\<lambda>x. alert_type x = ''COORDINATED_ENTRY'') a4 = []"
  "pre_move_rule ar fromiso th mid rp v ts pr w m k = Inr a5 \<Longrightarrow>
     filter (\<lambda>x. alert_type x = ''COORDINATED_ENTRY'') a5 = []"
  "coordinated_rule ar fromiso th mid h v ts oc w m k = Inr a6 \<Longrightarrow>
     filter (\<lambda>x. alert_type x = ''COORDINATED_ENTRY'') a6 = a6"
proof -
  show "fresh_wallet_rule ar th age w v m k = Inr a1 \<Longrightarrow>
     filter (\<lambda>x. alert_type x = ''COORDINATED_ENTRY'') a1 = []"
    by (drule fresh_wallet_rule_shape) auto
  show "(if c then unusual_size_rule ar th rt w sz m k else Inr []) = Inr a2 \<Longrightarrow>
     filter (\<lambda>x. alert_type x = ''COORDINATED_ENTRY'') a2 = []"
    by (cases c) (auto dest: unusual_size_rule_shape)
  show "niche_rule ar th smt vol w m k = Inr a3 \<Longrightarrow>
     filter (\<lambda>x. alert_type x = ''COORDINATED_ENTRY'') a3 = []"
    by (drule niche_rule_shape) auto
  show "conviction_rule ar th os w m pr v k = Inr a4 \<Longrightarrow>
     filter (\<lambda>x. alert_type x = ''COORDINATED_ENTRY'') a4 = []"
    by (drule conviction_rule_shape) auto
  show "pre_move_rule ar fromiso th mid rp v ts pr w m k = Inr a5 \<Longrightarrow>
     filter (\<lambda>x. alert_type x = ''COORDINATED_ENTRY'') a5 = []"
    by (drule pre_move_rule_shape) auto
  show "coordinated_rule ar fromiso th mid h v ts oc w m k = Inr a6 \<Longrightarrow>
     filter (\<lambda>x. alert_type x = ''COORDINATED_ENTRY'') a6 = a6"
    by (drule coordinated_rule_shape) auto
qed

text \<open>What a call that is processed, on a state whose timestamps parse, does.\<close>

lemma processed_call:
  assumes "thresholds_complete (thresholds s)" and "timestamps_naive fromiso s"
    and "naive_timestamp fromiso (timestamp_of clk tr)"
    and "key_of_call clk tr md \<notin> sent_alerts s"
  shows "\<exists>alerts.
      fst (analyze_trade ar fromiso clk tr md s) = Inr alerts
    \<and> coordinated_rule ar fromiso (thresholds s) (condition_id md)
         (dict_append (wallet_history s) (wallet_of tr) (wallet_entry_of ar clk tr md))
         (value_of ar tr) (timestamp_of clk tr) (outcome_of tr) (wallet_of tr) (question_of md)
         (key_of_call clk tr md)
        = Inr (filter (\<lambda>x. alert_type x = ''COORDINATED_ENTRY'') alerts)
    \<and> wallet_history (snd (analyze_trade ar fromiso clk tr md s)) =
        dict_append (wallet_history s) (wallet_of tr) (wallet_entry_of ar clk tr md)
    \<and> sent_alerts (snd (analyze_trade ar fromiso clk tr md s)) \<subseteq>
        insert (key_of_call clk tr md) (sent_alerts s)
    \<and> thresholds (snd (analyze_trade ar fromiso clk tr md s)) = thresholds s
    \<and> timestamps_naive fromiso (snd (analyze_trade ar fromiso clk tr md s))"
proof -
  from analyze_trade_returns_normally [OF assms]
  obtain alerts s' where call: "analyze_trade ar fromiso clk tr md s = (Inr alerts, s')"
    by blast
  from analyze_trade_returns [OF call assms(4)] obtain age a1 a2 a3 a4 a5 a6 where
    r1: "fresh_wallet_rule ar (thresholds s) age (wallet_of tr) (value_of ar tr) (question_of md)
         (key_of_call clk tr md) = Inr a1"
    and r2: "(if truthy (condition_id md)
        then unusual_size_rule ar (thresholds s) (dict_get (market_volumes s) (condition_id md))
               (wallet_of tr) (size_of ar tr) (question_of md) (key_of_call clk tr md)
        else Inr []) = Inr a2"
    and r3: "niche_rule ar (thresholds s)
         (filter (\<lambda>t. Some (h_market t) = question md)
            (dict_get (wallet_history (stores_updated ar clk tr md s)) (wallet_of tr)))
         (volume_of ar md) (wallet_of tr) (question_of md) (key_of_call clk tr md) = Inr a3"
    and r4: "conviction_rule ar (thresholds s)
         (dict_get (wallet_outcomes (stores_updated ar clk tr md s)) (wallet_of tr))
         (wallet_of tr) (question_of md) (price_of ar tr) (value_of ar tr)
         (key_of_call clk tr md) = Inr a4"
    and r5: "pre_move_rule ar fromiso (thresholds s) (condition_id md)
         (dict_get (market_prices (stores_updated ar clk tr md s)) (condition_id md))
         (value_of ar tr) (timestamp_of clk tr) (price_of ar tr) (wallet_of tr) (question_of md)
         (key_of_call clk tr md) = Inr a5"
    and r6: "coordinated_rule ar fromiso (thresholds s) (condition_id md)
         (wallet_history (stores_updated ar clk tr md s))
         (value_of ar tr) (timestamp_of clk tr) (outcome_of tr) (wallet_of tr) (question_of md)
         (key_of_call clk tr md) = Inr a6"
    and al: "alerts = a1 @ a2 @ a3 @ a4 @ a5 @ a6"
    and post: "s' = mark_sent alerts (stores_updated ar clk tr md s)"
    by blast
  have flt: "filter (\<lambda>x. alert_type x = ''COORDINATED_ENTRY'') alerts = a6"
    by (simp add: al filter_coordinated(1) [OF r1] filter_coordinated(2) [OF r2]
        filter_coordinated(3) [OF r3] filter_coordinated(4) [OF r4]
        filter_coordinated(5) [OF r5] filter_coordinated(6) [OF r6])
  have c1: "fst (analyze_trade ar fromiso clk tr md s) = Inr alerts"
    by (simp add: call)
  have c2: "coordinated_rule ar fromiso (thresholds s) (condition_id md)
         (dict_append (wallet_history s) (wallet_of tr) (wallet_entry_of ar clk tr md))
         (value_of ar tr) (timestamp_of clk tr) (outcome_of tr) (wallet_of tr) (question_of md)
         (key_of_call clk tr md)
        = Inr (filter (\<lambda>x. alert_type x = ''COORDINATED_ENTRY'') alerts)"
    using r6 by (simp add: flt stores_updated_fields)
  have c3: "wallet_history (snd (analyze_trade ar fromiso clk tr md s)) =
        dict_append (wallet_history s) (wallet_of tr) (wallet_entry_of ar clk tr md)"
    using assms(4) by (simp add: analyze_trade_wallet_history)
  have keys: "key_of ` set alerts \<subseteq> {key_of_call clk tr md}"
    using analyze_trade_keys [OF call] by auto
  have c4: "sent_alerts (snd (analyze_trade ar fromiso clk tr md s)) \<subseteq>
        insert (key_of_call clk tr md) (sent_alerts s)"
    using keys by (auto simp: call post sent_alerts_mark_sent stores_updated_fields)
  have c5: "thresholds (snd (analyze_trade ar fromiso clk tr md s)) = thresholds s"
    by (rule analyze_trade_thresholds)
  have "timestamps_naive fromiso (stores_updated ar clk tr md s)"
    by (rule timestamps_naive_stores_updated [OF assms(2,3)])
  then have c6: "timestamps_naive fromiso (snd (analyze_trade ar fromiso clk tr md s))"
    by (simp add: call post timestamps_naive_def)
  from c1 c2 c3 c4 c5 c6 show ?thesis by blast
qed

lemma after_D_eq:
  "after_D =
     \<lparr>wallet_history =
         [(''0xD4'',
           [\<lparr>h_timestamp = ''2024-01-01T00:00:00'', h_market = ''Q'',
             h_market_id = Some ''m1'', h_size = Num 1000, h_value = Num 500,
             h_price = Num (1 / 2), h_outcome = ''No''\<rparr>])],
       market_volumes = [(Some ''m1'', [Num 1000])],
       market_prices =
         [(Some ''m1'', [\<lparr>p_timestamp = ''2024-01-01T00:00:00'', p_price = Num (1 / 2)\<rparr>])],
       wallet_outcomes =
         [(''0xD4'', [\<lparr>o_market_id = Some ''m1'', o_outcome = ''No'', o_price = Num (1 / 2)\<rparr>])],
       sent_alerts = {}, is_paused = False,
       scan_interval = 60, thresholds = init_thresholds demo_arith\<rparr>"
  by (simp add: after_D_def trade_D_def eval_defs)

lemma trade_A_call:
  "analyze_trade demo_arith demo_fromiso demo_clock trade_A market_m1 after_D =
     (Inr [],
      \<lparr>wallet_history =
         [(''0xD4'',
           [\<lparr>h_timestamp = ''2024-01-01T00:00:00'', h_market = ''Q'',
             h_market_id = Some ''m1'', h_size = Num 1000, h_value = Num 500,
             h_price = Num (1 / 2), h_outcome = ''No''\<rparr>]),
          (''0xA1'',
           [\<lparr>h_timestamp = ''2024-01-01T00:01:00'', h_market = ''Q'',
             h_market_id = Some ''m1'', h_size = Num 1000, h_value = Num 500,
             h_price = Num (1 / 2), h_outcome = ''Yes''\<rparr>])],
       market_volumes = [(Some ''m1'', [Num 1000, Num 1000])],
       market_prices =
         [(Some ''m1'', [\<lparr>p_timestamp = ''2024-01-01T00:00:00'', p_price = Num (1 / 2)\<rparr>,
                         \<lparr>p_timestamp = ''2024-01-01T00:01:00'', p_price = Num (1 / 2)\<rparr>])],
       wallet_outcomes =
         [(''0xD4'', [\<lparr>o_market_id = Some ''m1'', o_outcome = ''No'', o_price = Num (1 / 2)\<rparr>]),
          (''0xA1'', [\<lparr>o_market_id = Some ''m1'', o_outcome = ''Yes'', o_price = Num (1 / 2)\<rparr>])],
       sent_alerts = {}, is_paused = False,
       scan_interval = 60, thresholds = init_thresholds demo_arith\<rparr>)"
  by (simp add: after_D_eq trade_A_def eval_defs)

lemma after_A_eq:
  "after_A =
      \<lparr>wallet_history =
         [(''0xD4'',
           [\<lparr>h_timestamp = ''2024-01-01T00:00:00'', h_market = ''Q'',
             h_market_id = Some ''m1'', h_size = Num 1000, h_value = Num 500,
             h_price = Num (1 / 2), h_outcome = ''No''\<rparr>]),
          (''0xA1'',
           [\<lparr>h_timestamp = ''2024-01-01T00:01:00'', h_market = ''Q'',
             h_market_id = Some ''m1'', h_size = Num 1000, h_value = Num 500,
             h_price = Num (1 / 2), h_outcome = ''Yes''\<rparr>])],
       market_volumes = [(Some ''m1'', [Num 1000, Num 1000])],
       market_prices =
         [(Some ''m1'', [\<lparr>p_timestamp = ''2024-01-01T00:00:00'', p_price = Num (1 / 2)\<rparr>,
                         \<lparr>p_timestamp = ''2024-01-01T00:01:00'', p_price = Num (1 / 2)\<rparr>])],
       wallet_outcomes =
         [(''0xD4'', [\<lparr>o_market_id = Some ''m1'', o_outcome = ''No'', o_price = Num (1 / 2)\<rparr>]),
          (''0xA1'', [\<lparr>o_market_id = Some ''m1'', o_outcome = ''Yes'', o_price = Num (1 / 2)\<rparr>])],
       sent_alerts = {}, is_paused = False,
       scan_interval = 60, thresholds = init_thresholds demo_arith\<rparr>"
  by (simp add: after_A_def trade_A_call)

lemma trade_B_call:
  "analyze_trade demo_arith demo_fromiso demo_clock trade_B market_m1 after_A =
     (Inr [],
      \<lparr>wallet_history =
         [(''0xD4'',
           [\<lparr>h_timestamp = ''2024-01-01T00:00:00'', h_market = ''Q'',
             h_market_id = Some ''m1'', h_size = Num 1000, h_value = Num 500,
             h_price = Num (1 / 2), h_outcome = ''No''\<rparr>]),
          (''0xA1'',
           [\<lparr>h_timestamp = ''2024-01-01T00:01:00'', h_market = ''Q'',
             h_market_id = Some ''m1'', h_size = Num 1000, h_value = Num 500,
             h_price = Num (1 / 2), h_outcome = ''Yes''\<rparr>]),
          (''0xB2'',
           [\<lparr>h_timestamp = ''2024-01-01T00:02:00'', h_market = ''Q'',
             h_market_id = Some ''m1'', h_size = Num 1000, h_value = Num 500,
             h_price = Num (1 / 2), h_outcome = ''Yes''\<rparr>])],
       market_volumes = [(Some ''m1'', [Num 1000, Num 1000, Num 1000])],
       market_prices =
         [(Some ''m1'', [\<lparr>p_timestamp = ''2024-01-01T00:00:00'', p_price = Num (1 / 2)\<rparr>,
                         \<lparr>p_timestamp = ''2024-01-01T00:01:00'', p_price = Num (1 / 2)\<rparr>,
                         \<lparr>p_timestamp = ''2024-01-01T00:02:00'', p_price = Num (1 / 2)\<rparr>])],
       wallet_outcomes =
         [(''0xD4'', [\<lparr>o_market_id = Some ''m1'', o_outcome = ''No'', o_price = Num (1 / 2)\<rparr>]),
          (''0xA1'', [\<lparr>o_market_id = Some ''m1'', o_outcome = ''Yes'', o_price = Num (1 / 2)\<rparr>]),
          (''0xB2'', [\<lparr>o_market_id = Some ''m1'', o_outcome = ''Yes'', o_price = Num (1 / 2)\<rparr>])],
       sent_alerts = {}, is_paused = False,
       scan_interval = 60, thresholds = init_thresholds demo_arith\<rparr>)"
  by (simp add: after_A_eq trade_B_def eval_defs)

lemma after_B_eq:
  "after_B =
      \<lparr>wallet_history =
         [(''0xD4'',
           [\<lparr>h_timestamp = ''2024-01-01T00:00:00'', h_market = ''Q'',
             h_market_id = Some ''m1'', h_size = Num 1000, h_value = Num 500,
             h_price = Num (1 / 2), h_outcome = ''No''\<rparr>]),
          (''0xA1'',
           [\<lparr>h_timestamp = ''2024-01-01T00:01:00'', h_market = ''Q'',
             h_market_id = Some ''m1'', h_size = Num 1000, h_value = Num 500,
             h_price = Num (1 / 2), h_outcome = ''Yes''\<rparr>]),
          (''0xB2'',
           [\<lparr>h_timestamp = ''2024-01-01T00:02:00'', h_market = ''Q'',
             h_market_id = Some ''m1'', h_size = Num 1000, h_value = Num 500,
             h_price = Num (1 / 2), h_outcome = ''Yes''\<rparr>])],
       market_volumes = [(Some ''m1'', [Num 1000, Num 1000, Num 1000])],
       market_prices =
         [(Some ''m1'', [\<lparr>p_timestamp = ''2024-01-01T00:00:00'', p_price = Num (1 / 2)\<rparr>,
                         \<lparr>p_timestamp = ''2024-01-01T00:01:00'', p_price = Num (1 / 2)\<rparr>,
                         \<lparr>p_timestamp = ''2024-01-01T00:02:00'', p_price = Num (1 / 2)\<rparr>])],
       wallet_outcomes =
         [(''0xD4'', [\<lparr>o_market_id = Some ''m1'', o_outcome = ''No'', o_price = Num (1 / 2)\<rparr>]),
          (''0xA1'', [\<lparr>o_market_id = Some ''m1'', o_outcome = ''Yes'', o_price = Num (1 / 2)\<rparr>]),
          (''0xB2'', [\<lparr>o_market_id = Some ''m1'', o_outcome = ''Yes'', o_price = Num (1 / 2)\<rparr>])],
       sent_alerts = {}, is_paused = False,
       scan_interval = 60, thresholds = init_thresholds demo_arith\<rparr>"
  by (simp add: after_B_def trade_B_call)

lemma trade_C_call:
  "fst (analyze_trade demo_arith demo_fromiso demo_clock trade_C market_m1 after_B) =
     Inr [COORDINATED_ENTRY ''0xC3'' 3 ''Yes'' ''Q'' (Num 500) ''0xC3_m1_2024-01-01T00:03:00'']"
  by (simp add: after_B_eq trade_C_def eval_defs)

lemma trade_C_late_call:
  "fst (analyze_trade demo_arith demo_fromiso demo_clock trade_C_late market_m1 after_B) = Inr []"
  by (simp add: after_B_eq trade_C_late_def eval_defs)

text \<open>
  C6, as stated: A, B and C trade Yes pairwise within 300 seconds. The rule counts another
  wallet only when its trade lies strictly less than 300 seconds from the current one.
  Here A trades at 00:01:00, B at 00:02:00 and C at 00:06:00, so that the trades of A and C
  are exactly 300 seconds apart, D trades No, every value is 500 and the thresholds are
  those of \<open>__init__\<close>: the call for C counts only B and returns no alert.
\<close>

theorem coordinated_entry_boundary_counterexample:
  "distinct [wallet_of trade_A, wallet_of trade_B, wallet_of trade_C_late, wallet_of trade_D]
   \<and> outcome_of trade_A = ''Yes'' \<and> outcome_of trade_B = ''Yes''
   \<and> outcome_of trade_C_late = ''Yes'' \<and> outcome_of trade_D = ''No''
   \<and> demo_fromiso (timestamp_of demo_clock trade_A) = Some \<lparr>tz_aware = False, micros = 60000000\<rparr>
   \<and> demo_fromiso (timestamp_of demo_clock trade_B) = Some \<lparr>tz_aware = False, micros = 120000000\<rparr>
   \<and> demo_fromiso (timestamp_of demo_clock trade_C_late) =
       Some \<lparr>tz_aware = False, micros = 360000000\<rparr>
   \<and> map_of (thresholds demo_bot) ''coordinated_min_wallets'' = Some (Num 3)
   \<and> map_of (thresholds demo_bot) ''coordinated_min_value'' = Some (Num 200)
   \<and> value_of demo_arith trade_A = Num 500 \<and> value_of demo_arith trade_B = Num 500
   \<and> value_of demo_arith trade_C_late = Num 500
   \<and> after_D = snd (analyze_trade demo_arith demo_fromiso demo_clock trade_D market_m1 demo_bot)
   \<and> after_A = snd (analyze_trade demo_arith demo_fromiso demo_clock trade_A market_m1 after_D)
   \<and> after_B = snd (analyze_trade demo_arith demo_fromiso demo_clock trade_B market_m1 after_A)
   \<and> fst (analyze_trade demo_arith demo_fromiso demo_clock trade_A market_m1 after_D) = Inr []
   \<and> fst (analyze_trade demo_arith demo_fromiso demo_clock trade_B market_m1 after_A) = Inr []
   \<and> fst (analyze_trade demo_arith demo_fromiso demo_clock trade_C_late market_m1 after_B) =
       Inr []"
proof -
  note defs = trade_A_def trade_B_def trade_C_late_def trade_D_def mk_trade_def wallet_of_def
    outcome_of_def timestamp_of_def value_of_def size_of_def price_of_def demo_fromiso_def
    demo_bot_def init_bot_def init_thresholds_def demo_arith_ops
  have wallets:
    "distinct [wallet_of trade_A, wallet_of trade_B, wallet_of trade_C_late, wallet_of trade_D]"
    by (simp add: defs)
  have outcomes: "outcome_of trade_A = ''Yes''" "outcome_of trade_B = ''Yes''"
    "outcome_of trade_C_late = ''Yes''" "outcome_of trade_D = ''No''"
    by (simp_all add: defs)
  have times:
    "demo_fromiso (timestamp_of demo_clock trade_A) = Some \<lparr>tz_aware = False, micros = 60000000\<rparr>"
    "demo_fromiso (timestamp_of demo_clock trade_B) = Some \<lparr>tz_aware = False, micros = 120000000\<rparr>"
    "demo_fromiso (timestamp_of demo_clock trade_C_late) =
       Some \<lparr>tz_aware = False, micros = 360000000\<rparr>"
    by (simp_all add: defs)
  have th: "map_of (thresholds demo_bot) ''coordinated_min_wallets'' = Some (Num 3)"
    "map_of (thresholds demo_bot) ''coordinated_min_value'' = Some (Num 200)"
    by (simp_all add: defs)
  have vals: "value_of demo_arith trade_A = Num 500" "value_of demo_arith trade_B = Num 500"
    "value_of demo_arith trade_C_late = Num 500"
    by (simp_all add: defs)
  have calls:
    "fst (analyze_trade demo_arith demo_fromiso demo_clock trade_A market_m1 after_D) = Inr []"
    "fst (analyze_trade demo_arith demo_fromiso demo_clock trade_B market_m1 after_A) = Inr []"
    "fst (analyze_trade demo_arith demo_fromiso demo_clock trade_C_late market_m1 after_B) =
       Inr []"
    by (simp_all add: trade_A_call trade_B_call trade_C_late_call)
  show ?thesis
    using wallets outcomes times th vals after_D_def after_A_def after_B_def calls
    by (intro conjI) assumption+
qed

text \<open>
  C6, amended: start from the initial state with any complete thresholds in which
  \<open>coordinated_min_wallets\<close> is 3, that is, \<open>n >= coordinated_min_wallets\<close> is false for the
  counts 1 and 2 and true for 3. Let A, B, C, D be four different wallet addresses without
  underscore, the trades of A, B and C have outcome Yes, timestamps that \<open>fromisoformat\<close>
  accepts, without UTC offset and pairwise strictly less than 300 seconds apart, and
  values above \<open>coordinated_min_value\<close>, and the trade of D have another outcome and such
  a timestamp, all on one market with a condition id. After the trade of D, the calls for
  A, B and C in this order return; those for A and B return no coordinated-entry alert,
  and the one for C returns exactly one, which counts 3 wallets.
\<close>

theorem coordinated_entry_at_third_wallet:
  assumes th: "thresholds_complete th"
      "map_of th ''coordinated_min_wallets'' = Some min_wallets"
      "map_of th ''coordinated_min_value'' = Some min_value"
    and three: "\<not> py_le ar min_wallets (py_int ar 1)" "\<not> py_le ar min_wallets (py_int ar 2)"
      "py_le ar min_wallets (py_int ar 3)"
    and wallets: "distinct [wallet_of trA, wallet_of trB, wallet_of trC, wallet_of trD]"
      "CHR ''_'' \<notin> set (wallet_of trA)" "CHR ''_'' \<notin> set (wallet_of trB)"
      "CHR ''_'' \<notin> set (wallet_of trC)" "CHR ''_'' \<notin> set (wallet_of trD)"
    and market: "truthy (condition_id md)"
    and outcomes: "outcome_of trA = ''Yes''" "outcome_of trB = ''Yes''"
      "outcome_of trC = ''Yes''" "outcome_of trD \<noteq> ''Yes''"
    and times: "fromiso (timestamp_of clkA trA) = Some a" "fromiso (timestamp_of clkB trB) = Some b"
      "fromiso (timestamp_of clkC trC) = Some c" "fromiso (timestamp_of clkD trD) = Some d"
    and naive: "\<not> tz_aware a" "\<not> tz_aware b" "\<not> tz_aware c" "\<not> tz_aware d"
    and close: "\<bar>micros a - micros b\<bar> < 300000000" "\<bar>micros a - micros c\<bar> < 300000000"
      "\<bar>micros b - micros c\<bar> < 300000000"
    and vals: "py_lt ar min_value (value_of ar trA)" "py_lt ar min_value (value_of ar trB)"
      "py_lt ar min_value (value_of ar trC)"
    and states:
      "sD = snd (analyze_trade ar fromiso clkD trD md ((init_bot ar)\<lparr>thresholds := th\<rparr>))"
      "sA = snd (analyze_trade ar fromiso clkA trA md sD)"
      "sB = snd (analyze_trade ar fromiso clkB trB md sA)"
  shows "\<exists>alertsA alertsB alertsC.
      fst (analyze_trade ar fromiso clkA trA md sD) = Inr alertsA
    \<and> fst (analyze_trade ar fromiso clkB trB md sA) = Inr alertsB
    \<and> fst (analyze_trade ar fromiso clkC trC md sB) = Inr alertsC
    \<and> \<not> has_alert ''COORDINATED_ENTRY'' alertsA
    \<and> \<not> has_alert ''COORDINATED_ENTRY'' alertsB
    \<and> filter (\<lambda>x. alert_type x = ''COORDINATED_ENTRY'') alertsC =
        [COORDINATED_ENTRY (wallet_of trC) 3 ''Yes'' (question_of md) (value_of ar trC)
           (key_of_call clkC trC md)]"
proof -
  let ?s0 = "(init_bot ar)\<lparr>thresholds := th\<rparr>"
  let ?A = "wallet_of trA" and ?B = "wallet_of trB" and ?C = "wallet_of trC"
    and ?D = "wallet_of trD"
  let ?eA = "wallet_entry_of ar clkA trA md" and ?eB = "wallet_entry_of ar clkB trB md"
    and ?eC = "wallet_entry_of ar clkC trC md" and ?eD = "wallet_entry_of ar clkD trD md"
  let ?kA = "key_of_call clkA trA md" and ?kB = "key_of_call clkB trB md"
    and ?kC = "key_of_call clkC trC md" and ?kD = "key_of_call clkD trD md"
  have ne: "?A \<noteq> ?B" "?A \<noteq> ?C" "?A \<noteq> ?D" "?B \<noteq> ?C" "?B \<noteq> ?D" "?C \<noteq> ?D"
    "?B \<noteq> ?A" "?C \<noteq> ?A" "?D \<noteq> ?A" "?C \<noteq> ?B" "?D \<noteq> ?B" "?D \<noteq> ?C"
    using wallets(1) by auto
  have keys: "?kA \<noteq> ?kD" "?kB \<noteq> ?kD" "?kB \<noteq> ?kA" "?kC \<noteq> ?kD" "?kC \<noteq> ?kA" "?kC \<noteq> ?kB"
    unfolding key_of_call_def
    using alert_key_wallet_inj wallets(2-5) ne by blast+
  have pA: "naive_timestamp fromiso (timestamp_of clkA trA)"
    and pB: "naive_timestamp fromiso (timestamp_of clkB trB)"
    and pC: "naive_timestamp fromiso (timestamp_of clkC trC)"
    and pD: "naive_timestamp fromiso (timestamp_of clkD trD)"
    using times naive by (simp_all add: naive_timestamp_def)
  have close': "\<bar>micros b - micros a\<bar> < 300000000" "\<bar>micros c - micros a\<bar> < 300000000"
    "\<bar>micros c - micros b\<bar> < 300000000"
    using close by linarith+
  have sub: "dt_sub b a = Inr (micros b - micros a)" "dt_sub c a = Inr (micros c - micros a)"
    "dt_sub c b = Inr (micros c - micros b)"
    using naive by (simp_all add: dt_sub_def)

  \<comment> \<open>the initial state\<close>
  have t0: "thresholds_complete (thresholds ?s0)" using th(1) by simp
  have p0: "timestamps_naive fromiso ?s0" by (rule timestamps_naive_init)
  have l0: "sent_alerts ?s0 = {}" by (simp add: init_bot_def)
  have h0: "wallet_history ?s0 = []" by (simp add: init_bot_def)

  \<comment> \<open>the trade of D\<close>
  have uD: "?kD \<notin> sent_alerts ?s0" by (simp add: l0)
  from processed_call [where ar = ar, OF t0 p0 pD uD] have
    hD: "wallet_history sD = [(?D, [?eD])]"
    and lD: "sent_alerts sD \<subseteq> {?kD}"
    and tD: "thresholds sD = th"
    and ppD: "timestamps_naive fromiso sD"
    unfolding states(1) [symmetric] by (auto simp: h0 l0 dict_append_def dict_get_def)
  have tcD: "thresholds_complete (thresholds sD)" using th(1) tD by simp

  \<comment> \<open>the trade of A\<close>
  have uA: "?kA \<notin> sent_alerts sD" using lD keys(1) by auto
  from processed_call [where ar = ar, OF tcD ppD pA uA] obtain alertsA where
    rA: "fst (analyze_trade ar fromiso clkA trA md sD) = Inr alertsA"
    and cA: "coordinated_rule ar fromiso th (condition_id md)
               [(?D, [?eD]), (?A, [?eA])]
               (value_of ar trA) (timestamp_of clkA trA) (outcome_of trA) ?A (question_of md) ?kA
             = Inr (filter (\<lambda>x. alert_type x = ''COORDINATED_ENTRY'') alertsA)"
    and hA: "wallet_history sA = [(?D, [?eD]), (?A, [?eA])]"
    and lA: "sent_alerts sA \<subseteq> {?kD, ?kA}"
    and tA: "thresholds sA = th"
    and ppA: "timestamps_naive fromiso sA"
    unfolding states(2) [symmetric] using lD
    by (auto simp: hD tD ne dict_append_def dict_get_def)
  have tcA: "thresholds_complete (thresholds sA)" using th(1) tA by simp
  have scanA: "scan_wallets fromiso a (condition_id md) ''Yes'' ?A [(?D, [?eD]), (?A, [?eA])] = Inr []"
    using outcomes(4) by (simp add: ne last_n_def wallet_entry_of_def)
  have fA: "filter (\<lambda>x. alert_type x = ''COORDINATED_ENTRY'') alertsA = []"
    using cA coordinated_rule_result [where fromiso = fromiso and ts = "timestamp_of clkA trA",
        OF th(3) th(2) market vals(1) times(1) scanA] three(1)
    by (simp add: outcomes(1))

  \<comment> \<open>the trade of B\<close>
  have uB: "?kB \<notin> sent_alerts sA" using lA keys(2,3) by auto
  from processed_call [where ar = ar, OF tcA ppA pB uB] obtain alertsB where
    rB: "fst (analyze_trade ar fromiso clkB trB md sA) = Inr alertsB"
    and cB: "coordinated_rule ar fromiso th (condition_id md)
               [(?D, [?eD]), (?A, [?eA]), (?B, [?eB])]
               (value_of ar trB) (timestamp_of clkB trB) (outcome_of trB) ?B (question_of md) ?kB
             = Inr (filter (\<lambda>x. alert_type x = ''COORDINATED_ENTRY'') alertsB)"
    and hB: "wallet_history sB = [(?D, [?eD]), (?A, [?eA]), (?B, [?eB])]"
    and lB: "sent_alerts sB \<subseteq> {?kD, ?kA, ?kB}"
    and tB: "thresholds sB = th"
    and ppB: "timestamps_naive fromiso sB"
    unfolding states(3) [symmetric] using lA
    by (auto simp: hA tA ne dict_append_def dict_get_def)
  have tcB: "thresholds_complete (thresholds sB)" using th(1) tB by simp
  have scanB: "scan_wallets fromiso b (condition_id md) ''Yes'' ?B
                 [(?D, [?eD]), (?A, [?eA]), (?B, [?eB])] = Inr [?A]"
    using outcomes(4) outcomes(1) times(1)
    by (simp add: ne last_n_def wallet_entry_of_def close'(1) sub)
  have cardB: "int (card (set [?A]) + 1) = 2" by simp
  have fB: "filter (\<lambda>x. alert_type x = ''COORDINATED_ENTRY'') alertsB = []"
    using cB coordinated_rule_result [where fromiso = fromiso and ts = "timestamp_of clkB trB",
        OF th(3) th(2) market vals(2) times(2) scanB] three(2)
    unfolding cardB by (simp add: outcomes(2))

  \<comment> \<open>the trade of C\<close>
  have uC: "?kC \<notin> sent_alerts sB" using lB keys(4,5,6) by auto
  from processed_call [where ar = ar, OF tcB ppB pC uC] obtain alertsC where
    rC: "fst (analyze_trade ar fromiso clkC trC md sB) = Inr alertsC"
    and cC: "coordinated_rule ar fromiso th (condition_id md)
               [(?D, [?eD]), (?A, [?eA]), (?B, [?eB]), (?C, [?eC])]
               (value_of ar trC) (timestamp_of clkC trC) (outcome_of trC) ?C (question_of md) ?kC
             = Inr (filter (\<lambda>x. alert_type x = ''COORDINATED_ENTRY'') alertsC)"
    by (auto simp: hB tB ne dict_append_def dict_get_def)
  have scanC: "scan_wallets fromiso c (condition_id md) ''Yes'' ?C
                 [(?D, [?eD]), (?A, [?eA]), (?B, [?eB]), (?C, [?eC])] = Inr [?A, ?B]"
    using outcomes(4) outcomes(1,2) times(1,2)
    by (simp add: ne last_n_def wallet_entry_of_def close'(2,3) sub)
  have cardC: "card (set [?A, ?B]) + 1 = 3" "int (card (set [?A, ?B]) + 1) = 3"
    using ne(1) by simp_all
  have fC: "filter (\<lambda>x. alert_type x = ''COORDINATED_ENTRY'') alertsC =
        [COORDINATED_ENTRY ?C 3 ''Yes'' (question_of md) (value_of ar trC) ?kC]"
    using cC coordinated_rule_result [where fromiso = fromiso and ts = "timestamp_of clkC trC",
        OF th(3) th(2) market vals(3) times(3) scanC] three(3)
    unfolding cardC by (simp add: outcomes(3))

  have nA: "\<not> has_alert ''COORDINATED_ENTRY'' alertsA"
    using fA by (auto simp: has_alert_def filter_empty_conv)
  have nB: "\<not> has_alert ''COORDINATED_ENTRY'' alertsB"
    using fB by (auto simp: has_alert_def filter_empty_conv)
  from rA rB rC nA nB fC show ?thesis by blast
qed

theorem coordinated_entry_at_third_wallet_witness:
  "distinct [wallet_of trade_A, wallet_of trade_B, wallet_of trade_C, wallet_of trade_D]
   \<and> truthy (condition_id market_m1)
   \<and> outcome_of trade_D \<noteq> ''Yes''
   \<and> map_of (init_thresholds demo_arith) ''coordinated_min_wallets'' = Some (Num 3)
   \<and> py_lt demo_arith (Num 200) (value_of demo_arith trade_C)
   \<and> (\<exists>alertsA alertsB alertsC.
        fst (analyze_trade demo_arith demo_fromiso demo_clock trade_A market_m1 after_D) = Inr alertsA
      \<and> fst (analyze_trade demo_arith demo_fromiso demo_clock trade_B market_m1 after_A) = Inr alertsB
      \<and> fst (analyze_trade demo_arith demo_fromiso demo_clock trade_C market_m1 after_B) = Inr alertsC
      \<and> \<not> has_alert ''COORDINATED_ENTRY'' alertsA
      \<and> \<not> has_alert ''COORDINATED_ENTRY'' alertsB
      \<and> filter (\<lambda>x. alert_type x = ''COORDINATED_ENTRY'') alertsC =
          [COORDINATED_ENTRY ''0xC3'' 3 ''Yes'' ''Q'' (Num 500) ''0xC3_m1_2024-01-01T00:03:00''])"
proof -
  note defs = trade_A_def trade_B_def trade_C_def trade_D_def mk_trade_def market_m1_def
    mk_market_def wallet_of_def outcome_of_def value_of_def size_of_def price_of_def
    timestamp_of_def demo_fromiso_def question_of_def key_of_call_def alert_key_def
    demo_arith_ops
  let ?a = "\<lparr>tz_aware = False, micros = 60000000\<rparr>"
  let ?b = "\<lparr>tz_aware = False, micros = 120000000\<rparr>"
  let ?c = "\<lparr>tz_aware = False, micros = 180000000\<rparr>"
  let ?d = "\<lparr>tz_aware = False, micros = 0\<rparr>"
  have th: "thresholds_complete (init_thresholds demo_arith)"
    "map_of (init_thresholds demo_arith) ''coordinated_min_wallets'' = Some (Num 3)"
    "map_of (init_thresholds demo_arith) ''coordinated_min_value'' = Some (Num 200)"
    by (rule thresholds_complete_init) (simp_all add: init_thresholds_def demo_arith_ops)
  have three: "\<not> py_le demo_arith (Num 3) (py_int demo_arith 1)"
    "\<not> py_le demo_arith (Num 3) (py_int demo_arith 2)"
    "py_le demo_arith (Num 3) (py_int demo_arith 3)"
    by (simp_all add: demo_arith_ops)
  have wallets: "distinct [wallet_of trade_A, wallet_of trade_B, wallet_of trade_C, wallet_of trade_D]"
    "CHR ''_'' \<notin> set (wallet_of trade_A)" "CHR ''_'' \<notin> set (wallet_of trade_B)"
    "CHR ''_'' \<notin> set (wallet_of trade_C)" "CHR ''_'' \<notin> set (wallet_of trade_D)"
    by (simp_all add: defs)
  have market: "truthy (condition_id market_m1)"
    by (simp add: defs truthy_def)
  have outcomes: "outcome_of trade_A = ''Yes''" "outcome_of trade_B = ''Yes''"
    "outcome_of trade_C = ''Yes''" "outcome_of trade_D \<noteq> ''Yes''"
    by (simp_all add: defs)
  have times: "demo_fromiso (timestamp_of demo_clock trade_A) = Some ?a"
    "demo_fromiso (timestamp_of demo_clock trade_B) = Some ?b"
    "demo_fromiso (timestamp_of demo_clock trade_C) = Some ?c"
    "demo_fromiso (timestamp_of demo_clock trade_D) = Some ?d"
    by (simp_all add: defs)
  have naive: "\<not> tz_aware ?a" "\<not> tz_aware ?b" "\<not> tz_aware ?c" "\<not> tz_aware ?d"
    by simp_all
  have close: "\<bar>micros ?a - micros ?b\<bar> < 300000000"
    "\<bar>micros ?a - micros ?c\<bar> < 300000000"
    "\<bar>micros ?b - micros ?c\<bar> < 300000000"
    by simp_all
  have vals: "py_lt demo_arith (Num 200) (value_of demo_arith trade_A)"
    "py_lt demo_arith (Num 200) (value_of demo_arith trade_B)"
    "py_lt demo_arith (Num 200) (value_of demo_arith trade_C)"
    by (simp_all add: defs)
  have states: "after_D = snd (analyze_trade demo_arith demo_fromiso demo_clock trade_D market_m1
                   ((init_bot demo_arith)\<lparr>thresholds := init_thresholds demo_arith\<rparr>))"
    "after_A = snd (analyze_trade demo_arith demo_fromiso demo_clock trade_A market_m1 after_D)"
    "after_B = snd (analyze_trade demo_arith demo_fromiso demo_clock trade_B market_m1 after_A)"
    by (simp_all add: after_D_def after_A_def after_B_def demo_bot_def init_bot_def)
  have concl: "\<exists>alertsA alertsB alertsC.
        fst (analyze_trade demo_arith demo_fromiso demo_clock trade_A market_m1 after_D) = Inr alertsA
      \<and> fst (analyze_trade demo_arith demo_fromiso demo_clock trade_B market_m1 after_A) = Inr alertsB
      \<and> fst (analyze_trade demo_arith demo_fromiso demo_clock trade_C market_m1 after_B) = Inr alertsC
      \<and> \<not> has_alert ''COORDINATED_ENTRY'' alertsA
      \<and> \<not> has_alert ''COORDINATED_ENTRY'' alertsB
      \<and> filter (\<lambda>x. alert_type x = ''COORDINATED_ENTRY'') alertsC =
          [COORDINATED_ENTRY ''0xC3'' 3 ''Yes'' ''Q'' (Num 500) ''0xC3_m1_2024-01-01T00:03:00'']"
    using coordinated_entry_at_third_wallet
      [where fromiso = demo_fromiso and clkA = demo_clock and clkB = demo_clock
         and clkC = demo_clock and clkD = demo_clock
         and trA = trade_A and trB = trade_B and trC = trade_C and trD = trade_D,
       OF th three wallets market outcomes times naive close vals states]
    by (simp add: defs)
  from wallets(1) market outcomes(4) th(2) vals(3) concl show ?thesis by blast
qed

end
